theory Spec2Isabelle
  imports Complex_Main "HOL-Library.Log_Nat" "HOL-Library.Code_Target_Numeral"
begin

section \<open>Numbers\<close>

text \<open>
  The numbers of the source are IEEE 754 doubles. A finite double is modelled by its
  value, a rational number, and every arithmetic operation of the source by the exact
  operation followed by the rounding \<open>dbl\<close> to the nearest double: 53 significant bits,
  the exponent of the last bit not below \<open>-1074\<close>, a tie going to the even significand.
  \<open>expo x\<close> is the exponent of the leading bit of \<open>x\<close>, found from the bit lengths of
  numerator and denominator.

  Not modelled: overflow (the numbers of this program stay below 57 in absolute value),
  \<^verbatim>\<open>NaN\<close> and the infinities (the program divides by the length of an array only; where
  that length is 0 the model yields 0 and says nothing about the program), and the sign of
  zero (both zeros compare equal and \<^verbatim>\<open>JSON.stringify\<close> prints both as \<^verbatim>\<open>0\<close>).
\<close>

definition roundEven :: "rat \<Rightarrow> int" where
  "roundEven x =
     (let n = \<lfloor>x\<rfloor>; r = x - of_int n
      in if r < 1 / 2 then n else if 1 / 2 < r then n + 1 else if even n then n else n + 1)"

definition expo :: "rat \<Rightarrow> int" where
  "expo x =
     (let (a, b) = quotient_of \<bar>x\<bar>; e = bitlen a - bitlen b
      in if 2 powi e \<le> \<bar>x\<bar> then e else e - 1)"

definition dbl :: "rat \<Rightarrow> rat" where
  "dbl x =
     (if x = 0 then 0
      else let q = max (expo x - 52) (- 1074)
           in of_int (roundEven (x / 2 powi q)) * 2 powi q)"

text \<open>
  The operators \<^verbatim>\<open>+\<close>, \<^verbatim>\<open>-\<close>, \<^verbatim>\<open>*\<close> and \<^verbatim>\<open>/\<close> on doubles. A decimal literal
  of the source such as \<^verbatim>\<open>0.3\<close> is the double \<open>dbl (3 / 10)\<close>; the literals
  \<^verbatim>\<open>0.5\<close>, \<^verbatim>\<open>0.25\<close> and the integers are doubles as they stand. Comparisons,
  \<^verbatim>\<open>Math.floor\<close>, \<^verbatim>\<open>Math.abs\<close>, \<^verbatim>\<open>Math.min\<close> and \<^verbatim>\<open>Math.max\<close> are exact.
\<close>

definition fadd :: "rat \<Rightarrow> rat \<Rightarrow> rat" where
  "fadd x y = dbl (x + y)"

definition fsub :: "rat \<Rightarrow> rat \<Rightarrow> rat" where
  "fsub x y = dbl (x - y)"

definition fmul :: "rat \<Rightarrow> rat \<Rightarrow> rat" where
  "fmul x y = dbl (x * y)"

definition fdiv :: "rat \<Rightarrow> rat \<Rightarrow> rat" where
  "fdiv x y = dbl (x / y)"

section \<open>Data model\<close>

text \<open>
  The records follow the object literals built in \<^verbatim>\<open>getSampleData\<close>
  (frontend/src/hooks/useSentimentData.js).

  A point in time (a JavaScript \<^verbatim>\<open>Date\<close>) is its time value, the number of
  milliseconds since the epoch. \<^verbatim>\<open>toISOString()\<close> prints a time value one-to-one, and
  \<^verbatim>\<open>new Date(str)\<close> reads it back, so \<open>published\<close> holds the time value itself. The
  date part of the ISO text, \<^verbatim>\<open>toISOString().split('T')[0]\<close>, names the UTC day; it
  is kept as the number of that day (\<open>utcDay\<close>), and
  \<^verbatim>\<open>a.published.startsWith(dateStr)\<close> is equality of the two day numbers.

  The three label strings \<^verbatim>\<open>'Positive'\<close>, \<^verbatim>\<open>'Negative'\<close> and
  \<^verbatim>\<open>'Neutral'\<close> are the constructors of \<open>label\<close>.
\<close>

datatype label = Positive | Negative | Neutral

record article =
  headline :: string
  source :: string
  link :: string
  published :: int
  sentiment_score :: rat
  sentiment_label :: label
  confidence :: rat

text \<open>\<open>moving_avg\<close> is absent (\<open>None\<close>) until the moving-average loop assigns it.\<close>

record daily_stat =
  date :: int
  avg_sentiment :: rat
  article_count :: nat
  positive_count :: nat
  negative_count :: nat
  neutral_count :: nat
  moving_avg :: "rat option"

record source_stat =
  source :: string
  avg_sentiment :: rat
  article_count :: nat
  sentiment_label :: label

record snapshot =
  last_updated :: int
  total_articles :: nat
  overall_sentiment :: rat
  overall_label :: label
  daily_stats :: "daily_stat list"
  source_stats :: "source_stat list"
  articles :: "article list"

section \<open>Helpers of the JavaScript runtime\<close>

text \<open>
  \<^verbatim>\<open>parseFloat(x.toFixed(3))\<close>: \<^verbatim>\<open>toFixed\<close> works on the exact value of the double
  \<open>x\<close>. It takes the integer \<open>n\<close> with \<open>n / 1000\<close> closest to \<open>|x|\<close>, the larger one on
  a tie, and prints it with three decimals and the sign of \<open>x\<close>; \<^verbatim>\<open>parseFloat\<close> reads
  that text as the nearest double.
\<close>

definition toFixed3 :: "rat \<Rightarrow> rat" where
  "toFixed3 x = dbl (if x < 0 then - (of_int \<lfloor>- x * 1000 + 1 / 2\<rfloor> / 1000)
                      else of_int \<lfloor>x * 1000 + 1 / 2\<rfloor> / 1000)"

text \<open>
  \<^verbatim>\<open>getSentimentInfo\<close> (frontend/src/components/LineChart.jsx, lines 336 to 358) is the
  threshold function applied to a stored score; of the object it returns the model keeps
  the field \<^verbatim>\<open>label\<close>.
\<close>

definition getSentimentInfo :: "rat \<Rightarrow> label" where
  "getSentimentInfo score =
     (if score > dbl (1 / 5) then Positive
      else if score < - dbl (1 / 5) then Negative else Neutral)"

definition utcDay :: "int \<Rightarrow> int" where
  "utcDay t = t div 86400000"

text \<open>\<^verbatim>\<open>xs.slice(a, b)\<close> for \<open>0 \<le> a\<close>: the entries at indices \<open>a\<close> to \<open>b - 1\<close>.\<close>

definition slice :: "nat \<Rightarrow> nat \<Rightarrow> 'a list \<Rightarrow> 'a list" where
  "slice a b xs = drop a (take b xs)"

text \<open>The decimal text of a number, as a template literal prints it.\<close>

fun digits :: "nat \<Rightarrow> string" where
  "digits n = (if n < 10 then [''0123456789'' ! n]
               else digits (n div 10) @ [''0123456789'' ! (n mod 10)])"

text \<open>
  \<^verbatim>\<open>date.setDate(date.getDate() - day)\<close> on a copy of \<^verbatim>\<open>now\<close> moves \<open>day\<close>
  calendar days back in the local time of the host and converts the result to a time
  value. What that gives depends on the time zone of the host, which is an input: the
  sequence \<open>cal\<close> of distances in milliseconds. \<open>cal 0\<close> is the distance from
  \<^verbatim>\<open>now\<close> back to the date of pass 0: it is 0, except in the hour that occurs twice
  when clocks are set back, where \<^verbatim>\<open>setDate\<close> reads the local time as its first
  occurrence. \<open>cal (d + 1)\<close> is the distance from the date of pass \<open>d\<close> back to the date
  of pass \<open>d + 1\<close>: 24 hours where the offset of local time from UTC is the same at
  both, 23 or 25 hours across a change of the clocks. Going back in the calendar never
  leads forward in time, so the distances are natural numbers. \<open>dateOf now cal day\<close> is
  the time value of \<^verbatim>\<open>date\<close> in pass \<open>day\<close>.
\<close>

fun dateOf :: "int \<Rightarrow> (nat \<Rightarrow> nat) \<Rightarrow> nat \<Rightarrow> int" where
  "dateOf now cal 0 = now - int (cal 0)"
| "dateOf now cal (Suc day) = dateOf now cal day - int (cal (Suc day))"

section \<open>The sample data generator\<close>

definition sources :: "string list" where
  "sources = [''TechCrunch'', ''The Verge'', ''Bloomberg'', ''Reuters'',
              ''BBC News'', ''Ars Technica'', ''VentureBeat'', ''MIT Technology Review'',
              ''The Guardian'', ''New York Times'', ''Wired'', ''CNBC'']"

definition headlines :: "(string \<times> rat) list" where
  "headlines =
    [(''OpenAI Announces Major Breakthrough in AI Safety Research'', dbl (75 / 100)),
     (''Google DeepMind Achieves New Milestone in Protein Folding'', dbl (82 / 100)),
     (''Concerns Rise Over AI Job Displacement in Tech Industry'', - dbl (65 / 100)),
     (''ChatGPT Reaches 200 Million Weekly Users Milestone'', dbl (58 / 100)),
     (''EU Passes Landmark AI Regulation Bill'', dbl (12 / 100)),
     (''Microsoft Integrates AI Deeply Into Windows'', dbl (45 / 100)),
     (''AI Startup Raises $500M in Series C Funding'', dbl (62 / 100)),
     (''Experts Warn of AI-Generated Misinformation Risks'', - dbl (78 / 100)),
     (''New AI Model Achieves Human-Level Performance on Tests'', dbl (71 / 100)),
     (''Tech Giants Face Scrutiny Over AI Training Data'', - dbl (42 / 100)),
     (''AI-Powered Drug Discovery Shows Promising Results'', dbl (85 / 100)),
     (''Privacy Concerns Mount as AI Surveillance Expands'', - dbl (68 / 100)),
     (''Anthropic Releases Claude 3 with Enhanced Capabilities'', dbl (55 / 100)),
     (''AI Copyright Lawsuit Takes Unexpected Turn'', - dbl (35 / 100)),
     (''Meta Unveils New AI-Powered Social Features'', dbl (38 / 100)),
     (''AI Bias Study Reveals Persistent Discrimination Issues'', - dbl (72 / 100)),
     (''Autonomous Vehicles Make Safety Breakthrough'', dbl (68 / 100)),
     (''China Announces Major AI Investment Initiative'', dbl (25 / 100)),
     (''AI Art Generator Sparks Creative Industry Debate'', - dbl (18 / 100)),
     (''Healthcare AI Tools Receive FDA Approval'', dbl (79 / 100))]"

text \<open>
  \<^verbatim>\<open>Math.random()\<close> is an input: \<open>rnd k\<close> is the value of the \<open>k\<close>-th call
  (counted from 0) made by one run, a double in \<open>[0, 1)\<close>. \<^verbatim>\<open>new Date()\<close> is the
  input \<open>now\<close>. The generator state holds the number of calls made so far and the two
  arrays the loops push to.
\<close>

record gen_state =
  calls :: nat
  st_articles :: "article list"
  st_dailyStats :: "daily_stat list"

text \<open>
  One pass of the inner loop (lines 86 to 103) makes four calls of \<^verbatim>\<open>Math.random()\<close>,
  in the order headline, source, variation, confidence. For a pass whose first call is
  call \<open>c\<close>, \<open>sentimentOf rnd c\<close> is the value of its local \<^verbatim>\<open>sentiment\<close> and
  \<open>newArticle\<close> is the object it pushes; \<open>dateMs\<close> is the time value of the day's
  \<^verbatim>\<open>date\<close>. The label is taken from \<^verbatim>\<open>sentiment\<close>, the score is
  \<^verbatim>\<open>sentiment\<close> rounded to three decimals.
\<close>

definition sentimentOf :: "(nat \<Rightarrow> rat) \<Rightarrow> nat \<Rightarrow> rat" where
  "sentimentOf rnd c =
     (let headlineData = headlines ! nat \<lfloor>fmul (rnd c) (of_nat (length headlines))\<rfloor>;
          variation = fmul (fsub (rnd (c + 2)) (1 / 2)) (dbl (3 / 10))
      in max (- 1) (min 1 (fadd (snd headlineData) variation)))"

definition newArticle :: "(nat \<Rightarrow> rat) \<Rightarrow> int \<Rightarrow> nat \<Rightarrow> nat \<Rightarrow> nat \<Rightarrow> article" where
  "newArticle rnd dateMs day i c =
     (let headlineData = headlines ! nat \<lfloor>fmul (rnd c) (of_nat (length headlines))\<rfloor>;
          src = sources ! nat \<lfloor>fmul (rnd (c + 1)) (of_nat (length sources))\<rfloor>;
          sentiment = sentimentOf rnd c
      in \<lparr>headline = fst headlineData,
          article.source = src,
          link = ''https://example.com/article-'' @ digits day @ ''-'' @ digits i,
          published = dateMs - int i * 3600000,
          sentiment_score = toFixed3 sentiment,
          article.sentiment_label =
            (if sentiment > dbl (1 / 5) then Positive
             else if sentiment < - dbl (1 / 5) then Negative else Neutral),
          confidence = toFixed3 (fadd (dbl (7 / 10)) (fmul (rnd (c + 3)) (1 / 4)))\<rparr>)"

definition articleStep ::
  "(nat \<Rightarrow> rat) \<Rightarrow> int \<Rightarrow> nat \<Rightarrow> nat \<Rightarrow> nat \<times> article list \<times> rat \<Rightarrow> nat \<times> article list \<times> rat" where
  "articleStep rnd dateMs day i = (\<lambda>(c, arts, dayTotal).
     (c + 4, arts @ [newArticle rnd dateMs day i c], fadd dayTotal (sentimentOf rnd c)))"

text \<open>
  One pass of the outer loop (lines 77 to 114). The three counts filter the whole
  \<open>articles\<close> array as it stands after the inner loop.
  \<open>numArticlesAt rnd c\<close> is \<^verbatim>\<open>4 + Math.floor(Math.random() * 5)\<close> drawn at call \<open>c\<close>.
\<close>

definition numArticlesAt :: "(nat \<Rightarrow> rat) \<Rightarrow> nat \<Rightarrow> nat" where
  "numArticlesAt rnd c = nat (4 + \<lfloor>fmul (rnd c) 5\<rfloor>)"

definition dayStep ::
  "(nat \<Rightarrow> rat) \<Rightarrow> int \<Rightarrow> (nat \<Rightarrow> nat) \<Rightarrow> nat \<Rightarrow> gen_state \<Rightarrow> gen_state" where
  "dayStep rnd now cal day st =
    (let date = dateOf now cal day;
         dateStr = utcDay date;
         numArticles = numArticlesAt rnd (calls st);
         (c, arts, dayTotal) =
            fold (articleStep rnd date day) [0..<numArticles] (calls st + 1, st_articles st, 0);
         avgSentiment = fdiv dayTotal (of_nat numArticles)
     in \<lparr>calls = c,
         st_articles = arts,
         st_dailyStats = st_dailyStats st @
           [\<lparr>date = dateStr,
             daily_stat.avg_sentiment = toFixed3 avgSentiment,
             daily_stat.article_count = numArticles,
             positive_count = length (filter (\<lambda>a. utcDay (published a) = dateStr
                                                \<and> sentiment_score a > dbl (1 / 5)) arts),
             negative_count = length (filter (\<lambda>a. utcDay (published a) = dateStr
                                                \<and> sentiment_score a < - dbl (1 / 5)) arts),
             neutral_count = length (filter (\<lambda>a. utcDay (published a) = dateStr
                                                \<and> \<bar>sentiment_score a\<bar> \<le> dbl (1 / 5)) arts),
             moving_avg = None\<rparr>]\<rparr>)"

definition genDays :: "(nat \<Rightarrow> rat) \<Rightarrow> int \<Rightarrow> (nat \<Rightarrow> nat) \<Rightarrow> gen_state" where
  "genDays rnd now cal =
     fold (dayStep rnd now cal) [0..<14] \<lparr>calls = 0, st_articles = [], st_dailyStats = []\<rparr>"

text \<open>The moving-average loop (lines 118 to 122), which assigns into the array it reads.\<close>

function movingAvgLoop :: "nat \<Rightarrow> daily_stat list \<Rightarrow> daily_stat list" where
  "movingAvgLoop i dailyStats =
     (if i < length dailyStats then
        let window = slice (nat (max 0 (int i - 6))) (i + 1) dailyStats;
            avg = fdiv (foldl (\<lambda>sum d. fadd sum (daily_stat.avg_sentiment d)) 0 window)
                       (of_nat (length window))
        in movingAvgLoop (i + 1)
             (dailyStats[i := (dailyStats ! i)\<lparr>moving_avg := Some (toFixed3 avg)\<rparr>])
      else dailyStats)"
  by pat_completeness auto
termination
  by (relation "measure (\<lambda>(i, dailyStats). length dailyStats - i)") auto

declare movingAvgLoop.simps [simp del]

text \<open>
  \<open>sourceMap\<close> is an object with string keys, none of them an array index, so
  \<^verbatim>\<open>Object.entries\<close> lists it in the order the keys were first assigned: an
  association list. An entry is the pair of \<open>scores\<close> and \<open>count\<close>.
\<close>

type_synonym source_map = "(string \<times> rat list \<times> nat) list"

fun pushScore :: "string \<Rightarrow> rat \<Rightarrow> source_map \<Rightarrow> source_map" where
  "pushScore k v [] = []"
| "pushScore k v ((k', scores, count) # m) =
     (if k' = k then (k', scores @ [v], count + 1) # m else (k', scores, count) # pushScore k v m)"

definition addToSourceMap :: "article \<Rightarrow> source_map \<Rightarrow> source_map" where
  "addToSourceMap a sourceMap =
     (let sourceMap' = (if map_of sourceMap (article.source a) = None
                        then sourceMap @ [(article.source a, [], 0)] else sourceMap)
      in pushScore (article.source a) (sentiment_score a) sourceMap')"

definition sourceEntry :: "string \<times> rat list \<times> nat \<Rightarrow> source_stat" where
  "sourceEntry = (\<lambda>(src, scores, count).
     \<lparr>source = src,
      avg_sentiment = toFixed3 (fdiv (foldl fadd 0 scores) (of_nat (length scores))),
      article_count = count,
      sentiment_label =
        (if fdiv (foldl fadd 0 scores) (of_nat (length scores)) > dbl (1 / 5) then Positive
         else if fdiv (foldl fadd 0 scores) (of_nat (length scores)) < - dbl (1 / 5)
         then Negative else Neutral)\<rparr>)"

text \<open>
  \<^verbatim>\<open>Array.prototype.sort\<close> is stable. With the comparator
  \<^verbatim>\<open>(a, b) => key(b) - key(a)\<close> it is the stable sort on the negated key.
\<close>

definition sourceStatsOf :: "article list \<Rightarrow> source_stat list" where
  "sourceStatsOf arts =
     sort_key (\<lambda>s. - int (article_count s)) (map sourceEntry (fold addToSourceMap arts []))"

definition getSampleData :: "int \<Rightarrow> (nat \<Rightarrow> nat) \<Rightarrow> (nat \<Rightarrow> rat) \<Rightarrow> snapshot" where
  "getSampleData now cal rnd =
    (let st = genDays rnd now cal;
         arts = st_articles st;
         dailyStats = movingAvgLoop 0 (rev (st_dailyStats st));
         sourceStats = sourceStatsOf arts;
         overallSentiment =
           fdiv (foldl (\<lambda>sum a. fadd sum (sentiment_score a)) 0 arts) (of_nat (length arts))
     in \<lparr>last_updated = now,
         total_articles = length arts,
         overall_sentiment = toFixed3 overallSentiment,
         overall_label =
           (if overallSentiment > dbl (1 / 5) then Positive
            else if overallSentiment < - dbl (1 / 5) then Negative else Neutral),
         daily_stats = dailyStats,
         source_stats = sourceStats,
         articles = sort_key (\<lambda>a. - published a) arts\<rparr>)"

section \<open>Derived notions used to state the properties\<close>

text \<open>
  The arithmetic mean of a list of numbers as the code takes it everywhere: the entries
  are added from the left, starting from 0, and the sum is divided by the number of
  entries, each operation on doubles.
\<close>

definition mean :: "rat list \<Rightarrow> rat" where
  "mean xs = fdiv (foldl fadd 0 xs) (of_nat (length xs))"

text \<open>
  \<open>startCall rnd d\<close> is the number of calls of \<^verbatim>\<open>Math.random()\<close> made before pass
  \<open>d\<close> of the outer loop begins, \<open>dayCount rnd d\<close> the \<^verbatim>\<open>numArticles\<close> of that pass,
  \<open>dayArticles rnd now cal d\<close> the articles that pass pushes, in order, and
  \<open>daySentiments rnd d\<close> the values of \<^verbatim>\<open>sentiment\<close> it adds to \<^verbatim>\<open>dayTotal\<close>.
  \<open>generated rnd now cal n\<close> is the \<open>articles\<close> array after \<open>n\<close> passes and
  \<open>dayStat rnd now cal d\<close> the object pass \<open>d\<close> pushes to \<open>dailyStats\<close>.
\<close>

fun startCall :: "(nat \<Rightarrow> rat) \<Rightarrow> nat \<Rightarrow> nat" where
  "startCall rnd 0 = 0"
| "startCall rnd (Suc d) = startCall rnd d + 1 + 4 * numArticlesAt rnd (startCall rnd d)"

definition dayCount :: "(nat \<Rightarrow> rat) \<Rightarrow> nat \<Rightarrow> nat" where
  "dayCount rnd d = numArticlesAt rnd (startCall rnd d)"

definition dayArticles :: "(nat \<Rightarrow> rat) \<Rightarrow> int \<Rightarrow> (nat \<Rightarrow> nat) \<Rightarrow> nat \<Rightarrow> article list" where
  "dayArticles rnd now cal d =
     map (\<lambda>i. newArticle rnd (dateOf now cal d) d i (startCall rnd d + 1 + 4 * i))
         [0..<dayCount rnd d]"

definition daySentiments :: "(nat \<Rightarrow> rat) \<Rightarrow> nat \<Rightarrow> rat list" where
  "daySentiments rnd d =
     map (\<lambda>i. sentimentOf rnd (startCall rnd d + 1 + 4 * i)) [0..<dayCount rnd d]"

definition generated :: "(nat \<Rightarrow> rat) \<Rightarrow> int \<Rightarrow> (nat \<Rightarrow> nat) \<Rightarrow> nat \<Rightarrow> article list" where
  "generated rnd now cal n = concat (map (dayArticles rnd now cal) [0..<n])"

definition dayStat :: "(nat \<Rightarrow> rat) \<Rightarrow> int \<Rightarrow> (nat \<Rightarrow> nat) \<Rightarrow> nat \<Rightarrow> daily_stat" where
  "dayStat rnd now cal d =
     (let dateStr = utcDay (dateOf now cal d); arts = generated rnd now cal (Suc d)
      in \<lparr>date = dateStr,
          daily_stat.avg_sentiment = toFixed3 (mean (daySentiments rnd d)),
          daily_stat.article_count = dayCount rnd d,
          positive_count = length (filter (\<lambda>a. utcDay (published a) = dateStr
                                             \<and> sentiment_score a > dbl (1 / 5)) arts),
          negative_count = length (filter (\<lambda>a. utcDay (published a) = dateStr
                                             \<and> sentiment_score a < - dbl (1 / 5)) arts),
          neutral_count = length (filter (\<lambda>a. utcDay (published a) = dateStr
                                            \<and> \<bar>sentiment_score a\<bar> \<le> dbl (1 / 5)) arts),
          moving_avg = None\<rparr>)"

text \<open>
  The articles of a snapshot that were published on the UTC day \<open>day\<close>, in the order of
  the snapshot.
\<close>

definition articlesOn :: "snapshot \<Rightarrow> int \<Rightarrow> article list" where
  "articlesOn S day = filter (\<lambda>a. utcDay (published a) = day) (articles S)"

text \<open>The distinct entries of a list, in the order of their first occurrence.\<close>

definition firstOccurrences :: "'a list \<Rightarrow> 'a list" where
  "firstOccurrences xs = rev (remdups (rev xs))"

text \<open>The entry of \<open>sourceMap\<close> for the key \<open>k\<close> after \<open>arts\<close> have been visited.\<close>

definition entryOf :: "article list \<Rightarrow> string \<Rightarrow> string \<times> rat list \<times> nat" where
  "entryOf arts k =
     (k, map sentiment_score (filter (\<lambda>a. article.source a = k) arts),
      length (filter (\<lambda>a. article.source a = k) arts))"

subsection \<open>Clocks and sequences of random numbers for the concrete runs\<close>

text \<open>
  A host whose local time keeps the same offset from UTC (every step back is 24 hours),
  and a host that set its clocks back by an hour between the local days of pass 3 and
  pass 2, so that this step is 25 hours.
\<close>

definition fixedOffset :: "nat \<Rightarrow> nat" where
  "fixedOffset d = (if d = 0 then 0 else 86400000)"

definition clocksSetBack :: "nat \<Rightarrow> nat" where
  "clocksSetBack d = (if d = 0 then 0 else if d = 3 then 90000000 else 86400000)"

text \<open>
  A host on which the run starts in the second pass of the hour that occurs twice when
  clocks are set back: \<^verbatim>\<open>setDate\<close> reads the local time as its first occurrence, an
  hour before \<^verbatim>\<open>now\<close>.
\<close>

definition repeatedHour :: "nat \<Rightarrow> nat" where
  "repeatedHour d = (if d = 0 then 3600000 else 86400000)"

definition rndZero :: "nat \<Rightarrow> rat" where
  "rndZero c = 0"

definition rndC1 :: "nat \<Rightarrow> rat" where
  "rndC1 c = (if c = 1 then 59 / 64 else if c = 3 then 443 / 1024 else 0)"

definition rndC2 :: "nat \<Rightarrow> rat" where
  "rndC2 c = (if c = 3 then 1 / 64 else 0)"

definition rndC8 :: "nat \<Rightarrow> rat" where
  "rndC8 c = (if c = 1 \<or> c = 3 then 1 / 64 else 0)"


definition rndSlip :: "nat \<Rightarrow> rat" where
  "rndSlip c = (if c = 1 \<or> c = 5 \<or> c = 9 \<or> c = 13 then 5 / 16
                else if c = 3 \<or> c = 7 \<or> c = 11 then 1783 / 4096
                else if c = 15 then 1769 / 4096 else 0)"

definition rndC5 :: "nat \<Rightarrow> rat" where
  "rndC5 c = (if c = 1 \<or> c = 5 then 7 / 32 else if c = 3 then 393 / 512
              else if c = 7 then 49 / 64 else 0)"

definition rndC6 :: "nat \<Rightarrow> rat" where
  "rndC6 c = (if c mod 17 = 6 \<or> c mod 17 = 14 then 3 / 16 else 0)"

definition rndSources :: "nat \<Rightarrow> rat" where
  "rndSources c = (if c mod 17 = 2 then 1 / 4 else if c mod 17 = 10 then 3 / 16 else 0)"

section \<open>Normalizer and Deduplicator\<close>

text \<open>
  Modelled from the spec: the Normalizer and Deduplicator of the ingestion pipeline
  (scripts/scraper.py in the repository's layout) is not among the sources at hand; the
  sample generator above takes no raw items and removes nothing. The definitions follow
  section 4.1 of the specification: a raw item has a headline, a source
  label, a link and a publish time, which may be unparsable (\<open>None\<close>); normalization trims
  the headline and collapses its internal whitespace, and discards items with an empty
  headline or an unparsable publish time; items older than the retention horizon of 14 days
  are discarded; an item matching an already-seen key, \<open>(normalized headline, source)\<close> or
  link, is dropped, the first seen wins.
\<close>

text \<open>
  Modelled from the spec: the raw item of section 6,
  \<^verbatim>\<open>RawItem{headline, source, link, published}\<close>, with a publish time that may be
  unparsable.
\<close>

record raw_item =
  raw_headline :: string
  raw_source :: string
  raw_link :: string
  raw_published :: "int option"

text \<open>
  Modelled from the spec: the Article shell of section 4.1, an Article whose sentiment
  fields are not yet populated.
\<close>

record shell =
  sh_headline :: string
  sh_source :: string
  sh_link :: string
  sh_published :: int

text \<open>Modelled from the spec: the characters that count as whitespace in a headline.\<close>

definition isSpace :: "char \<Rightarrow> bool" where
  "isSpace c = (c \<in> set [CHR '' '', CHR 0x09, CHR 0x0A, CHR 0x0B, CHR 0x0C, CHR 0x0D])"

text \<open>
  Modelled from the spec: "collapses internal whitespace". Every run of whitespace before
  a word becomes one space, and whitespace after the last word is dropped.
\<close>

fun collapseSpaces :: "string \<Rightarrow> string" where
  "collapseSpaces [] = []"
| "collapseSpaces (c # cs) =
     (if isSpace c
      then (case collapseSpaces cs of
              [] \<Rightarrow> []
            | d # ds \<Rightarrow> if d = CHR '' '' then d # ds else CHR '' '' # d # ds)
      else c # collapseSpaces cs)"

text \<open>
  Modelled from the spec: "trims whitespace, collapses internal whitespace"; the space
  left before the first word is dropped.
\<close>

definition normalizeHeadline :: "string \<Rightarrow> string" where
  "normalizeHeadline s = dropWhile (\<lambda>c. c = CHR '' '') (collapseSpaces s)"

text \<open>
  Modelled from the spec: "discards items with empty headline or unparsable publish
  time".
\<close>

definition normalizeItem :: "raw_item \<Rightarrow> shell option" where
  "normalizeItem r =
     (let h = normalizeHeadline (raw_headline r)
      in if h = [] then None
         else (case raw_published r of
                 None \<Rightarrow> None
               | Some t \<Rightarrow> Some \<lparr>sh_headline = h, sh_source = raw_source r,
                                 sh_link = raw_link r, sh_published = t\<rparr>))"

text \<open>Modelled from the spec: the configuration option \<^verbatim>\<open>retentionDays\<close>, default 14.\<close>

definition retentionDays :: int where
  "retentionDays = 14"

text \<open>
  Modelled from the spec: "items whose published is older than a fixed horizon (14 days)
  are discarded before further processing".
\<close>

definition retained :: "int \<Rightarrow> shell \<Rightarrow> bool" where
  "retained now s = (now - retentionDays * 86400000 \<le> sh_published s)"

text \<open>
  Modelled from the spec: "an item matching an already-seen key on either dimension is
  dropped; first-seen (by feed fetch order) wins". The keys seen are those of the items
  kept so far.
\<close>

fun dedup :: "(string \<times> string) list \<Rightarrow> string list \<Rightarrow> shell list \<Rightarrow> shell list" where
  "dedup seenKeys seenLinks [] = []"
| "dedup seenKeys seenLinks (s # rest) =
     (if (sh_headline s, sh_source s) \<in> set seenKeys \<or> sh_link s \<in> set seenLinks
      then dedup seenKeys seenLinks rest
      else s # dedup ((sh_headline s, sh_source s) # seenKeys) (sh_link s # seenLinks) rest)"

text \<open>
  Modelled from the spec: the contract of section 4.1, from a sequence of raw items to the
  deduplicated sequence of Article shells.
\<close>

definition normalizeAndDedup :: "int \<Rightarrow> raw_item list \<Rightarrow> shell list" where
  "normalizeAndDedup now items =
     dedup [] [] (filter (retained now) (List.map_filter normalizeItem items))"

section \<open>The hook \<open>useSentimentData\<close>\<close>

text \<open>
  What the environment does with the request is an input. \<^verbatim>\<open>fetch\<close> rejects with an
  error (of which the model keeps the \<^verbatim>\<open>message\<close>) or resolves to a response with
  its \<^verbatim>\<open>ok\<close> flag; \<^verbatim>\<open>response.json()\<close> rejects with an error or resolves to the
  parsed body, which is any JSON value: \<open>None\<close> is the JSON value \<^verbatim>\<open>null\<close>, and
  \<open>'j\<close> is the type of the other JSON values.

  The state is the three \<^verbatim>\<open>useState\<close> cells; \<open>None\<close> is \<^verbatim>\<open>null\<close>. The hook
  returns the cells at each render, so the model lists the states the cells go through:
  the initial one, then one state after each setter call of \<^verbatim>\<open>fetchData\<close>.
\<close>

datatype 'j json_outcome = JsonRejected string | JsonValue "'j option"

datatype 'j fetch_outcome = FetchRejected string | Response bool "'j json_outcome"

datatype 'j data_value = FromJson 'j | SampleData snapshot

record 'j hook_state =
  data :: "'j data_value option"
  loading :: bool
  error :: "string option"

definition initialState :: "'j hook_state" where
  "initialState = \<lparr>data = None, loading = True, error = None\<rparr>"

text \<open>
  The statements of the \<^verbatim>\<open>try\<close> block that can throw: \<open>Inl\<close> carries the
  \<^verbatim>\<open>message\<close> of the error caught, \<open>Inr\<close> the value of \<^verbatim>\<open>jsonData\<close>.
\<close>

definition tryFetch :: "'j fetch_outcome \<Rightarrow> string + 'j option" where
  "tryFetch outcome =
     (case outcome of
        FetchRejected message \<Rightarrow> Inl message
      | Response ok body \<Rightarrow>
          if \<not> ok then Inl ''Failed to fetch sentiment data''
          else (case body of
                  JsonRejected message \<Rightarrow> Inl message
                | JsonValue jsonData \<Rightarrow> Inr jsonData))"

definition fetchData ::
  "int \<Rightarrow> (nat \<Rightarrow> nat) \<Rightarrow> (nat \<Rightarrow> rat) \<Rightarrow> 'j fetch_outcome \<Rightarrow> 'j hook_state
     \<Rightarrow> 'j hook_state list" where
  "fetchData now cal rnd outcome s0 =
     (let s1 = s0\<lparr>loading := True\<rparr>
      in case tryFetch outcome of
           Inr jsonData \<Rightarrow>
             (let s2 = s1\<lparr>data := map_option FromJson jsonData\<rparr>;
                  s3 = s2\<lparr>error := None\<rparr>
              in [s1, s2, s3, s3\<lparr>loading := False\<rparr>])
         | Inl message \<Rightarrow>
             (let s2 = s1\<lparr>error := Some message\<rparr>;
                  s3 = s2\<lparr>data := Some (SampleData (getSampleData now cal rnd))\<rparr>
              in [s1, s2, s3, s3\<lparr>loading := False\<rparr>]))"

definition useSentimentData ::
  "int \<Rightarrow> (nat \<Rightarrow> nat) \<Rightarrow> (nat \<Rightarrow> rat) \<Rightarrow> 'j fetch_outcome \<Rightarrow> 'j hook_state list" where
  "useSentimentData now cal rnd outcome =
     initialState # fetchData now cal rnd outcome initialState"

section \<open>Arithmetic of the rounding helpers\<close>

text \<open>The floor of a quotient of numerals, which the simplifier evaluates for reals only.\<close>

lemma floor_rat_numeral_divide [simp]:
  "\<lfloor>(numeral a / numeral b :: rat)\<rfloor> = numeral a div numeral b"
  using floor_divide_of_int_eq [of "numeral a" "numeral b", where ?'a = rat] by simp

lemma floor_rat_neg_numeral_divide [simp]:
  "\<lfloor>(- (numeral a / numeral b) :: rat)\<rfloor> = - numeral a div numeral b"
  using floor_divide_of_int_eq [of "- numeral a" "numeral b", where ?'a = rat] by simp

lemma floor_rat_one_divide [simp]:
  "\<lfloor>(1 / numeral b :: rat)\<rfloor> = 1 div numeral b"
  using floor_divide_of_int_eq [of 1 "numeral b", where ?'a = rat] by simp

lemma powi_mono: "a \<le> b \<Longrightarrow> (2::rat) powi a \<le> 2 powi b"
  by (rule power_int_increasing) simp_all

lemma powi_pos [simp]: "0 < (2::rat) powi a"
  by (simp add: zero_less_power_int)

subsection \<open>The exponent of the leading bit\<close>

lemma bitlen_rat:
  assumes "0 < a"
  shows "2 powi (bitlen a - 1) \<le> (of_int a :: rat)" "(of_int a :: rat) < 2 powi (bitlen a)"
proof -
  have b: "2 ^ nat (bitlen a - 1) \<le> a" "a < 2 ^ nat (bitlen a)"
    using bitlen_bounds [OF assms] by auto
  have p: "0 < bitlen a"
  proof (rule ccontr)
    assume "\<not> 0 < bitlen a"
    then have "nat (bitlen a) = 0" by simp
    then show False using b(2) assms by simp
  qed
  have "(of_int (2 ^ nat (bitlen a - 1)) :: rat) \<le> of_int a"
    using b(1) by (simp only: of_int_le_iff)
  then show "2 powi (bitlen a - 1) \<le> (of_int a :: rat)"
    using p by (simp add: power_int_def)
  have "(of_int a :: rat) < of_int (2 ^ nat (bitlen a))"
    using b(2) by (simp only: of_int_less_iff)
  then show "(of_int a :: rat) < 2 powi (bitlen a)"
    using p by (simp add: power_int_def)
qed

lemma expo_bounds:
  assumes "x \<noteq> 0"
  shows "2 powi (expo x) \<le> \<bar>x\<bar>" "\<bar>x\<bar> < 2 powi (expo x + 1)"
proof -
  obtain a b where ab: "quotient_of \<bar>x\<bar> = (a, b)" by (cases "quotient_of \<bar>x\<bar>")
  have b: "0 < b" using quotient_of_denom_pos [OF ab] .
  have x: "\<bar>x\<bar> = of_int a / of_int b" using quotient_of_div [OF ab] .
  have a: "0 < a"
  proof -
    have "0 < \<bar>x\<bar>" using assms by simp
    then have "0 < (of_int a :: rat) / of_int b" using x by simp
    then show ?thesis using b by (simp add: zero_less_divide_iff)
  qed
  let ?e = "bitlen a - bitlen b"
  have lo: "2 powi (?e - 1) \<le> \<bar>x\<bar>"
  proof -
    have "2 powi (bitlen a - 1) \<le> (of_int a :: rat)" using bitlen_rat(1) [OF a] .
    moreover have "(of_int b :: rat) \<le> 2 powi (bitlen b)" using bitlen_rat(2) [OF b] by simp
    ultimately have "2 powi (bitlen a - 1) / 2 powi (bitlen b) \<le> (of_int a :: rat) / of_int b"
      using a b by (intro frac_le) simp_all
    moreover have "(2::rat) powi (bitlen a - 1) / 2 powi (bitlen b) = 2 powi (?e - 1)"
      by (simp add: power_int_diff)
    ultimately show ?thesis using x by simp
  qed
  have hi: "\<bar>x\<bar> < 2 powi (?e + 1)"
  proof -
    have "(of_int a :: rat) < 2 powi (bitlen a)" using bitlen_rat(2) [OF a] .
    moreover have "2 powi (bitlen b - 1) \<le> (of_int b :: rat)" using bitlen_rat(1) [OF b] .
    ultimately have "(of_int a :: rat) / of_int b < 2 powi (bitlen a) / 2 powi (bitlen b - 1)"
      using a by (intro frac_less) simp_all
    moreover have "(2::rat) powi (bitlen a) / 2 powi (bitlen b - 1) = 2 powi (?e + 1)"
      by (subst power_int_diff [symmetric]) (simp_all add: algebra_simps)
    ultimately show ?thesis using x by simp
  qed
  have e: "expo x = (if 2 powi ?e \<le> \<bar>x\<bar> then ?e else ?e - 1)"
    by (simp add: expo_def ab)
  show "2 powi (expo x) \<le> \<bar>x\<bar>" using e lo by (simp split: if_splits)
  show "\<bar>x\<bar> < 2 powi (expo x + 1)" using e hi by (simp split: if_splits)
qed

lemma expo_unique:
  assumes "2 powi e \<le> \<bar>x\<bar>" "\<bar>x\<bar> < 2 powi (e + 1)"
  shows "expo x = e"
proof -
  have "0 < \<bar>x\<bar>" using powi_pos [of e] assms(1) by (rule less_le_trans)
  then have nz: "x \<noteq> 0" by simp
  have "\<not> expo x < e"
  proof
    assume "expo x < e"
    then have "(2::rat) powi (expo x + 1) \<le> 2 powi e" by (intro powi_mono) simp
    then show False using expo_bounds(2) [OF nz] assms(1) by simp
  qed
  moreover have "\<not> e < expo x"
  proof
    assume "e < expo x"
    then have "(2::rat) powi (e + 1) \<le> 2 powi (expo x)" by (intro powi_mono) simp
    then show False using expo_bounds(1) [OF nz] assms(2) by simp
  qed
  ultimately show ?thesis by simp
qed

subsection \<open>Rounding to the nearest integer, ties to even\<close>

lemma roundEvenI:
  assumes "of_int m - 1 / 2 < y" "y < of_int m + 1 / 2"
  shows "roundEven y = m"
proof (cases "of_int m \<le> y")
  case True
  then have f: "\<lfloor>y\<rfloor> = m" using assms(2) by (intro floor_unique) simp_all
  show ?thesis using assms(2) by (simp add: roundEven_def Let_def f)
next
  case False
  then have f: "\<lfloor>y\<rfloor> = m - 1" using assms(1) by (intro floor_unique) simp_all
  show ?thesis using assms(1) by (simp add: roundEven_def Let_def f)
qed

lemma roundEven_tie:
  assumes "y = of_int n + 1 / 2"
  shows "roundEven y = (if even n then n else n + 1)"
proof -
  have f: "\<lfloor>y\<rfloor> = n" using assms by (intro floor_unique) simp_all
  show ?thesis by (simp add: roundEven_def Let_def f assms)
qed

lemma roundEven_of_int [simp]: "roundEven (of_int n) = n"
  by (simp add: roundEven_def)

lemma roundEven_bounds: "y - 1 / 2 \<le> of_int (roundEven y)" "of_int (roundEven y) \<le> y + 1 / 2"
proof -
  have f: "of_int \<lfloor>y\<rfloor> \<le> y" "y < of_int \<lfloor>y\<rfloor> + 1" by linarith+
  show "y - 1 / 2 \<le> of_int (roundEven y)"
    unfolding roundEven_def Let_def using f by (simp split: if_splits)
  show "of_int (roundEven y) \<le> y + 1 / 2"
  proof (cases "y - of_int \<lfloor>y\<rfloor> < 1 / 2")
    case True
    then have "roundEven y = \<lfloor>y\<rfloor>" by (simp add: roundEven_def Let_def)
    then show ?thesis using f(1) by linarith
  next
    case False
    then have "of_int (roundEven y) \<le> (of_int \<lfloor>y\<rfloor> :: rat) + 1"
      by (simp add: roundEven_def Let_def)
    then show ?thesis using False by linarith
  qed
qed

subsection \<open>Rounding to the nearest double\<close>

text \<open>
  The value of \<open>dbl\<close> at a number whose leading bit has the exponent \<open>e\<close> and whose
  quotient by the last bit rounds to \<open>m\<close>; the concrete runs below evaluate \<open>dbl\<close> by
  this rule.
\<close>

lemma dblI:
  assumes "2 powi e \<le> \<bar>x\<bar>" "\<bar>x\<bar> < 2 powi (e + 1)" "q = max (e - 52) (- 1074)"
    "roundEven (x / 2 powi q) = m"
  shows "dbl x = of_int m * 2 powi q"
proof -
  have "0 < \<bar>x\<bar>" using powi_pos [of e] assms(1) by (rule less_le_trans)
  then have nz: "x \<noteq> 0" by simp
  show ?thesis
    using nz assms(3,4) by (simp add: dbl_def Let_def expo_unique [OF assms(1,2)])
qed

lemma dbl_nonneg:
  assumes "0 \<le> x"
  shows "0 \<le> dbl x"
proof (cases "x = 0")
  case True
  then show ?thesis by (simp add: dbl_def)
next
  case False
  define q where "q = max (expo x - 52) (- 1074)"
  have "0 \<le> x / 2 powi q" using assms by simp
  then have "- 1 / 2 \<le> (of_int (roundEven (x / 2 powi q)) :: rat)"
    using roundEven_bounds(1) [of "x / 2 powi q"] by linarith
  then have "- 1 < (of_int (roundEven (x / 2 powi q)) :: rat)" by linarith
  then have "0 \<le> roundEven (x / 2 powi q)" by linarith
  then show ?thesis using False by (simp add: dbl_def Let_def q_def)
qed

lemma dbl_less_next:
  assumes "2 powi e \<le> x" "x \<le> of_int n * 2 powi (e - 52) - 2 powi (e - 52) * (5 / 8)"
     "x < 2 powi (e + 1)" "- 1022 \<le> e"
  shows "dbl x < of_int n * 2 powi (e - 52)"
proof -
  have x: "0 < x" using powi_pos [of e] assms(1) by (rule less_le_trans)
  then have ax: "\<bar>x\<bar> = x" by simp
  have e: "expo x = e" using assms(1,3) by (intro expo_unique) (simp_all add: ax)
  have q: "max (e - 52) (- 1074) = e - 52" using assms(4) by simp
  let ?y = "x / 2 powi (e - 52)"
  have "?y \<le> of_int n - 5 / 8"
  proof -
    have "x \<le> (of_int n - 5 / 8) * 2 powi (e - 52)" using assms(2) by (simp add: algebra_simps)
    then show ?thesis by (simp add: pos_divide_le_eq)
  qed
  then have "of_int (roundEven ?y) < (of_int n :: rat)"
    using roundEven_bounds(2) [of ?y] by linarith
  then have "of_int (roundEven ?y) * 2 powi (e - 52) < (of_int n :: rat) * 2 powi (e - 52)"
    by (rule mult_strict_right_mono) simp
  then show ?thesis using x by (simp add: dbl_def Let_def e q)
qed

lemma dbl_le_binade:
  assumes "0 < x" "x < 2 powi e" "- 1022 \<le> e"
  shows "dbl x \<le> 2 powi e"
proof -
  have nz: "x \<noteq> 0" using assms(1) by simp
  have ax: "\<bar>x\<bar> = x" using assms(1) by simp
  define q where "q = max (expo x - 52) (- 1074)"
  have "\<not> e \<le> expo x"
  proof
    assume "e \<le> expo x"
    then have "(2::rat) powi e \<le> 2 powi (expo x)" by (rule powi_mono)
    then show False using expo_bounds(1) [OF nz] assms(2) ax by simp
  qed
  then have eq: "q \<le> e" unfolding q_def using assms(3) by linarith
  have "x / 2 powi q \<le> 2 powi (e - q)"
    using assms(2) by (simp add: power_int_diff field_simps)
  moreover have "(2::rat) powi (e - q) = of_int (2 ^ nat (e - q))"
    using eq by (simp add: power_int_def)
  ultimately have "x / 2 powi q \<le> of_int (2 ^ nat (e - q))" by simp
  then have "of_int (roundEven (x / 2 powi q)) \<le> (of_int (2 ^ nat (e - q)) :: rat) + 1 / 2"
    using roundEven_bounds(2) [of "x / 2 powi q"] by linarith
  then have "roundEven (x / 2 powi q) \<le> 2 ^ nat (e - q)"
    by linarith
  then have "(of_int (roundEven (x / 2 powi q)) :: rat) \<le> of_int (2 ^ nat (e - q))"
    by (simp only: of_int_le_iff)
  then have "(of_int (roundEven (x / 2 powi q)) :: rat) \<le> 2 powi (e - q)"
    using eq by (simp add: power_int_def)
  then have "of_int (roundEven (x / 2 powi q)) * 2 powi q \<le> (2::rat) powi (e - q) * 2 powi q"
    by (rule mult_right_mono) simp
  then show ?thesis using nz by (simp add: dbl_def Let_def q_def [symmetric] power_int_add [symmetric])
qed

text \<open>
  \<open>dbl x\<close> is a double, a multiple of the last bit \<open>2\<^sup>q\<close> by an integer of at most 53 bits,
  and no multiple of \<open>2\<^sup>q\<close> is nearer to \<open>x\<close>.
\<close>

lemma dbl_nearest:
  assumes "x \<noteq> 0"
  shows "\<exists>m. dbl x = of_int m * 2 powi (max (expo x - 52) (- 1074)) \<and> \<bar>m\<bar> \<le> 2 ^ 53
           \<and> \<bar>dbl x - x\<bar> \<le> 2 powi (max (expo x - 52) (- 1074)) / 2"
proof -
  define q where "q = max (expo x - 52) (- 1074)"
  define y where "y = x / 2 powi q"
  define m where "m = roundEven y"
  have d: "dbl x = of_int m * 2 powi q"
    using assms by (simp add: dbl_def Let_def q_def m_def y_def)
  have x: "x = y * 2 powi q" by (simp add: y_def)
  have near: "\<bar>of_int m - y\<bar> \<le> 1 / 2"
    using roundEven_bounds [of y] unfolding m_def by linarith
  have "\<bar>dbl x - x\<bar> = \<bar>of_int m - y\<bar> * 2 powi q"
    by (subst d, subst x) (simp add: abs_mult left_diff_distrib [symmetric])
  then have err: "\<bar>dbl x - x\<bar> \<le> 2 powi q / 2"
    using near mult_right_mono [of "\<bar>of_int m - y\<bar>" "1 / 2" "2 powi q"] by simp
  have "expo x + 1 - q \<le> 53" by (simp add: q_def)
  then have "(2::rat) powi (expo x + 1 - q) \<le> 2 powi 53" by (rule powi_mono)
  moreover have "\<bar>y\<bar> < 2 powi (expo x + 1 - q)"
  proof -
    have "\<bar>y\<bar> = \<bar>x\<bar> / 2 powi q" by (simp add: y_def)
    also have "\<dots> < 2 powi (expo x + 1) / 2 powi q"
      using expo_bounds(2) [OF assms] by (simp add: divide_strict_right_mono)
    also have "\<dots> = 2 powi (expo x + 1 - q)" by (simp add: power_int_diff)
    finally show ?thesis .
  qed
  ultimately have "\<bar>y\<bar> < 9007199254740992" by simp
  then have y: "- 9007199254740992 < y" "y < 9007199254740992" by linarith+
  have b: "y - 1 / 2 \<le> of_int m" "of_int m \<le> y + 1 / 2"
    using roundEven_bounds [of y] unfolding m_def by simp_all
  have "(of_int m :: rat) < 9007199254740993" "- 9007199254740993 < (of_int m :: rat)"
    using b y by linarith+
  then have "m < 9007199254740993" "- 9007199254740993 < m" by simp_all
  then have "\<bar>m\<bar> \<le> 2 ^ 53" by simp
  then show ?thesis
    using d err unfolding q_def by blast
qed

lemma dbl_0 [simp]: "dbl 0 = 0"
  by (simp add: dbl_def)

lemma fadd_0 [simp]: "fadd 0 0 = 0"
  by (simp add: fadd_def)

lemma fmul_0 [simp]: "fmul 0 x = 0"
  by (simp add: fmul_def)

section \<open>The loops in closed form\<close>

lemma fold_articleStep:
  "fold (articleStep rnd dm day) [0..<n] (c, arts, t) =
     (c + 4 * n,
      arts @ map (\<lambda>i. newArticle rnd dm day i (c + 4 * i)) [0..<n],
      foldl fadd t (map (\<lambda>i. sentimentOf rnd (c + 4 * i)) [0..<n]))"
  by (induction n) (simp_all add: articleStep_def)

lemma dayStep_eq:
  assumes "calls st = startCall rnd d" "st_articles st = generated rnd now cal d"
  shows "dayStep rnd now cal d st =
           \<lparr>calls = startCall rnd (Suc d),
            st_articles = generated rnd now cal (Suc d),
            st_dailyStats = st_dailyStats st @ [dayStat rnd now cal d]\<rparr>"
  using assms
  by (simp add: dayStep_def fold_articleStep Let_def dayStat_def generated_def
      dayArticles_def daySentiments_def dayCount_def mean_def add.assoc)

lemma fold_dayStep:
  "fold (dayStep rnd now cal) [0..<n] \<lparr>calls = 0, st_articles = [], st_dailyStats = []\<rparr> =
     \<lparr>calls = startCall rnd n,
      st_articles = generated rnd now cal n,
      st_dailyStats = map (dayStat rnd now cal) [0..<n]\<rparr>"
proof (induction n)
  case 0
  show ?case by (simp add: generated_def)
next
  case (Suc n)
  show ?case
    by (simp add: Suc dayStep_eq)
qed

lemma genDays_eq:
  "genDays rnd now cal =
     \<lparr>calls = startCall rnd 14,
      st_articles = generated rnd now cal 14,
      st_dailyStats = map (dayStat rnd now cal) [0..<14]\<rparr>"
  unfolding genDays_def by (rule fold_dayStep)

lemma foldl_fadd_map: "foldl (\<lambda>s x. fadd s (f x)) a xs = foldl fadd a (map f xs)"
  by (induction xs arbitrary: a) simp_all

lemma slice_map: "slice a b (map f xs) = map f (slice a b xs)"
  by (simp add: slice_def take_map drop_map)

lemma slice_nth: "b \<le> length xs \<Longrightarrow> slice a b xs = map ((!) xs) [a..<b]"
  by (rule nth_equalityI) (auto simp: slice_def)

lemma nat_max_minus6: "nat (max 0 (int i - 6)) = i - 6"
  by simp

lemma length_movingAvgLoop: "length (movingAvgLoop i ds) = length ds"
proof (induction i ds rule: movingAvgLoop.induct)
  case (1 i ds)
  show ?case
  proof (cases "i < length ds")
    case True
    with "1" show ?thesis by (subst movingAvgLoop.simps) (simp add: Let_def)
  next
    case False
    then show ?thesis by (subst movingAvgLoop.simps) simp
  qed
qed

lemma movingAvgLoop_nth:
  "k < length ds \<Longrightarrow>
   movingAvgLoop i ds ! k =
     (if i \<le> k
      then (ds ! k)\<lparr>moving_avg :=
             Some (toFixed3 (mean (slice (k - 6) (k + 1) (map daily_stat.avg_sentiment ds))))\<rparr>
      else ds ! k)"
proof (induction i ds rule: movingAvgLoop.induct)
  case (1 i ds)
  show ?case
  proof (cases "i < length ds")
    case False
    with "1.prems" show ?thesis by (subst movingAvgLoop.simps) simp
  next
    case True
    define w where "w = slice (nat (max 0 (int i - 6))) (i + 1) ds"
    define v where
      "v = fdiv (foldl (\<lambda>sum d. fadd sum (daily_stat.avg_sentiment d)) 0 w) (of_nat (length w))"
    define ds' where "ds' = ds[i := (ds ! i)\<lparr>moving_avg := Some (toFixed3 v)\<rparr>]"
    have step: "movingAvgLoop i ds = movingAvgLoop (i + 1) ds'"
      using True by (subst movingAvgLoop.simps) (simp add: Let_def ds'_def v_def w_def)
    have avg: "map daily_stat.avg_sentiment ds' = map daily_stat.avg_sentiment ds"
      using True by (simp add: ds'_def map_update list_update_same_conv)
    have v: "v = mean (slice (i - 6) (i + 1) (map daily_stat.avg_sentiment ds))"
      by (simp add: v_def w_def mean_def slice_map foldl_fadd_map [symmetric] nat_max_minus6)
    have k': "k < length ds'" using "1.prems" by (simp add: ds'_def)
    have IH: "movingAvgLoop (i + 1) ds' ! k =
        (if i + 1 \<le> k
         then (ds' ! k)\<lparr>moving_avg :=
                Some (toFixed3 (mean (slice (k - 6) (k + 1) (map daily_stat.avg_sentiment ds'))))\<rparr>
         else ds' ! k)"
      using "1.IH"[OF True refl refl] k' unfolding ds'_def v_def w_def by simp
    show ?thesis
    proof (cases "k = i")
      case True
      with IH step \<open>i < length ds\<close> v show ?thesis by (simp add: ds'_def)
    next
      case False
      with IH step avg "1.prems" show ?thesis by (auto simp: ds'_def)
    qed
  qed
qed

section \<open>The fields of the snapshot\<close>

lemma articles_getSampleData:
  "articles (getSampleData now cal rnd) =
     sort_key (\<lambda>a. - published a) (generated rnd now cal 14)"
  by (simp add: getSampleData_def Let_def genDays_eq)

lemma source_stats_getSampleData:
  "source_stats (getSampleData now cal rnd) = sourceStatsOf (generated rnd now cal 14)"
  by (simp add: getSampleData_def Let_def genDays_eq)

lemma daily_stats_getSampleData:
  "daily_stats (getSampleData now cal rnd) =
     movingAvgLoop 0 (rev (map (dayStat rnd now cal) [0..<14]))"
  by (simp add: getSampleData_def Let_def genDays_eq)

lemma total_articles_getSampleData:
  "total_articles (getSampleData now cal rnd) = length (generated rnd now cal 14)"
  by (simp add: getSampleData_def Let_def genDays_eq)

lemma overall_sentiment_getSampleData:
  "overall_sentiment (getSampleData now cal rnd) =
     toFixed3 (mean (map sentiment_score (generated rnd now cal 14)))"
  by (simp add: getSampleData_def Let_def genDays_eq mean_def foldl_fadd_map [symmetric])


lemma last_updated_getSampleData: "last_updated (getSampleData now cal rnd) = now"
  by (simp add: getSampleData_def Let_def)

lemma length_daily_stats: "length (daily_stats (getSampleData now cal rnd)) = 14"
  by (simp add: daily_stats_getSampleData length_movingAvgLoop)

lemma rev_dayStat_nth:
  "i < 14 \<Longrightarrow> rev (map (dayStat rnd now cal) [0..<14]) ! i = dayStat rnd now cal (13 - i)"
  by (simp add: rev_nth)

lemma daily_stats_nth:
  "i < 14 \<Longrightarrow>
   daily_stats (getSampleData now cal rnd) ! i =
     (dayStat rnd now cal (13 - i))
       \<lparr>moving_avg := Some (toFixed3 (mean (slice (i - 6) (i + 1)
           (map daily_stat.avg_sentiment (rev (map (dayStat rnd now cal) [0..<14]))))))\<rparr>"
  by (simp add: daily_stats_getSampleData movingAvgLoop_nth rev_dayStat_nth del: upt_rec_numeral)

lemma upt_14: "[0..<14] = [0, 1, 2, 3, 4, 5, 6, 7, 8, 9, 10, 11, 12, 13]"
  by (simp add: upt_rec)

lemma avg_daily_stats_nth:
  "k < 14 \<Longrightarrow>
   daily_stat.avg_sentiment (daily_stats (getSampleData now cal rnd) ! k) =
     daily_stat.avg_sentiment (dayStat rnd now cal (13 - k))"
  by (simp add: daily_stats_nth del: upt_rec_numeral)

lemma window_daily_stats:
  assumes "i < 14"
  shows "slice (i - 6) (i + 1)
           (map daily_stat.avg_sentiment (rev (map (dayStat rnd now cal) [0..<14]))) =
         map (\<lambda>k. daily_stat.avg_sentiment (daily_stats (getSampleData now cal rnd) ! k))
           [i - 6..<i + 1]"
proof -
  let ?D = "map daily_stat.avg_sentiment (rev (map (dayStat rnd now cal) [0..<14]))"
  have "slice (i - 6) (i + 1) ?D = map ((!) ?D) [i - 6..<i + 1]"
    using assms by (intro slice_nth) simp
  also have "\<dots> = map (\<lambda>k. daily_stat.avg_sentiment (daily_stats (getSampleData now cal rnd) ! k))
                     [i - 6..<i + 1]"
  proof (rule map_cong [OF refl])
    fix k assume "k \<in> set [i - 6..<i + 1]"
    then have k: "k < 14" using assms by auto
    then show "?D ! k = daily_stat.avg_sentiment (daily_stats (getSampleData now cal rnd) ! k)"
      by (simp add: avg_daily_stats_nth rev_dayStat_nth del: upt_rec_numeral)
  qed
  finally show ?thesis .
qed

lemma moving_avg_daily_stats_nth:
  assumes "i < 14"
  shows "moving_avg (daily_stats (getSampleData now cal rnd) ! i) =
           Some (toFixed3 (mean
             (map (\<lambda>k. daily_stat.avg_sentiment (daily_stats (getSampleData now cal rnd) ! k))
                [i - 6..<i + 1])))"
proof -
  have "moving_avg (daily_stats (getSampleData now cal rnd) ! i) =
          Some (toFixed3 (mean (slice (i - 6) (i + 1)
            (map daily_stat.avg_sentiment (rev (map (dayStat rnd now cal) [0..<14]))))))"
    using assms by (simp add: daily_stats_nth del: upt_rec_numeral)
  then show ?thesis
    by (simp only: window_daily_stats [OF assms])
qed

text \<open>
  Claim C2, as the code has it: for every index \<open>i\<close> into \<open>daily_stats\<close>,
  \<open>moving_avg\<close> at \<open>i\<close> is the arithmetic mean of \<open>avg_sentiment\<close> over the entries at
  the indices \<open>max 0 (i - 6)\<close> to \<open>i\<close>, rounded to three decimals. The mean is \<open>mean\<close>:
  the sum of the entries in the order of their indices, divided by their number, in
  double arithmetic. (On natural numbers \<open>i - 6\<close> is \<open>0\<close> for \<open>i < 6\<close>, so the window is
  shorter at the start of the series.)
\<close>

theorem C2_moving_avg_rounded:
  assumes "i < length (daily_stats (getSampleData now cal rnd))"
  shows "moving_avg (daily_stats (getSampleData now cal rnd) ! i) =
           Some (toFixed3 (mean
             (map (\<lambda>k. daily_stat.avg_sentiment (daily_stats (getSampleData now cal rnd) ! k))
                [i - 6..<i + 1])))"
  using assms by (intro moving_avg_daily_stats_nth) (simp add: length_daily_stats)

text \<open>
  The hypothesis of the theorem above holds at index 13 of the run in which call 3 of
  \<^verbatim>\<open>Math.random()\<close> returns 1/64 and all others 0; the mean of that window is not a
  number with three decimals (see the section on that run below).
\<close>

theorem C2_moving_avg_rounded_witness:
  "(13::nat) < length (daily_stats (getSampleData 0 fixedOffset rndC2))
   \<and> moving_avg (daily_stats (getSampleData 0 fixedOffset rndC2) ! 13) =
       Some (toFixed3 (mean
         (map (\<lambda>k. daily_stat.avg_sentiment (daily_stats (getSampleData 0 fixedOffset rndC2) ! k))
            [13 - 6..<13 + 1])))"
proof -
  have h: "(13::nat) < length (daily_stats (getSampleData 0 fixedOffset rndC2))"
    by (simp add: length_daily_stats)
  show ?thesis
    using h C2_moving_avg_rounded [OF h] by blast
qed

section \<open>Bounds that follow from the range of \<^verbatim>\<open>Math.random()\<close>\<close>

text \<open>The largest double below 1 is \<open>1 - 2\<^sup>-\<^sup>5\<^sup>3\<close>.\<close>

lemma double_below_one:
  assumes "dbl r = r" "0 \<le> r" "r < 1"
  shows "r \<le> 1 - 1 / 2 ^ 53"
proof (cases "r = 0")
  case True
  then show ?thesis by simp
next
  case False
  then have pos: "0 < r" using assms(2) by simp
  then have ar: "\<bar>r\<bar> = r" by simp
  have lo: "2 powi (expo r) \<le> r" and hi: "r < 2 powi (expo r + 1)"
    using expo_bounds [OF False] ar by simp_all
  have e: "expo r \<le> - 1"
  proof (rule ccontr)
    assume "\<not> expo r \<le> - 1"
    then have "(2::rat) powi 0 \<le> 2 powi (expo r)" by (intro powi_mono) simp
    then show False using lo assms(3) by simp
  qed
  show ?thesis
  proof (cases "expo r = - 1")
    case True
    define m where "m = roundEven (r / 2 powi (- 53))"
    have r: "r = of_int m * 2 powi (- 53)"
      using assms(1) False by (simp add: dbl_def Let_def True m_def)
    have "(of_int m :: rat) < of_int (2 ^ 53)"
      using assms(3) by (subst (asm) r) (simp add: power_int_minus field_simps)
    then have "m < 2 ^ 53" by (simp only: of_int_less_iff)
    then have "m \<le> 2 ^ 53 - 1" by simp
    then have "(of_int m :: rat) \<le> of_int (2 ^ 53 - 1)" by (simp only: of_int_le_iff)
    then show ?thesis by (subst r) (simp add: power_int_minus field_simps)
  next
    case False
    then have "expo r + 1 \<le> - 1" using e by simp
    then have "(2::rat) powi (expo r + 1) \<le> 2 powi (- 1)" by (rule powi_mono)
    then have "r < 1 / 2" using hi by (simp add: power_int_minus)
    then show ?thesis by simp
  qed
qed

lemma dbl_less_5:
  assumes "0 \<le> x" "x \<le> 5 - 5 / 2 ^ 53"
  shows "dbl x < 5"
proof -
  consider "x = 0" | "0 < x" "x < 4" | "4 \<le> x" using assms(1) by fastforce
  then show ?thesis
  proof cases
    case 1
    then show ?thesis by simp
  next
    case 2
    then have "dbl x \<le> 2 powi 2"
      by (intro dbl_le_binade) simp_all
    then show ?thesis by simp
  next
    case 3
    have "dbl x < of_int (5 * 2 ^ 50) * 2 powi (2 - 52)"
      using 3 assms(2) by (intro dbl_less_next) (simp_all add: power_int_minus)
    then show ?thesis by (simp add: power_int_minus)
  qed
qed

lemma numArticlesAt_bounds:
  assumes "dbl (rnd c) = rnd c" "0 \<le> rnd c" "rnd c < 1"
  shows "4 \<le> numArticlesAt rnd c" "numArticlesAt rnd c \<le> 8"
proof -
  have "rnd c \<le> 1 - 1 / 2 ^ 53" using assms by (rule double_below_one)
  then have "rnd c * 5 \<le> 5 - 5 / 2 ^ 53" by simp
  then have "fmul (rnd c) 5 < 5"
    unfolding fmul_def using assms(2) by (intro dbl_less_5) simp_all
  then have "\<lfloor>fmul (rnd c) 5\<rfloor> < 5" by (simp add: floor_less_iff)
  moreover have "0 \<le> fmul (rnd c) 5"
    unfolding fmul_def using assms(2) by (intro dbl_nonneg) simp
  then have "0 \<le> \<lfloor>fmul (rnd c) 5\<rfloor>" by simp
  ultimately show "4 \<le> numArticlesAt rnd c" "numArticlesAt rnd c \<le> 8"
    unfolding numArticlesAt_def by linarith+
qed

lemma dayCount_bounds:
  assumes "\<And>c. dbl (rnd c) = rnd c \<and> 0 \<le> rnd c \<and> rnd c < 1"
  shows "4 \<le> dayCount rnd d" "dayCount rnd d \<le> 8"
  using numArticlesAt_bounds [of rnd "startCall rnd d"] assms by (simp_all add: dayCount_def)

lemma length_dayArticles: "length (dayArticles rnd now cal d) = dayCount rnd d"
  by (simp add: dayArticles_def)

lemma length_daySentiments: "length (daySentiments rnd d) = dayCount rnd d"
  by (simp add: daySentiments_def)

lemma generated_Suc:
  "generated rnd now cal (Suc n) = generated rnd now cal n @ dayArticles rnd now cal n"
  by (simp add: generated_def)


section \<open>Order of the two sequences\<close>

lemma dateOf_mono: "d \<le> d' \<Longrightarrow> dateOf now cal d' \<le> dateOf now cal d"
proof (induction d')
  case 0
  then show ?case by simp
next
  case (Suc d')
  show ?case
  proof (cases "d = Suc d'")
    case True
    then show ?thesis by simp
  next
    case False
    then have "dateOf now cal d' \<le> dateOf now cal d" using Suc by simp
    then show ?thesis by simp
  qed
qed

lemma utcDay_mono: "s \<le> t \<Longrightarrow> utcDay s \<le> utcDay t"
  by (simp add: utcDay_def zdiv_mono1)

lemma date_daily_stats_nth:
  "i < 14 \<Longrightarrow> date (daily_stats (getSampleData now cal rnd) ! i) = utcDay (dateOf now cal (13 - i))"
  by (simp add: daily_stats_nth dayStat_def Let_def del: upt_rec_numeral)

text \<open>
  Claim C9: \<open>articles\<close> is in descending order of \<open>published\<close>, and \<open>daily_stats\<close> is in
  ascending order of \<open>date\<close>.
\<close>

theorem C9_orderings:
  "sorted_wrt (\<lambda>a b. published a \<ge> published b) (articles (getSampleData now cal rnd))
   \<and> sorted_wrt (\<lambda>a b. date a \<le> date b) (daily_stats (getSampleData now cal rnd))"
proof
  have "sorted (map (\<lambda>a. - published a) (articles (getSampleData now cal rnd)))"
    by (simp add: articles_getSampleData)
  then show "sorted_wrt (\<lambda>a b. published a \<ge> published b) (articles (getSampleData now cal rnd))"
    by (simp add: sorted_map)
next
  show "sorted_wrt (\<lambda>a b. date a \<le> date b) (daily_stats (getSampleData now cal rnd))"
    unfolding sorted_wrt_iff_nth_less
    by (simp add: length_daily_stats date_daily_stats_nth utcDay_mono dateOf_mono)
qed

section \<open>The articles are pushed in descending order of \<open>published\<close>\<close>

lemma published_newArticle: "published (newArticle rnd dm d i c) = dm - int i * 3600000"
  by (simp add: newArticle_def Let_def)

lemma published_dayArticles:
  assumes "a \<in> set (dayArticles rnd now cal d)"
  shows "\<exists>i < dayCount rnd d. published a = dateOf now cal d - int i * 3600000"
  using assms by (auto simp: dayArticles_def published_newArticle)

lemma sorted_dayArticles: "sorted (map (\<lambda>a. - published a) (dayArticles rnd now cal d))"
  by (simp add: sorted_iff_nth_mono dayArticles_def published_newArticle)

text \<open>
  Where every step back in the calendar is at least seven hours long, each pass stamps its
  articles before the articles of the passes before it.
\<close>

lemma sorted_generated:
  assumes valid: "\<And>c. dbl (rnd c) = rnd c \<and> 0 \<le> rnd c \<and> rnd c < 1"
    and step: "\<And>d. d < 13 \<Longrightarrow> dateOf now cal (Suc d) \<le> dateOf now cal d - 25200000"
  shows "n \<le> 14 \<Longrightarrow>
         sorted (map (\<lambda>a. - published a) (generated rnd now cal n))
         \<and> (n < 14 \<longrightarrow> (\<forall>a \<in> set (generated rnd now cal n). dateOf now cal n \<le> published a))"
proof (induction n)
  case 0
  show ?case by (simp add: generated_def)
next
  case (Suc n)
  then have n: "n < 14" by simp
  have IH: "sorted (map (\<lambda>a. - published a) (generated rnd now cal n))"
    "\<forall>a \<in> set (generated rnd now cal n). dateOf now cal n \<le> published a"
    using Suc by simp_all
  have new: "dateOf now cal n - 25200000 \<le> published b \<and> published b \<le> dateOf now cal n"
    if b: "b \<in> set (dayArticles rnd now cal n)" for b
  proof -
    obtain i where "i < dayCount rnd n" "published b = dateOf now cal n - int i * 3600000"
      using published_dayArticles [OF b] by blast
    moreover have "dayCount rnd n \<le> 8" using dayCount_bounds(2) [of rnd n, OF valid] .
    ultimately show ?thesis by simp
  qed
  have "sorted (map (\<lambda>a. - published a) (generated rnd now cal (Suc n)))"
    using IH new by (fastforce simp: generated_Suc sorted_append sorted_dayArticles)
  moreover have "\<forall>a \<in> set (generated rnd now cal (Suc n)). dateOf now cal (Suc n) \<le> published a"
    if "Suc n < 14"
  proof
    fix a assume "a \<in> set (generated rnd now cal (Suc n))"
    then consider "a \<in> set (generated rnd now cal n)" | "a \<in> set (dayArticles rnd now cal n)"
      by (auto simp: generated_Suc)
    then show "dateOf now cal (Suc n) \<le> published a"
    proof cases
      case 1
      then have "dateOf now cal n \<le> published a" using IH(2) by blast
      moreover have "dateOf now cal (Suc n) \<le> dateOf now cal n" by simp
      ultimately show ?thesis by linarith
    next
      case 2
      then have "dateOf now cal n - 25200000 \<le> published a" using new by blast
      moreover have "dateOf now cal (Suc n) \<le> dateOf now cal n - 25200000"
        using step [of n] that by simp
      ultimately show ?thesis by linarith
    qed
  qed
  ultimately show ?case by blast
qed

lemma articles_eq_generated:
  assumes "\<And>c. dbl (rnd c) = rnd c \<and> 0 \<le> rnd c \<and> rnd c < 1"
    and "\<And>d. d < 13 \<Longrightarrow> dateOf now cal (Suc d) \<le> dateOf now cal d - 25200000"
  shows "articles (getSampleData now cal rnd) = generated rnd now cal 14"
  using sorted_generated [of rnd now cal 14, OF assms]
  by (simp add: articles_getSampleData sort_key_id_if_sorted)

lemma step_of_calendar:
  assumes "\<And>d. 25200000 \<le> cal (Suc d)"
  shows "dateOf now cal (Suc d) \<le> dateOf now cal d - 25200000"
  using assms [of d] by simp

lemma generated_nth_day0:
  assumes "i < dayCount rnd 0"
  shows "generated rnd now cal 14 ! i = newArticle rnd (dateOf now cal 0) 0 i (1 + 4 * i)"
proof -
  have "generated rnd now cal 14 =
          dayArticles rnd now cal 0 @ concat (map (dayArticles rnd now cal) [1..<14])"
    by (simp add: generated_def upt_rec [of 0 14])
  then show ?thesis
    using assms by (simp add: nth_append length_dayArticles dayArticles_def)
qed

lemma fixedOffset_step: "25200000 \<le> fixedOffset (Suc d)"
  by (simp add: fixedOffset_def)

lemma clocksSetBack_step: "25200000 \<le> clocksSetBack (Suc d)"
  by (simp add: clocksSetBack_def)

lemma dateOf_fixedOffset: "dateOf now fixedOffset d = now - int d * 86400000"
  by (induction d) (simp_all add: fixedOffset_def)

section \<open>Labels and stored scores of the articles\<close>

lemma dbl_C1:
  "dbl (59 / 64) = 59 / 64"
  "dbl (443 / 1024) = 443 / 1024"
  "dbl (- (69 / 1024)) = - (69 / 1024)"
  "dbl (3 / 10) = 5404319552844595 / 18014398509481984"
  "dbl (- (372898049146277055 / 18446744073709551616)) = - (5826532017910579 / 288230376151711744)"
  "dbl (295 / 16) = 295 / 16"
  "dbl (9 / 50) = 3242591731706757 / 18014398509481984"
  "dbl (- (57707999725218691 / 288230376151711744)) = - (450843747853271 / 2251799813685248)"
  "dbl (- (1 / 5)) = - (3602879701896397 / 18014398509481984)"
  "dbl (1 / 5) = 3602879701896397 / 18014398509481984"
  "dbl (7 / 10) = 3152519739159347 / 4503599627370496"
  "dbl (3152519739159347 / 4503599627370496) = 3152519739159347 / 4503599627370496"
proof -
  show "dbl (59 / 64) = 59 / 64"
    by (rule trans [OF dblI [where e = "- 1" and q = "- 53" and m = "8303511812964352"]])
       (simp_all add: roundEvenI power_int_minus)
  show "dbl (443 / 1024) = 443 / 1024"
    by (rule trans [OF dblI [where e = "- 2" and q = "- 54" and m = "7793338417676288"]])
       (simp_all add: roundEvenI power_int_minus)
  show "dbl (- (69 / 1024)) = - (69 / 1024)"
    by (rule trans [OF dblI [where e = "- 4" and q = "- 56" and m = "- 4855443348258816"]])
       (simp_all add: roundEvenI power_int_minus)
  show "dbl (3 / 10) = 5404319552844595 / 18014398509481984"
    by (rule trans [OF dblI [where e = "- 2" and q = "- 54" and m = "5404319552844595"]])
       (simp_all add: roundEvenI power_int_minus)
  show "dbl (- (372898049146277055 / 18446744073709551616)) = - (5826532017910579 / 288230376151711744)"
    by (rule trans [OF dblI [where e = "- 6" and q = "- 58" and m = "- 5826532017910579"]])
       (simp_all add: roundEvenI power_int_minus)
  show "dbl (295 / 16) = 295 / 16"
    by (rule trans [OF dblI [where e = "4" and q = "- 48" and m = "5189694883102720"]])
       (simp_all add: roundEvenI power_int_minus)
  show "dbl (9 / 50) = 3242591731706757 / 18014398509481984"
    by (rule trans [OF dblI [where e = "- 3" and q = "- 55" and m = "6485183463413514"]])
       (simp_all add: roundEvenI power_int_minus)
  show "dbl (- (57707999725218691 / 288230376151711744)) = - (450843747853271 / 2251799813685248)"
    by (rule trans [OF dblI [where e = "- 3" and q = "- 55" and m = "- 7213499965652336"]])
       (simp_all add: roundEvenI power_int_minus)
  show "dbl (- (1 / 5)) = - (3602879701896397 / 18014398509481984)"
    by (rule trans [OF dblI [where e = "- 3" and q = "- 55" and m = "- 7205759403792794"]])
       (simp_all add: roundEvenI power_int_minus)
  show "dbl (1 / 5) = 3602879701896397 / 18014398509481984"
    by (rule trans [OF dblI [where e = "- 3" and q = "- 55" and m = "7205759403792794"]])
       (simp_all add: roundEvenI power_int_minus)
  show "dbl (7 / 10) = 3152519739159347 / 4503599627370496"
    by (rule trans [OF dblI [where e = "- 1" and q = "- 53" and m = "6305039478318694"]])
       (simp_all add: roundEvenI power_int_minus)
  show "dbl (3152519739159347 / 4503599627370496) = 3152519739159347 / 4503599627370496"
    by (rule trans [OF dblI [where e = "- 1" and q = "- 53" and m = "6305039478318694"]])
       (simp_all add: roundEvenI power_int_minus)
qed

lemma rndC1_range: "dbl (rndC1 c) = rndC1 c \<and> 0 \<le> rndC1 c \<and> rndC1 c < 1"
  by (simp add: rndC1_def dbl_C1)

lemma first_article_rndC1:
  "articles (getSampleData 0 fixedOffset rndC1) ! 0 = newArticle rndC1 0 0 0 1"
proof -
  have "0 < dayCount rndC1 0"
    by (simp add: dayCount_def numArticlesAt_def rndC1_def)
  then show ?thesis
    using generated_nth_day0 [of 0 rndC1 0 fixedOffset]
    by (simp add: articles_eq_generated [of rndC1 0 fixedOffset, OF rndC1_range
          step_of_calendar [of fixedOffset, OF fixedOffset_step]] fixedOffset_def)
qed

text \<open>
  Claim C1 at a run the code can make: call 1 of \<^verbatim>\<open>Math.random()\<close> returns 59/64
  (headline 18, base sentiment -0.18), call 3 returns 443/1024 (variation -0.0202...), all
  other calls return 0; the run starts at the epoch on a host with a fixed offset. The
  local \<^verbatim>\<open>sentiment\<close> of the first article is the double -0.20021484374999998: its label
  is taken from that number and is \<open>Negative\<close>, its stored score is that number rounded,
  the double -0.2, for which the claim and the threshold function applied to the stored
  score give \<open>Neutral\<close>.
\<close>

theorem C1_label_from_unrounded_sentiment:
  "sentiment_score (articles (getSampleData 0 fixedOffset rndC1) ! 0) = dbl (- (1 / 5))
   \<and> article.sentiment_label (articles (getSampleData 0 fixedOffset rndC1) ! 0) = Negative
   \<and> getSentimentInfo (sentiment_score (articles (getSampleData 0 fixedOffset rndC1) ! 0)) = Neutral"
  by (simp add: first_article_rndC1 newArticle_def sentimentOf_def Let_def rndC1_def
      headlines_def toFixed3_def getSentimentInfo_def fadd_def fsub_def fmul_def dbl_C1)

lemma dbl_C5:
  "dbl (7 / 32) = 7 / 32"
  "dbl (393 / 512) = 393 / 512"
  "dbl (49 / 64) = 49 / 64"
  "dbl (137 / 512) = 137 / 512"
  "dbl (3 / 10) = 5404319552844595 / 18014398509481984"
  "dbl (740391778739709515 / 9223372036854775808) = 5784310771403981 / 72057594037927936"
  "dbl (35 / 8) = 35 / 8"
  "dbl (3 / 25) = 1080863910568919 / 9007199254740992"
  "dbl (14431222055955333 / 72057594037927936) = 3607805513988833 / 18014398509481984"
  "dbl (1 / 5) = 3602879701896397 / 18014398509481984"
  "dbl (7 / 10) = 3152519739159347 / 4503599627370496"
  "dbl (3152519739159347 / 4503599627370496) = 3152519739159347 / 4503599627370496"
  "dbl (17 / 64) = 17 / 64"
  "dbl (91873432398358115 / 1152921504606846976) = 2871044762448691 / 36028797018963968"
  "dbl (7194500404724367 / 36028797018963968) = 7194500404724367 / 36028797018963968"
proof -
  show "dbl (7 / 32) = 7 / 32"
    by (rule trans [OF dblI [where e = "- 3" and q = "- 55" and m = "7881299347898368"]])
       (simp_all add: roundEvenI power_int_minus)
  show "dbl (393 / 512) = 393 / 512"
    by (rule trans [OF dblI [where e = "- 1" and q = "- 53" and m = "6913729115455488"]])
       (simp_all add: roundEvenI power_int_minus)
  show "dbl (49 / 64) = 49 / 64"
    by (rule trans [OF dblI [where e = "- 1" and q = "- 53" and m = "6896136929411072"]])
       (simp_all add: roundEvenI power_int_minus)
  show "dbl (137 / 512) = 137 / 512"
    by (rule trans [OF dblI [where e = "- 2" and q = "- 54" and m = "4820258976169984"]])
       (simp_all add: roundEvenI power_int_minus)
  show "dbl (3 / 10) = 5404319552844595 / 18014398509481984"
    by (rule trans [OF dblI [where e = "- 2" and q = "- 54" and m = "5404319552844595"]])
       (simp_all add: roundEvenI power_int_minus)
  show "dbl (740391778739709515 / 9223372036854775808) = 5784310771403981 / 72057594037927936"
    by (rule trans [OF dblI [where e = "- 4" and q = "- 56" and m = "5784310771403981"]])
       (simp_all add: roundEvenI power_int_minus)
  show "dbl (35 / 8) = 35 / 8"
    by (rule trans [OF dblI [where e = "2" and q = "- 50" and m = "4925812092436480"]])
       (simp_all add: roundEvenI power_int_minus)
  show "dbl (3 / 25) = 1080863910568919 / 9007199254740992"
    by (rule trans [OF dblI [where e = "- 4" and q = "- 56" and m = "8646911284551352"]])
       (simp_all add: roundEvenI power_int_minus)
  show "dbl (14431222055955333 / 72057594037927936) = 3607805513988833 / 18014398509481984"
    by (rule trans [OF dblI [where e = "- 3" and q = "- 55" and m = "7215611027977666"]])
       (simp_all add: roundEven_tie [where n = "7215611027977666"] power_int_minus)
  show "dbl (1 / 5) = 3602879701896397 / 18014398509481984"
    by (rule trans [OF dblI [where e = "- 3" and q = "- 55" and m = "7205759403792794"]])
       (simp_all add: roundEvenI power_int_minus)
  show "dbl (7 / 10) = 3152519739159347 / 4503599627370496"
    by (rule trans [OF dblI [where e = "- 1" and q = "- 53" and m = "6305039478318694"]])
       (simp_all add: roundEvenI power_int_minus)
  show "dbl (3152519739159347 / 4503599627370496) = 3152519739159347 / 4503599627370496"
    by (rule trans [OF dblI [where e = "- 1" and q = "- 53" and m = "6305039478318694"]])
       (simp_all add: roundEvenI power_int_minus)
  show "dbl (17 / 64) = 17 / 64"
    by (rule trans [OF dblI [where e = "- 2" and q = "- 54" and m = "4785074604081152"]])
       (simp_all add: roundEvenI power_int_minus)
  show "dbl (91873432398358115 / 1152921504606846976) = 2871044762448691 / 36028797018963968"
    by (rule trans [OF dblI [where e = "- 4" and q = "- 56" and m = "5742089524897382"]])
       (simp_all add: roundEvenI power_int_minus)
  show "dbl (7194500404724367 / 36028797018963968) = 7194500404724367 / 36028797018963968"
    by (rule trans [OF dblI [where e = "- 3" and q = "- 55" and m = "7194500404724367"]])
       (simp_all add: roundEvenI power_int_minus)
qed

lemma rndC5_range: "dbl (rndC5 c) = rndC5 c \<and> 0 \<le> rndC5 c \<and> rndC5 c < 1"
  by (simp add: rndC5_def dbl_C5)

lemma first_articles_rndC5:
  "articles (getSampleData 0 fixedOffset rndC5) ! 0 = newArticle rndC5 0 0 0 1"
  "articles (getSampleData 0 fixedOffset rndC5) ! Suc 0 = newArticle rndC5 0 0 1 5"
proof -
  have "dayCount rndC5 0 = 4"
    by (simp add: dayCount_def numArticlesAt_def rndC5_def)
  then show "articles (getSampleData 0 fixedOffset rndC5) ! 0 = newArticle rndC5 0 0 0 1"
    "articles (getSampleData 0 fixedOffset rndC5) ! Suc 0 = newArticle rndC5 0 0 1 5"
    using generated_nth_day0 [of 0 rndC5 0 fixedOffset] generated_nth_day0 [of 1 rndC5 0 fixedOffset]
    by (simp_all add: articles_eq_generated [of rndC5 0 fixedOffset, OF rndC5_range
          step_of_calendar [of fixedOffset, OF fixedOffset_step]] fixedOffset_def)
qed

text \<open>
  Claim C5 at a run the code can make: calls 1 and 5 return 7/32 (headline 4, base
  sentiment 0.12), call 3 returns 393/512 and call 7 returns 49/64 (the two variations),
  all other calls return 0. The first two articles have the sentiments
  0.20027343749999998 and 0.1996875: both are stored as the score 0.2, the first with the
  label \<open>Positive\<close>, the second with the label \<open>Neutral\<close>.
\<close>

theorem C5_equal_scores_different_labels:
  "sentiment_score (articles (getSampleData 0 fixedOffset rndC5) ! 0)
     = sentiment_score (articles (getSampleData 0 fixedOffset rndC5) ! 1)
   \<and> article.sentiment_label (articles (getSampleData 0 fixedOffset rndC5) ! 0) = Positive
   \<and> article.sentiment_label (articles (getSampleData 0 fixedOffset rndC5) ! 1) = Neutral"
  by (simp add: first_articles_rndC5 newArticle_def sentimentOf_def Let_def rndC5_def
      headlines_def toFixed3_def fadd_def fsub_def fmul_def dbl_C5)

lemma rndZero_range: "dbl (rndZero c) = rndZero c \<and> 0 \<le> rndZero c \<and> rndZero c < 1"
  by (simp add: rndZero_def)

section \<open>Deduplication\<close>

lemma dedup_fresh:
  "s \<in> set (dedup seenKeys seenLinks xs) \<Longrightarrow>
   (sh_headline s, sh_source s) \<notin> set seenKeys \<and> sh_link s \<notin> set seenLinks"
proof (induction xs arbitrary: seenKeys seenLinks)
  case Nil
  then show ?case by simp
next
  case (Cons x xs)
  show ?case
  proof (cases "(sh_headline x, sh_source x) \<in> set seenKeys \<or> sh_link x \<in> set seenLinks")
    case True
    with Cons show ?thesis by simp
  next
    case False
    with Cons.prems have "s = x \<or> s \<in> set (dedup ((sh_headline x, sh_source x) # seenKeys)
                                                (sh_link x # seenLinks) xs)"
      by auto
    then show ?thesis
    proof
      assume "s = x"
      with False show ?thesis by simp
    next
      assume "s \<in> set (dedup ((sh_headline x, sh_source x) # seenKeys) (sh_link x # seenLinks) xs)"
      from Cons.IH [OF this] show ?thesis by simp
    qed
  qed
qed

lemma dedup_distinct:
  "distinct (map (\<lambda>s. (sh_headline s, sh_source s)) (dedup seenKeys seenLinks xs))
   \<and> distinct (map sh_link (dedup seenKeys seenLinks xs))"
proof (induction xs arbitrary: seenKeys seenLinks)
  case Nil
  show ?case by simp
next
  case (Cons x xs)
  show ?case
  proof (cases "(sh_headline x, sh_source x) \<in> set seenKeys \<or> sh_link x \<in> set seenLinks")
    case True
    with Cons show ?thesis by simp
  next
    case False
    let ?rest = "dedup ((sh_headline x, sh_source x) # seenKeys) (sh_link x # seenLinks) xs"
    have "(sh_headline x, sh_source x) \<notin> (\<lambda>s. (sh_headline s, sh_source s)) ` set ?rest"
      using dedup_fresh [of _ "(sh_headline x, sh_source x) # seenKeys" "sh_link x # seenLinks" xs]
      by force
    moreover have "sh_link x \<notin> sh_link ` set ?rest"
      using dedup_fresh [of _ "(sh_headline x, sh_source x) # seenKeys" "sh_link x # seenLinks" xs]
      by force
    ultimately show ?thesis
      using False Cons.IH [of "(sh_headline x, sh_source x) # seenKeys" "sh_link x # seenLinks"]
      by simp
  qed
qed

lemma at_most_one: "distinct (map f ys) \<Longrightarrow> length (filter (\<lambda>y. f y = k) ys) \<le> 1"
proof (induction ys)
  case Nil
  show ?case by simp
next
  case (Cons y ys)
  show ?case
  proof (cases "f y = k")
    case True
    with Cons.prems have "k \<notin> f ` set ys" by auto
    then have "filter (\<lambda>y. f y = k) ys = []"
      unfolding filter_empty_conv by (metis imageI)
    with True show ?thesis by simp
  next
    case False
    with Cons show ?thesis by simp
  qed
qed

text \<open>
  Claim C7, on the Normalizer and Deduplicator modelled from the specification: for any
  headline \<open>h\<close> (as normalized) and source \<open>src\<close>, at most one entry of the output has
  that headline and source, so of two raw items with the same normalized headline and
  source at most one has a corresponding entry, whatever their links; and for any link
  \<open>l\<close> at most one entry of the output has that link, so of two raw items sharing a link
  at most one has a corresponding entry, whatever their headlines.
\<close>

theorem C7_dedup_at_most_one:
  "length (filter (\<lambda>s. (sh_headline s, sh_source s) = (h, src)) (normalizeAndDedup now items)) \<le> 1
   \<and> length (filter (\<lambda>s. sh_link s = l) (normalizeAndDedup now items)) \<le> 1"
  unfolding normalizeAndDedup_def
  by (intro conjI at_most_one dedup_distinct [THEN conjunct1] dedup_distinct [THEN conjunct2])

lemma dedup_example:
  "normalizeAndDedup 1000
     [\<lparr>raw_headline = ''  AI  wins '', raw_source = ''Wired'', raw_link = ''u1'',
       raw_published = Some 900\<rparr>,
      \<lparr>raw_headline = ''AI wins'', raw_source = ''Wired'', raw_link = ''u2'',
       raw_published = Some 950\<rparr>,
      \<lparr>raw_headline = ''ai WINS'', raw_source = ''CNBC'', raw_link = ''u1'',
       raw_published = Some 960\<rparr>,
      \<lparr>raw_headline = ''Other'', raw_source = ''CNBC'', raw_link = ''u3'',
       raw_published = None\<rparr>,
      \<lparr>raw_headline = ''Other'', raw_source = ''CNBC'', raw_link = ''u4'',
       raw_published = Some 990\<rparr>]
   = [\<lparr>sh_headline = ''AI wins'', sh_source = ''Wired'', sh_link = ''u1'', sh_published = 900\<rparr>,
      \<lparr>sh_headline = ''Other'', sh_source = ''CNBC'', sh_link = ''u4'', sh_published = 990\<rparr>]"
  by (simp add: normalizeAndDedup_def normalizeItem_def
      normalizeHeadline_def isSpace_def retained_def retentionDays_def Let_def)

text \<open>
  The sample generator does not deduplicate: with all random numbers 0, its first two
  articles have the same headline and the same source, and different links.
\<close>

lemma getSampleData_repeats_headline_and_source:
  "headline (articles (getSampleData 0 fixedOffset rndZero) ! 0) = headline (articles (getSampleData 0 fixedOffset rndZero) ! 1)
   \<and> article.source (articles (getSampleData 0 fixedOffset rndZero) ! 0)
       = article.source (articles (getSampleData 0 fixedOffset rndZero) ! 1)
   \<and> link (articles (getSampleData 0 fixedOffset rndZero) ! 0) = ''https://example.com/article-0-0''
   \<and> link (articles (getSampleData 0 fixedOffset rndZero) ! 1) = ''https://example.com/article-0-1''"
proof -
  have "dayCount rndZero 0 = 4"
    by (simp add: dayCount_def numArticlesAt_def rndZero_def)
  then have "articles (getSampleData 0 fixedOffset rndZero) ! 0 = newArticle rndZero 0 0 0 1"
    "articles (getSampleData 0 fixedOffset rndZero) ! Suc 0 = newArticle rndZero 0 0 1 5"
    using generated_nth_day0 [of 0 rndZero 0 fixedOffset]
      generated_nth_day0 [of 1 rndZero 0 fixedOffset]
    by (simp_all add: articles_eq_generated [of rndZero 0 fixedOffset, OF rndZero_range
          step_of_calendar [of fixedOffset, OF fixedOffset_step]] fixedOffset_def)
  then show ?thesis
    by (simp add: newArticle_def Let_def rndZero_def)
qed

section \<open>The hook\<close>

lemma useSentimentData_failure:
  assumes "tryFetch outcome = Inl message"
  shows "useSentimentData now cal rnd outcome =
    [\<lparr>data = None, loading = True, error = None\<rparr>,
     \<lparr>data = None, loading = True, error = None\<rparr>,
     \<lparr>data = None, loading = True, error = Some message\<rparr>,
     \<lparr>data = Some (SampleData (getSampleData now cal rnd)), loading = True, error = Some message\<rparr>,
     \<lparr>data = Some (SampleData (getSampleData now cal rnd)), loading = False, error = Some message\<rparr>]"
  using assms by (simp add: useSentimentData_def fetchData_def initialState_def Let_def)

lemma useSentimentData_success:
  assumes "tryFetch outcome = Inr jsonData"
  shows "useSentimentData now cal rnd outcome =
    [\<lparr>data = None, loading = True, error = None\<rparr>,
     \<lparr>data = None, loading = True, error = None\<rparr>,
     \<lparr>data = map_option FromJson jsonData, loading = True, error = None\<rparr>,
     \<lparr>data = map_option FromJson jsonData, loading = True, error = None\<rparr>,
     \<lparr>data = map_option FromJson jsonData, loading = False, error = None\<rparr>]"
  using assms by (simp add: useSentimentData_def fetchData_def initialState_def Let_def)

lemma tryFetch_Inr:
  "tryFetch outcome = Inr jsonData \<longleftrightarrow> outcome = Response True (JsonValue jsonData)"
  by (auto simp: tryFetch_def split: fetch_outcome.splits json_outcome.splits)

text \<open>
  Claim C10, as the code has it. In an execution in which the body of a successful
  response is not the JSON value \<^verbatim>\<open>null\<close>, \<open>data\<close> is not \<^verbatim>\<open>null\<close> in any state
  in which \<open>loading\<close> is false, and the last state is such a state. If \<^verbatim>\<open>fetch\<close>
  fails, or the response is not OK, or its body cannot be parsed, the last state has
  \<open>data\<close> set to the generated sample data and \<open>error\<close> set to the message of the error.
\<close>

theorem C10_data_after_loading:
  assumes "outcome \<noteq> Response True (JsonValue None)"
  shows "(\<forall>s \<in> set (useSentimentData now cal rnd outcome). \<not> loading s \<longrightarrow> data s \<noteq> None)
    \<and> \<not> loading (last (useSentimentData now cal rnd outcome))
    \<and> last (useSentimentData now cal rnd (FetchRejected message :: 'j fetch_outcome))
        = \<lparr>data = Some (SampleData (getSampleData now cal rnd)), loading = False,
           error = Some message\<rparr>
    \<and> last (useSentimentData now cal rnd (Response False body :: 'j fetch_outcome))
        = \<lparr>data = Some (SampleData (getSampleData now cal rnd)), loading = False,
           error = Some ''Failed to fetch sentiment data''\<rparr>
    \<and> last (useSentimentData now cal rnd (Response True (JsonRejected message) :: 'j fetch_outcome))
        = \<lparr>data = Some (SampleData (getSampleData now cal rnd)), loading = False,
           error = Some message\<rparr>"
proof -
  have inv: "(\<forall>s \<in> set (useSentimentData now cal rnd outcome). \<not> loading s \<longrightarrow> data s \<noteq> None)
             \<and> \<not> loading (last (useSentimentData now cal rnd outcome))"
  proof (cases "tryFetch outcome")
    case (Inl m)
    then show ?thesis by (simp add: useSentimentData_failure)
  next
    case (Inr jsonData)
    then have "outcome = Response True (JsonValue jsonData)" by (simp add: tryFetch_Inr)
    with assms obtain j where "jsonData = Some j" by (cases jsonData) auto
    with Inr show ?thesis by (simp add: useSentimentData_success)
  qed
  have "tryFetch (FetchRejected message :: 'j fetch_outcome) = Inl message"
    "tryFetch (Response False body :: 'j fetch_outcome) = Inl ''Failed to fetch sentiment data''"
    "tryFetch (Response True (JsonRejected message) :: 'j fetch_outcome) = Inl message"
    by (simp_all add: tryFetch_def)
  then show ?thesis
    using inv by (simp add: useSentimentData_failure)
qed

text \<open>The hypothesis of the theorem above holds when \<^verbatim>\<open>fetch\<close> fails.\<close>

theorem C10_data_after_loading_witness:
  "(FetchRejected ''Failed to fetch'' :: unit fetch_outcome) \<noteq> Response True (JsonValue None)
   \<and> \<not> loading (last (useSentimentData 0 fixedOffset rndZero (FetchRejected ''Failed to fetch'' :: unit fetch_outcome)))
   \<and> data (last (useSentimentData 0 fixedOffset rndZero (FetchRejected ''Failed to fetch'' :: unit fetch_outcome)))
       \<noteq> None"
proof -
  let ?T = "useSentimentData 0 fixedOffset rndZero (FetchRejected ''Failed to fetch'' :: unit fetch_outcome)"
  have h: "(FetchRejected ''Failed to fetch'' :: unit fetch_outcome) \<noteq> Response True (JsonValue None)"
    by simp
  have "?T \<noteq> []" by (simp add: useSentimentData_def)
  then have "last ?T \<in> set ?T" by (rule last_in_set)
  then show ?thesis
    using h C10_data_after_loading [OF h, of 0 fixedOffset rndZero] by blast
qed

text \<open>
  Claim C10 as stated fails when the response is OK and its body is the JSON value
  \<^verbatim>\<open>null\<close>: the last state has \<open>loading\<close> false and \<open>data\<close> \<^verbatim>\<open>null\<close>.
\<close>

theorem C10_counterexample:
  "\<not> loading (last (useSentimentData 0 fixedOffset rndZero (Response True (JsonValue None) :: unit fetch_outcome)))
   \<and> data (last (useSentimentData 0 fixedOffset rndZero (Response True (JsonValue None) :: unit fetch_outcome)))
       = None"
  by (simp add: useSentimentData_def fetchData_def tryFetch_def initialState_def Let_def)

section \<open>A run in which the moving average is not the mean\<close>

text \<open>
  All calls of \<^verbatim>\<open>Math.random()\<close> return 0, except call 3 (the variation of the first
  article of day 0), which returns 1/64. Every day has four articles and a daily average
  of 0.6, except day 0, the last entry, whose average is 0.601.
\<close>

lemma dbl_C2:
  "dbl (1 / 64) = 1 / 64"
  "dbl (- (31 / 64)) = - (31 / 64)"
  "dbl (3 / 10) = 5404319552844595 / 18014398509481984"
  "dbl (- (167533906138182445 / 1152921504606846976)) = - (5235434566818201 / 36028797018963968)"
  "dbl (3 / 4) = 3 / 4"
  "dbl (21786163197404775 / 36028797018963968) = 2723270399675597 / 4503599627370496"
  "dbl (- (1 / 2)) = - (1 / 2)"
  "dbl (- (5404319552844595 / 36028797018963968)) = - (5404319552844595 / 36028797018963968)"
  "dbl (5 / 16) = 5 / 16"
  "dbl (21617278211378381 / 36028797018963968) = 5404319552844595 / 9007199254740992"
  "dbl (3 / 5) = 5404319552844595 / 9007199254740992"
  "dbl (2723270399675597 / 4503599627370496) = 2723270399675597 / 4503599627370496"
  "dbl (10850860352195789 / 9007199254740992) = 2712715088048947 / 2251799813685248"
  "dbl (16255179905040383 / 9007199254740992) = 231 / 128"
  "dbl (21659499457884979 / 9007199254740992) = 5414874864471245 / 2251799813685248"
  "dbl (5414874864471245 / 9007199254740992) = 5414874864471245 / 9007199254740992"
  "dbl (601 / 1000) = 676665844012417 / 1125899906842624"
  "dbl (5404319552844595 / 9007199254740992) = 5404319552844595 / 9007199254740992"
  "dbl (5404319552844595 / 4503599627370496) = 5404319552844595 / 4503599627370496"
  "dbl (16212958658533785 / 9007199254740992) = 2026619832316723 / 1125899906842624"
  "dbl (21617278211378379 / 9007199254740992) = 5404319552844595 / 2251799813685248"
  "dbl (27021597764222975 / 9007199254740992) = 3"
  "dbl (32425917317067571 / 9007199254740992) = 8106479329266893 / 2251799813685248"
  "dbl (9459811017291727 / 2251799813685248) = 591238188580733 / 140737488355328"
  "dbl (591238188580733 / 985162418487296) = 5405606295595273 / 9007199254740992"
proof -
  show "dbl (1 / 64) = 1 / 64"
    by (rule trans [OF dblI [where e = "- 6" and q = "- 58" and m = "4503599627370496"]])
       (simp_all add: roundEvenI power_int_minus)
  show "dbl (- (31 / 64)) = - (31 / 64)"
    by (rule trans [OF dblI [where e = "- 2" and q = "- 54" and m = "- 8725724278030336"]])
       (simp_all add: roundEvenI power_int_minus)
  show "dbl (3 / 10) = 5404319552844595 / 18014398509481984"
    by (rule trans [OF dblI [where e = "- 2" and q = "- 54" and m = "5404319552844595"]])
       (simp_all add: roundEvenI power_int_minus)
  show "dbl (- (167533906138182445 / 1152921504606846976)) = - (5235434566818201 / 36028797018963968)"
    by (rule trans [OF dblI [where e = "- 3" and q = "- 55" and m = "- 5235434566818201"]])
       (simp_all add: roundEvenI power_int_minus)
  show "dbl (3 / 4) = 3 / 4"
    by (rule trans [OF dblI [where e = "- 1" and q = "- 53" and m = "6755399441055744"]])
       (simp_all add: roundEvenI power_int_minus)
  show "dbl (21786163197404775 / 36028797018963968) = 2723270399675597 / 4503599627370496"
    by (rule trans [OF dblI [where e = "- 1" and q = "- 53" and m = "5446540799351194"]])
       (simp_all add: roundEvenI power_int_minus)
  show "dbl (- (1 / 2)) = - (1 / 2)"
    by (rule trans [OF dblI [where e = "- 1" and q = "- 53" and m = "- 4503599627370496"]])
       (simp_all add: roundEvenI power_int_minus)
  show "dbl (- (5404319552844595 / 36028797018963968)) = - (5404319552844595 / 36028797018963968)"
    by (rule trans [OF dblI [where e = "- 3" and q = "- 55" and m = "- 5404319552844595"]])
       (simp_all add: roundEvenI power_int_minus)
  show "dbl (5 / 16) = 5 / 16"
    by (rule trans [OF dblI [where e = "- 2" and q = "- 54" and m = "5629499534213120"]])
       (simp_all add: roundEvenI power_int_minus)
  show "dbl (21617278211378381 / 36028797018963968) = 5404319552844595 / 9007199254740992"
    by (rule trans [OF dblI [where e = "- 1" and q = "- 53" and m = "5404319552844595"]])
       (simp_all add: roundEvenI power_int_minus)
  show "dbl (3 / 5) = 5404319552844595 / 9007199254740992"
    by (rule trans [OF dblI [where e = "- 1" and q = "- 53" and m = "5404319552844595"]])
       (simp_all add: roundEvenI power_int_minus)
  show "dbl (2723270399675597 / 4503599627370496) = 2723270399675597 / 4503599627370496"
    by (rule trans [OF dblI [where e = "- 1" and q = "- 53" and m = "5446540799351194"]])
       (simp_all add: roundEvenI power_int_minus)
  show "dbl (10850860352195789 / 9007199254740992) = 2712715088048947 / 2251799813685248"
    by (rule trans [OF dblI [where e = "0" and q = "- 52" and m = "5425430176097894"]])
       (simp_all add: roundEven_tie [where n = "5425430176097894"] power_int_minus)
  show "dbl (16255179905040383 / 9007199254740992) = 231 / 128"
    by (rule trans [OF dblI [where e = "0" and q = "- 52" and m = "8127589952520192"]])
       (simp_all add: roundEven_tie [where n = "8127589952520191"] power_int_minus)
  show "dbl (21659499457884979 / 9007199254740992) = 5414874864471245 / 2251799813685248"
    by (rule trans [OF dblI [where e = "1" and q = "- 51" and m = "5414874864471245"]])
       (simp_all add: roundEvenI power_int_minus)
  show "dbl (5414874864471245 / 9007199254740992) = 5414874864471245 / 9007199254740992"
    by (rule trans [OF dblI [where e = "- 1" and q = "- 53" and m = "5414874864471245"]])
       (simp_all add: roundEvenI power_int_minus)
  show "dbl (601 / 1000) = 676665844012417 / 1125899906842624"
    by (rule trans [OF dblI [where e = "- 1" and q = "- 53" and m = "5413326752099336"]])
       (simp_all add: roundEvenI power_int_minus)
  show "dbl (5404319552844595 / 9007199254740992) = 5404319552844595 / 9007199254740992"
    by (rule trans [OF dblI [where e = "- 1" and q = "- 53" and m = "5404319552844595"]])
       (simp_all add: roundEvenI power_int_minus)
  show "dbl (5404319552844595 / 4503599627370496) = 5404319552844595 / 4503599627370496"
    by (rule trans [OF dblI [where e = "0" and q = "- 52" and m = "5404319552844595"]])
       (simp_all add: roundEvenI power_int_minus)
  show "dbl (16212958658533785 / 9007199254740992) = 2026619832316723 / 1125899906842624"
    by (rule trans [OF dblI [where e = "0" and q = "- 52" and m = "8106479329266892"]])
       (simp_all add: roundEven_tie [where n = "8106479329266892"] power_int_minus)
  show "dbl (21617278211378379 / 9007199254740992) = 5404319552844595 / 2251799813685248"
    by (rule trans [OF dblI [where e = "1" and q = "- 51" and m = "5404319552844595"]])
       (simp_all add: roundEvenI power_int_minus)
  show "dbl (27021597764222975 / 9007199254740992) = 3"
    by (rule trans [OF dblI [where e = "1" and q = "- 51" and m = "6755399441055744"]])
       (simp_all add: roundEvenI power_int_minus)
  show "dbl (32425917317067571 / 9007199254740992) = 8106479329266893 / 2251799813685248"
    by (rule trans [OF dblI [where e = "1" and q = "- 51" and m = "8106479329266893"]])
       (simp_all add: roundEvenI power_int_minus)
  show "dbl (9459811017291727 / 2251799813685248) = 591238188580733 / 140737488355328"
    by (rule trans [OF dblI [where e = "2" and q = "- 50" and m = "4729905508645864"]])
       (simp_all add: roundEven_tie [where n = "4729905508645863"] power_int_minus)
  show "dbl (591238188580733 / 985162418487296) = 5405606295595273 / 9007199254740992"
    by (rule trans [OF dblI [where e = "- 1" and q = "- 53" and m = "5405606295595273"]])
       (simp_all add: roundEvenI power_int_minus)
qed

lemma rndC2_range: "dbl (rndC2 c) = rndC2 c \<and> 0 \<le> rndC2 c \<and> rndC2 c < 1"
  by (simp add: rndC2_def dbl_C2)

lemma numArticlesAt_rndC2: "numArticlesAt rndC2 (17 * d) = 4"
proof -
  have "17 * d \<noteq> 3" by presburger
  then show ?thesis by (simp add: numArticlesAt_def rndC2_def)
qed

lemma startCall_rndC2: "startCall rndC2 d = 17 * d"
  by (induction d) (simp_all add: numArticlesAt_rndC2)

lemma dayCount_rndC2: "dayCount rndC2 d = 4"
  by (simp add: dayCount_def startCall_rndC2 numArticlesAt_rndC2)

lemma sentimentOf_rndC2:
  "sentimentOf rndC2 c = (if c = 1 then 2723270399675597 / 4503599627370496 else dbl (3 / 5))"
  by (simp add: sentimentOf_def rndC2_def headlines_def Let_def fadd_def fsub_def fmul_def dbl_C2)

lemma upt_4: "[0..<4] = [0, 1, 2, 3]"
  by (simp add: upt_rec)

lemma daySentiments_rndC2:
  "daySentiments rndC2 d =
     (if d = 0 then [2723270399675597 / 4503599627370496, dbl (3 / 5), dbl (3 / 5), dbl (3 / 5)]
      else [dbl (3 / 5), dbl (3 / 5), dbl (3 / 5), dbl (3 / 5)])"
  by (simp add: daySentiments_def dayCount_rndC2 startCall_rndC2 sentimentOf_rndC2 upt_4)

lemma avg_dayStat_rndC2:
  "daily_stat.avg_sentiment (dayStat rndC2 now cal d) =
     (if d = 0 then dbl (601 / 1000) else dbl (3 / 5))"
  by (simp add: dayStat_def Let_def daySentiments_rndC2 mean_def toFixed3_def fadd_def fdiv_def
      dbl_C2)

text \<open>
  Claim C2 as stated fails there: at index 13 the window holds six times 0.6 and once
  0.601, and \<open>moving_avg\<close> is the double 0.6, which is less than the mean of the window,
  be it taken in double arithmetic (0.6001428571428572) or exactly.
\<close>

theorem C2_counterexample:
  "moving_avg (daily_stats (getSampleData 0 fixedOffset rndC2) ! 13) = Some (dbl (3 / 5))
   \<and> dbl (3 / 5) <
       mean (map (\<lambda>k. daily_stat.avg_sentiment (daily_stats (getSampleData 0 fixedOffset rndC2) ! k))
               [7..<14])
   \<and> dbl (3 / 5) <
       sum_list (map (\<lambda>k. daily_stat.avg_sentiment
                            (daily_stats (getSampleData 0 fixedOffset rndC2) ! k)) [7..<14]) / 7"
proof -
  have avgs: "map (\<lambda>k. daily_stat.avg_sentiment (daily_stats (getSampleData 0 fixedOffset rndC2) ! k))
                [7..<14] =
              [dbl (3 / 5), dbl (3 / 5), dbl (3 / 5), dbl (3 / 5), dbl (3 / 5), dbl (3 / 5),
               dbl (601 / 1000)]"
    by (simp add: avg_daily_stats_nth avg_dayStat_rndC2 upt_rec)
  have m: "mean [dbl (3 / 5), dbl (3 / 5), dbl (3 / 5), dbl (3 / 5), dbl (3 / 5), dbl (3 / 5),
                 dbl (601 / 1000)] = 5405606295595273 / 9007199254740992"
    by (simp add: mean_def fadd_def fdiv_def dbl_C2)
  have "moving_avg (daily_stats (getSampleData 0 fixedOffset rndC2) ! 13) =
          Some (toFixed3 (mean (map (\<lambda>k. daily_stat.avg_sentiment
            (daily_stats (getSampleData 0 fixedOffset rndC2) ! k)) [13 - 6..<13 + 1])))"
    by (rule moving_avg_daily_stats_nth) simp
  moreover have "[13 - 6..<13 + 1] = [7..<(14::nat)]" by simp
  ultimately have "moving_avg (daily_stats (getSampleData 0 fixedOffset rndC2) ! 13) =
      Some (toFixed3 (5405606295595273 / 9007199254740992))"
    by (simp only: avgs m)
  then have "moving_avg (daily_stats (getSampleData 0 fixedOffset rndC2) ! 13) = Some (dbl (3 / 5))"
    by (simp add: toFixed3_def dbl_C2)
  moreover have "dbl (3 / 5) <
       mean (map (\<lambda>k. daily_stat.avg_sentiment (daily_stats (getSampleData 0 fixedOffset rndC2) ! k))
               [7..<14])"
    unfolding avgs m by (simp add: dbl_C2)
  moreover have "dbl (3 / 5) <
       sum_list (map (\<lambda>k. daily_stat.avg_sentiment
                            (daily_stats (getSampleData 0 fixedOffset rndC2) ! k)) [7..<14]) / 7"
    unfolding avgs by (simp add: dbl_C2)
  ultimately show ?thesis by blast
qed

section \<open>The statistics by source\<close>

lemma firstOccurrences_snoc:
  "firstOccurrences (xs @ [x]) =
     (if x \<in> set xs then firstOccurrences xs else firstOccurrences xs @ [x])"
  by (simp add: firstOccurrences_def)

lemma set_firstOccurrences: "set (firstOccurrences xs) = set xs"
  by (simp add: firstOccurrences_def)

lemma distinct_firstOccurrences: "distinct (firstOccurrences xs)"
  by (simp add: firstOccurrences_def)

lemma fst_entryOf: "fst (entryOf arts k) = k"
  by (simp add: entryOf_def)

lemma map_of_entries_None:
  "map_of (map (entryOf arts) keys) k = None \<longleftrightarrow> k \<notin> set keys"
  by (simp add: map_of_eq_None_iff image_image fst_entryOf)

lemma pushScore_entries:
  "distinct keys \<Longrightarrow>
   pushScore (article.source a) (sentiment_score a) (map (entryOf arts) keys)
     = map (entryOf (arts @ [a])) keys"
proof (induction keys)
  case Nil
  show ?case by simp
next
  case (Cons k keys)
  have rest: "map (entryOf arts) keys = map (entryOf (arts @ [a])) keys"
    if "article.source a \<notin> set keys"
    using that by (auto simp: entryOf_def)
  show ?case
  proof (cases "k = article.source a")
    case True
    with Cons.prems have "article.source a \<notin> set keys" by simp
    then show ?thesis using True rest by (simp add: entryOf_def)
  next
    case False
    with Cons show ?thesis by (simp add: entryOf_def)
  qed
qed

lemma addToSourceMap_entries:
  assumes keys: "keys = firstOccurrences (map article.source arts)"
  shows "addToSourceMap a (map (entryOf arts) keys)
           = map (entryOf (arts @ [a])) (firstOccurrences (map article.source (arts @ [a])))"
proof (cases "article.source a \<in> set keys")
  case True
  then have "article.source a \<in> article.source ` set arts"
    by (simp add: keys set_firstOccurrences)
  then show ?thesis
    using True pushScore_entries [of keys a arts]
    by (simp add: addToSourceMap_def map_of_entries_None firstOccurrences_snoc keys
        distinct_firstOccurrences)
next
  case False
  then have new: "article.source a \<notin> article.source ` set arts"
    by (simp add: keys set_firstOccurrences)
  then have "filter (\<lambda>b. article.source b = article.source a) arts = []"
    unfolding filter_empty_conv by (metis imageI)
  then have "map (entryOf arts) keys @ [(article.source a, [], 0)]
             = map (entryOf arts) (keys @ [article.source a])"
    by (simp add: entryOf_def)
  moreover have "distinct (keys @ [article.source a])"
    using False by (simp add: keys distinct_firstOccurrences)
  ultimately show ?thesis
    using False new pushScore_entries [of "keys @ [article.source a]" a arts]
    by (simp add: addToSourceMap_def map_of_entries_None firstOccurrences_snoc keys Let_def)
qed

lemma fold_addToSourceMap:
  "fold addToSourceMap arts [] =
     map (entryOf arts) (firstOccurrences (map article.source arts))"
proof (induction arts rule: rev_induct)
  case Nil
  show ?case by (simp add: firstOccurrences_def)
next
  case (snoc a arts)
  then show ?case
    using addToSourceMap_entries [OF refl, of a arts] by simp
qed

lemma source_sourceEntry: "source_stat.source (sourceEntry (entryOf arts k)) = k"
  by (simp add: sourceEntry_def entryOf_def)

lemma article_count_sourceEntry:
  "source_stat.article_count (sourceEntry (entryOf arts k))
     = length (filter (\<lambda>a. article.source a = k) arts)"
  by (simp add: sourceEntry_def entryOf_def)

lemma sourceStatsOf_eq:
  "sourceStatsOf arts =
     sort_key (\<lambda>s. - int (source_stat.article_count s))
       (map (\<lambda>k. sourceEntry (entryOf arts k)) (firstOccurrences (map article.source arts)))"
  by (simp add: sourceStatsOf_def fold_addToSourceMap comp_def)




subsection \<open>A run with a tie that is not in the order of the names\<close>

text \<open>
  Every call of \<^verbatim>\<open>Math.random()\<close> returns 0, except the calls that choose the source of
  the second and of the fourth article of a day, which return 3/16. Every day has four
  articles, with the sources TechCrunch, Bloomberg, TechCrunch, Bloomberg.
\<close>

lemma dbl_C6:
  "dbl (3 / 16) = 3 / 16"
  "dbl (9 / 4) = 9 / 4"
  "dbl (1 / 4) = 1 / 4"
  "dbl (3) = 3"
proof -
  show "dbl (3 / 16) = 3 / 16"
    by (rule trans [OF dblI [where e = "- 3" and q = "- 55" and m = "6755399441055744"]])
       (simp_all add: roundEvenI power_int_minus)
  show "dbl (9 / 4) = 9 / 4"
    by (rule trans [OF dblI [where e = "1" and q = "- 51" and m = "5066549580791808"]])
       (simp_all add: roundEvenI power_int_minus)
  show "dbl (1 / 4) = 1 / 4"
    by (rule trans [OF dblI [where e = "- 2" and q = "- 54" and m = "4503599627370496"]])
       (simp_all add: roundEvenI power_int_minus)
  show "dbl (3) = 3"
    by (rule trans [OF dblI [where e = "1" and q = "- 51" and m = "6755399441055744"]])
       (simp_all add: roundEvenI power_int_minus)
qed

lemma rndC6_range: "dbl (rndC6 c) = rndC6 c \<and> 0 \<le> rndC6 c \<and> rndC6 c < 1"
  by (simp add: rndC6_def dbl_C6)





lemma source_newArticle:
  "article.source (newArticle rnd dm d i c) =
     sources ! nat \<lfloor>fmul (rnd (c + 1)) (of_nat (length sources))\<rfloor>"
  by (simp add: newArticle_def Let_def)



lemma count_by_source:
  "length (filter (\<lambda>a. article.source a = k) arts) = count_list (map article.source arts) k"
  by (induction arts) simp_all


subsection \<open>A run in which the sort changes the order of the sources\<close>


lemma rndSources_at:
  "rndSources (17 * d + k) = (if k mod 17 = 2 then 1 / 4 else if k mod 17 = 10 then 3 / 16 else 0)"
  by (simp add: rndSources_def)

lemma numArticlesAt_rndSources: "numArticlesAt rndSources (17 * d) = 4"
  using rndSources_at [of d 0] by (simp add: numArticlesAt_def)

lemma startCall_rndSources: "startCall rndSources d = 17 * d"
  by (induction d) (simp_all add: numArticlesAt_rndSources)

lemma dayCount_rndSources: "dayCount rndSources d = 4"
  by (simp add: dayCount_def startCall_rndSources numArticlesAt_rndSources)

lemma sources_dayArticles_rndSources:
  "map article.source (dayArticles rndSources now cal d) =
     [''Reuters'', ''TechCrunch'', ''Bloomberg'', ''TechCrunch'']"
proof -
  have m: "(2 + 17 * d) mod 17 = 2" "(6 + 17 * d) mod 17 = 6"
    "(10 + 17 * d) mod 17 = 10" "(14 + 17 * d) mod 17 = 14"
    by presburger+
  have r: "rndSources (2 + 17 * d) = 1 / 4" "rndSources (6 + 17 * d) = 0"
    "rndSources (10 + 17 * d) = 3 / 16" "rndSources (14 + 17 * d) = 0"
    unfolding rndSources_def m by simp_all
  have r': "rndSources (Suc (Suc (17 * d))) = 1 / 4"
    using r(1) by simp
  show ?thesis
    by (simp add: dayArticles_def dayCount_rndSources startCall_rndSources upt_4
        source_newArticle sources_def r r' fmul_def dbl_C6)
qed

lemma sources_rndSources:
  "map article.source (generated rndSources now cal 14) =
     [''Reuters'', ''TechCrunch'', ''Bloomberg'', ''TechCrunch'',
      ''Reuters'', ''TechCrunch'', ''Bloomberg'', ''TechCrunch'',
      ''Reuters'', ''TechCrunch'', ''Bloomberg'', ''TechCrunch'',
      ''Reuters'', ''TechCrunch'', ''Bloomberg'', ''TechCrunch'',
      ''Reuters'', ''TechCrunch'', ''Bloomberg'', ''TechCrunch'',
      ''Reuters'', ''TechCrunch'', ''Bloomberg'', ''TechCrunch'',
      ''Reuters'', ''TechCrunch'', ''Bloomberg'', ''TechCrunch'',
      ''Reuters'', ''TechCrunch'', ''Bloomberg'', ''TechCrunch'',
      ''Reuters'', ''TechCrunch'', ''Bloomberg'', ''TechCrunch'',
      ''Reuters'', ''TechCrunch'', ''Bloomberg'', ''TechCrunch'',
      ''Reuters'', ''TechCrunch'', ''Bloomberg'', ''TechCrunch'',
      ''Reuters'', ''TechCrunch'', ''Bloomberg'', ''TechCrunch'',
      ''Reuters'', ''TechCrunch'', ''Bloomberg'', ''TechCrunch'',
      ''Reuters'', ''TechCrunch'', ''Bloomberg'', ''TechCrunch'']"
  by (simp add: generated_def map_concat comp_def sources_dayArticles_rndSources upt_14)

lemma source_stats_rndSources:
  "map source_stat.source (source_stats (getSampleData now cal rndSources))
     = [''TechCrunch'', ''Reuters'', ''Bloomberg'']
   \<and> map source_stat.article_count (source_stats (getSampleData now cal rndSources))
     = [28, 14, 14]"
proof -
  have keys: "firstOccurrences (map article.source (generated rndSources now cal 14))
              = [''Reuters'', ''TechCrunch'', ''Bloomberg'']"
    by (simp add: sources_rndSources firstOccurrences_def)
  have count: "source_stat.article_count (sourceEntry (entryOf (generated rndSources now cal 14) k))
               = (if k = ''TechCrunch'' then 28
                  else if k = ''Reuters'' \<or> k = ''Bloomberg'' then 14 else 0)" for k
    by (simp add: article_count_sourceEntry count_by_source sources_rndSources)
  show ?thesis
    by (simp add: source_stats_getSampleData sourceStatsOf_eq keys count source_sourceEntry)
qed


section \<open>The overall summary\<close>



section \<open>Two runs over the same items\<close>

text \<open>
  \<^verbatim>\<open>getSampleData\<close> makes up in one loop what the pipeline fetches and classifies: the
  raw items are the articles it pushes, with their \<open>published\<close> times, and the outputs of
  the classifier are the values of \<^verbatim>\<open>sentiment\<close>, of which the article stores the
  rounded score, the label and the confidence.
\<close>

lemma dayArticles_eq:
  assumes "map (dayArticles rnd1 now1 cal1) [0..<14] = map (dayArticles rnd2 now2 cal2) [0..<14]"
    and "d < 14"
  shows "dayArticles rnd1 now1 cal1 d = dayArticles rnd2 now2 cal2 d"
proof -
  have "map (dayArticles rnd1 now1 cal1) [0..<14] ! d = map (dayArticles rnd2 now2 cal2) [0..<14] ! d"
    by (simp only: assms(1))
  then show ?thesis using assms(2) by (simp del: upt_rec_numeral)
qed

lemma daySentiments_eq:
  assumes "map (daySentiments rnd1) [0..<14] = map (daySentiments rnd2) [0..<14]"
    and "d < 14"
  shows "daySentiments rnd1 d = daySentiments rnd2 d"
proof -
  have "map (daySentiments rnd1) [0..<14] ! d = map (daySentiments rnd2) [0..<14] ! d"
    by (simp only: assms(1))
  then show ?thesis using assms(2) by (simp del: upt_rec_numeral)
qed

lemma generated_eq:
  assumes "map (dayArticles rnd1 now1 cal1) [0..<14] = map (dayArticles rnd2 now2 cal2) [0..<14]"
  shows "n \<le> 14 \<Longrightarrow> generated rnd1 now1 cal1 n = generated rnd2 now2 cal2 n"
proof (induction n)
  case 0
  show ?case by (simp add: generated_def)
next
  case (Suc n)
  then show ?case
    using dayArticles_eq [OF assms, of n] by (simp add: generated_Suc)
qed

lemma dateOf_first_article:
  assumes "0 < dayCount rnd d"
  shows "dateOf now cal d = published (hd (dayArticles rnd now cal d))"
proof -
  have "dayArticles rnd now cal d ! 0 = newArticle rnd (dateOf now cal d) d 0 (startCall rnd d + 1)"
    using assms by (simp add: dayArticles_def)
  moreover have "dayArticles rnd now cal d \<noteq> []"
    using assms by (simp add: dayArticles_def)
  ultimately show ?thesis
    by (simp add: hd_conv_nth published_newArticle)
qed

lemma dayStat_eq:
  assumes valid: "\<And>c. dbl (rnd1 c) = rnd1 c \<and> 0 \<le> rnd1 c \<and> rnd1 c < 1"
    and items: "map (dayArticles rnd1 now1 cal1) [0..<14] = map (dayArticles rnd2 now2 cal2) [0..<14]"
    and outputs: "map (daySentiments rnd1) [0..<14] = map (daySentiments rnd2) [0..<14]"
    and d: "d < 14"
  shows "dayStat rnd1 now1 cal1 d = dayStat rnd2 now2 cal2 d"
proof -
  have arts: "dayArticles rnd1 now1 cal1 d = dayArticles rnd2 now2 cal2 d"
    using items d by (rule dayArticles_eq)
  have count: "dayCount rnd1 d = dayCount rnd2 d"
    using arts length_dayArticles [of rnd1 now1 cal1 d] length_dayArticles [of rnd2 now2 cal2 d]
    by simp
  have "0 < dayCount rnd1 d"
    using dayCount_bounds(1) [of rnd1 d, OF valid] by simp
  then have "dateOf now1 cal1 d = dateOf now2 cal2 d"
    using dateOf_first_article [of rnd1 d now1 cal1] dateOf_first_article [of rnd2 d now2 cal2]
      arts count by simp
  moreover have "generated rnd1 now1 cal1 (Suc d) = generated rnd2 now2 cal2 (Suc d)"
    using d by (intro generated_eq [OF items]) simp
  moreover have "daySentiments rnd1 d = daySentiments rnd2 d"
    using outputs d by (rule daySentiments_eq)
  ultimately show ?thesis
    using count by (simp add: dayStat_def Let_def)
qed

text \<open>
  Claim C8: two runs of \<^verbatim>\<open>getSampleData\<close> that make up the same items and the same
  outputs of the classifier (pass by pass the same articles and the same values of
  \<^verbatim>\<open>sentiment\<close>) return snapshots that agree in every field except \<open>last_updated\<close>,
  whatever the clocks and the random numbers of the two runs are otherwise. The random
  numbers of the first run are doubles in \<open>[0, 1)\<close>.
\<close>

theorem C8_two_runs:
  assumes valid: "\<And>c. dbl (rnd1 c) = rnd1 c \<and> 0 \<le> rnd1 c \<and> rnd1 c < 1"
    and items: "map (dayArticles rnd1 now1 cal1) [0..<14] = map (dayArticles rnd2 now2 cal2) [0..<14]"
    and outputs: "map (daySentiments rnd1) [0..<14] = map (daySentiments rnd2) [0..<14]"
  shows "getSampleData now1 cal1 rnd1 =
           (getSampleData now2 cal2 rnd2)\<lparr>last_updated := last_updated (getSampleData now1 cal1 rnd1)\<rparr>"
proof -
  have gen: "generated rnd1 now1 cal1 14 = generated rnd2 now2 cal2 14"
    by (intro generated_eq [OF items]) simp
  have stats: "map (dayStat rnd1 now1 cal1) [0..<14] = map (dayStat rnd2 now2 cal2) [0..<14]"
    by (rule map_cong [OF refl]) (simp add: dayStat_eq [OF valid items outputs] del: upt_rec_numeral)
  show ?thesis
    by (simp add: getSampleData_def Let_def genDays_eq gen stats del: upt_rec_numeral)
qed

subsection \<open>Two runs an hour apart\<close>

text \<open>
  The first run starts at noon UTC on a host with a fixed offset; call 3 of
  \<^verbatim>\<open>Math.random()\<close> returns 1/64 and all others 0. The second run starts an hour later
  on a host for which that hour is the second pass of a repeated hour, so that its dates
  are those of the first run; there call 1, which chooses the headline of the first
  article, returns 1/64 as well, which chooses the same headline as 0 does.
\<close>

lemma dbl_C8:
  "dbl (5 / 16) = 5 / 16"
  "dbl (1 / 64) = 1 / 64"
proof -
  show "dbl (5 / 16) = 5 / 16"
    by (rule trans [OF dblI [where e = "- 2" and q = "- 54" and m = "5629499534213120"]])
       (simp_all add: roundEvenI power_int_minus)
  show "dbl (1 / 64) = 1 / 64"
    by (rule trans [OF dblI [where e = "- 6" and q = "- 58" and m = "4503599627370496"]])
       (simp_all add: roundEvenI power_int_minus)
qed

lemma dateOf_repeatedHour: "dateOf (now + 3600000) repeatedHour d = now - int d * 86400000"
  by (induction d) (simp_all add: repeatedHour_def)

lemma rndC8_eq: "rndC8 c = (if c = 1 then 1 / 64 else rndC2 c)"
  by (simp add: rndC8_def rndC2_def)

lemma numArticlesAt_rndC8: "numArticlesAt rndC8 (17 * d) = 4"
proof -
  have "17 * d \<noteq> 3" "17 * d \<noteq> 1" by presburger+
  then show ?thesis by (simp add: numArticlesAt_def rndC8_def)
qed

lemma startCall_rndC8: "startCall rndC8 d = 17 * d"
  by (induction d) (simp_all add: numArticlesAt_rndC8)

lemma dayCount_rndC8: "dayCount rndC8 d = 4"
  by (simp add: dayCount_def startCall_rndC8 numArticlesAt_rndC8)

lemma headline_index_rndC8:
  "\<lfloor>fmul (rndC8 c) (of_nat (length headlines))\<rfloor> = \<lfloor>fmul (rndC2 c) (of_nat (length headlines))\<rfloor>"
  by (simp add: rndC8_eq rndC2_def headlines_def fmul_def dbl_C8)

lemma sentimentOf_rndC8: "sentimentOf rndC8 (Suc c) = sentimentOf rndC2 (Suc c)"
  by (simp add: sentimentOf_def Let_def headline_index_rndC8) (simp add: rndC8_eq)

lemma newArticle_rndC8: "newArticle rndC8 dm d i (Suc c) = newArticle rndC2 dm d i (Suc c)"
  by (simp add: newArticle_def Let_def headline_index_rndC8 sentimentOf_rndC8)
     (simp add: rndC8_eq)

lemma dayArticles_rndC8:
  "dayArticles rndC8 (now + 3600000) repeatedHour d = dayArticles rndC2 now fixedOffset d"
  by (simp add: dayArticles_def dayCount_rndC8 dayCount_rndC2 startCall_rndC8 startCall_rndC2
      dateOf_repeatedHour dateOf_fixedOffset newArticle_rndC8)

lemma daySentiments_rndC8: "daySentiments rndC8 d = daySentiments rndC2 d"
  by (simp add: daySentiments_def dayCount_rndC8 dayCount_rndC2 startCall_rndC8 startCall_rndC2
      sentimentOf_rndC8)

text \<open>
  The hypotheses of the theorem above hold for these two runs, which differ in the time
  at which they start and in a random number.
\<close>

theorem C8_two_runs_witness:
  "(\<forall>c. dbl (rndC2 c) = rndC2 c \<and> 0 \<le> rndC2 c \<and> rndC2 c < 1)
   \<and> map (dayArticles rndC2 43200000 fixedOffset) [0..<14]
       = map (dayArticles rndC8 46800000 repeatedHour) [0..<14]
   \<and> map (daySentiments rndC2) [0..<14] = map (daySentiments rndC8) [0..<14]
   \<and> getSampleData 43200000 fixedOffset rndC2 =
        (getSampleData 46800000 repeatedHour rndC8)
          \<lparr>last_updated := last_updated (getSampleData 43200000 fixedOffset rndC2)\<rparr>
   \<and> last_updated (getSampleData 43200000 fixedOffset rndC2)
       \<noteq> last_updated (getSampleData 46800000 repeatedHour rndC8)
   \<and> rndC2 1 \<noteq> rndC8 1"
proof -
  have valid: "\<forall>c. dbl (rndC2 c) = rndC2 c \<and> 0 \<le> rndC2 c \<and> rndC2 c < 1"
    using rndC2_range by blast
  have items: "map (dayArticles rndC2 43200000 fixedOffset) [0..<14]
       = map (dayArticles rndC8 46800000 repeatedHour) [0..<14]"
    using dayArticles_rndC8 [of 43200000] by simp
  have outputs: "map (daySentiments rndC2) [0..<14] = map (daySentiments rndC8) [0..<14]"
    by (simp add: daySentiments_rndC8)
  have other: "last_updated (getSampleData 43200000 fixedOffset rndC2)
       \<noteq> last_updated (getSampleData 46800000 repeatedHour rndC8)" "rndC2 1 \<noteq> rndC8 1"
    by (simp_all add: last_updated_getSampleData rndC2_def rndC8_def)
  show ?thesis
    using C8_two_runs [of rndC2 43200000 fixedOffset rndC8 46800000 repeatedHour, OF _ items outputs]
      valid items outputs other by blast
qed

section \<open>The daily statistics\<close>

lemma threshold_pos: "0 < dbl (1 / 5)"
  by (simp add: dbl_C1)

lemma count_partition:
  "length (filter (\<lambda>a. sentiment_score a > dbl (1 / 5)) xs)
   + length (filter (\<lambda>a. sentiment_score a < - dbl (1 / 5)) xs)
   + length (filter (\<lambda>a. \<bar>sentiment_score a\<bar> \<le> dbl (1 / 5)) xs) = length xs"
  using threshold_pos by (induction xs) auto

lemma step_of_days:
  assumes same_day: "\<And>d. utcDay (dateOf now cal d - 25200000) = utcDay (dateOf now cal d)"
    and earlier: "\<And>d. utcDay (dateOf now cal (Suc d)) < utcDay (dateOf now cal d)"
  shows "dateOf now cal (Suc d) \<le> dateOf now cal d - 25200000"
proof (rule ccontr)
  assume "\<not> dateOf now cal (Suc d) \<le> dateOf now cal d - 25200000"
  then have "dateOf now cal d - 25200000 \<le> dateOf now cal (Suc d)" by simp
  then have "utcDay (dateOf now cal d - 25200000) \<le> utcDay (dateOf now cal (Suc d))"
    by (rule utcDay_mono)
  then show False using same_day [of d] earlier [of d] by simp
qed

lemma utcDay_dayArticles:
  assumes valid: "\<And>c. dbl (rnd c) = rnd c \<and> 0 \<le> rnd c \<and> rnd c < 1"
    and same_day: "\<And>d. utcDay (dateOf now cal d - 25200000) = utcDay (dateOf now cal d)"
    and a: "a \<in> set (dayArticles rnd now cal d)"
  shows "utcDay (published a) = utcDay (dateOf now cal d)"
proof -
  obtain i where "i < dayCount rnd d" "published a = dateOf now cal d - int i * 3600000"
    using published_dayArticles [OF a] by blast
  moreover have "dayCount rnd d \<le> 8" using dayCount_bounds(2) [of rnd d, OF valid] .
  ultimately have "dateOf now cal d - 25200000 \<le> published a" "published a \<le> dateOf now cal d"
    by simp_all
  then have "utcDay (dateOf now cal d - 25200000) \<le> utcDay (published a)"
    "utcDay (published a) \<le> utcDay (dateOf now cal d)"
    by (simp_all add: utcDay_mono)
  then show ?thesis using same_day [of d] by simp
qed

lemma utcDay_dateOf_strict:
  assumes earlier: "\<And>d. utcDay (dateOf now cal (Suc d)) < utcDay (dateOf now cal d)"
  shows "d < d' \<Longrightarrow> utcDay (dateOf now cal d') < utcDay (dateOf now cal d)"
proof (induction d')
  case 0
  then show ?case by simp
next
  case (Suc d')
  show ?case
  proof (cases "d = d'")
    case True
    then show ?thesis using earlier [of d'] by simp
  next
    case False
    then have "utcDay (dateOf now cal d') < utcDay (dateOf now cal d)" using Suc by simp
    then show ?thesis using earlier [of d'] by simp
  qed
qed

lemma utcDay_dateOf_inj:
  assumes earlier: "\<And>d. utcDay (dateOf now cal (Suc d)) < utcDay (dateOf now cal d)"
  shows "utcDay (dateOf now cal e) = utcDay (dateOf now cal d) \<longleftrightarrow> e = d"
  using utcDay_dateOf_strict [of now cal d e, OF earlier]
    utcDay_dateOf_strict [of now cal e d, OF earlier]
  by (cases e d rule: linorder_cases) auto

text \<open>
  Where the seven hours before the date of each pass lie on the same UTC day as that date,
  and the date of each pass lies on an earlier UTC day than the date of the pass before
  it, the articles published on the day of a pass are the articles of that pass.
\<close>

lemma filter_day_generated:
  assumes valid: "\<And>c. dbl (rnd c) = rnd c \<and> 0 \<le> rnd c \<and> rnd c < 1"
    and same_day: "\<And>d. utcDay (dateOf now cal d - 25200000) = utcDay (dateOf now cal d)"
    and earlier: "\<And>d. utcDay (dateOf now cal (Suc d)) < utcDay (dateOf now cal d)"
  shows "filter (\<lambda>a. utcDay (published a) = utcDay (dateOf now cal d) \<and> P a)
           (generated rnd now cal n)
           = (if d < n then filter P (dayArticles rnd now cal d) else [])"
proof (induction n)
  case 0
  show ?case by (simp add: generated_def)
next
  case (Suc n)
  have "filter (\<lambda>a. utcDay (published a) = utcDay (dateOf now cal d) \<and> P a)
          (dayArticles rnd now cal n)
        = filter (\<lambda>a. n = d \<and> P a) (dayArticles rnd now cal n)"
    using utcDay_dayArticles [OF valid same_day, where d = n]
      utcDay_dateOf_inj [of now cal n d, OF earlier]
    by (intro filter_cong refl) simp
  then have day: "filter (\<lambda>a. utcDay (published a) = utcDay (dateOf now cal d) \<and> P a)
          (dayArticles rnd now cal n)
        = (if n = d then filter P (dayArticles rnd now cal d) else [])"
    by simp
  show ?case
    unfolding generated_Suc filter_append Suc day by auto
qed

lemma articlesOn_day:
  assumes valid: "\<And>c. dbl (rnd c) = rnd c \<and> 0 \<le> rnd c \<and> rnd c < 1"
    and same_day: "\<And>d. utcDay (dateOf now cal d - 25200000) = utcDay (dateOf now cal d)"
    and earlier: "\<And>d. utcDay (dateOf now cal (Suc d)) < utcDay (dateOf now cal d)"
    and d: "d < 14"
  shows "articlesOn (getSampleData now cal rnd) (utcDay (dateOf now cal d))
           = dayArticles rnd now cal d"
proof -
  have "articles (getSampleData now cal rnd) = generated rnd now cal 14"
    using valid step_of_days [of now cal, OF same_day earlier]
    by (intro articles_eq_generated) simp_all
  then show ?thesis
    using filter_day_generated [of rnd now cal d "\<lambda>a. True" 14, OF valid same_day earlier] d
    by (simp add: articlesOn_def)
qed

lemma dayStat_counts:
  assumes valid: "\<And>c. dbl (rnd c) = rnd c \<and> 0 \<le> rnd c \<and> rnd c < 1"
    and same_day: "\<And>d. utcDay (dateOf now cal d - 25200000) = utcDay (dateOf now cal d)"
    and earlier: "\<And>d. utcDay (dateOf now cal (Suc d)) < utcDay (dateOf now cal d)"
  shows "positive_count (dayStat rnd now cal d) + negative_count (dayStat rnd now cal d)
         + neutral_count (dayStat rnd now cal d) = dayCount rnd d"
  using count_partition [of "dayArticles rnd now cal d"]
  by (simp add: dayStat_def Let_def filter_day_generated [OF valid same_day earlier]
      length_dayArticles)

lemma score_newArticle:
  "sentiment_score (newArticle rnd dm d i c) = toFixed3 (sentimentOf rnd c)"
  by (simp add: newArticle_def Let_def)

lemma scores_dayArticles:
  "map sentiment_score (dayArticles rnd now cal d) = map toFixed3 (daySentiments rnd d)"
  by (simp add: dayArticles_def daySentiments_def score_newArticle)

lemma avg_sentiment_daily_stats:
  "i < 14 \<Longrightarrow>
   daily_stat.avg_sentiment (daily_stats (getSampleData now cal rnd) ! i) =
     toFixed3 (mean (daySentiments rnd (13 - i)))"
  by (simp add: avg_daily_stats_nth dayStat_def Let_def)

lemma daily_stat_consistency:
  assumes valid: "\<And>c. dbl (rnd c) = rnd c \<and> 0 \<le> rnd c \<and> rnd c < 1"
    and same_day: "\<And>d. utcDay (dateOf now cal d - 25200000) = utcDay (dateOf now cal d)"
    and earlier: "\<And>d. utcDay (dateOf now cal (Suc d)) < utcDay (dateOf now cal d)"
    and i: "i < 14"
  shows "articlesOn (getSampleData now cal rnd) (date (daily_stats (getSampleData now cal rnd) ! i))
           = dayArticles rnd now cal (13 - i)"
    and "positive_count (daily_stats (getSampleData now cal rnd) ! i)
         + negative_count (daily_stats (getSampleData now cal rnd) ! i)
         + neutral_count (daily_stats (getSampleData now cal rnd) ! i)
         = daily_stat.article_count (daily_stats (getSampleData now cal rnd) ! i)"
    and "daily_stat.article_count (daily_stats (getSampleData now cal rnd) ! i)
         = dayCount rnd (13 - i)"
proof -
  show "articlesOn (getSampleData now cal rnd) (date (daily_stats (getSampleData now cal rnd) ! i))
           = dayArticles rnd now cal (13 - i)"
    using i articlesOn_day [of rnd now cal "13 - i", OF valid same_day earlier]
    by (simp add: date_daily_stats_nth)
  show "daily_stat.article_count (daily_stats (getSampleData now cal rnd) ! i)
         = dayCount rnd (13 - i)"
    using i by (simp add: daily_stats_nth dayStat_def Let_def del: upt_rec_numeral)
  then show "positive_count (daily_stats (getSampleData now cal rnd) ! i)
         + negative_count (daily_stats (getSampleData now cal rnd) ! i)
         + neutral_count (daily_stats (getSampleData now cal rnd) ! i)
         = daily_stat.article_count (daily_stats (getSampleData now cal rnd) ! i)"
    using i dayStat_counts [of rnd now cal "13 - i", OF valid same_day earlier]
    by (simp add: daily_stats_nth del: upt_rec_numeral)
qed


section \<open>A run in which rounding changes no sentiment\<close>










lemma utcDay_noon:
  assumes "0 \<le> t" "t < 86400000"
  shows "utcDay (t - int d * 86400000) = - int d"
  using assms div_mult_self1 [of 86400000 t "- int d"] by (simp add: utcDay_def)




section \<open>The two slips in the daily statistics\<close>

text \<open>
  The average of a day is taken over the values of \<^verbatim>\<open>sentiment\<close> before rounding, not
  over the stored scores. In the run below the calls of \<^verbatim>\<open>Math.random()\<close> for the
  headlines of the first day return 5/16 (headline 6, sentiment 0.62) and the calls for
  the variation return 1783/4096 three times and 1769/4096 once; all other calls return 0.
  The sentiments of the day are three times 0.6005908203125 and once 0.5995654296875, with
  the mean 0.60033447265625, and the stored scores three times 0.601 and once 0.6, with the
  mean 0.60075. The run starts at noon UTC on a host with a fixed offset.
\<close>

lemma dbl_slip:
  "dbl (5 / 16) = 5 / 16"
  "dbl (1783 / 4096) = 1783 / 4096"
  "dbl (1769 / 4096) = 1769 / 4096"
  "dbl (- (265 / 4096)) = - (265 / 4096)"
  "dbl (3 / 10) = 5404319552844595 / 18014398509481984"
  "dbl (- (1432144681503817675 / 73786976294838206464)) = - (159 / 8192)"
  "dbl (25 / 4) = 25 / 4"
  "dbl (31 / 50) = 5584463537939415 / 9007199254740992"
  "dbl (5409641189123031 / 9007199254740992) = 5409641189123031 / 9007199254740992"
  "dbl (- (279 / 4096)) = - (279 / 4096)"
  "dbl (- (1507805155243642005 / 73786976294838206464)) = - (5889863887670477 / 288230376151711744)"
  "dbl (172812969326390803 / 288230376151711744) = 5400405291449713 / 9007199254740992"
  "dbl (601 / 1000) = 676665844012417 / 1125899906842624"
  "dbl (3 / 5) = 5404319552844595 / 9007199254740992"
  "dbl (5409641189123031 / 4503599627370496) = 5409641189123031 / 4503599627370496"
  "dbl (16228923567369093 / 9007199254740992) = 4057230891842273 / 2251799813685248"
  "dbl (21629328858818805 / 9007199254740992) = 5407332214704701 / 2251799813685248"
  "dbl (5407332214704701 / 9007199254740992) = 5407332214704701 / 9007199254740992"
  "dbl (676665844012417 / 1125899906842624) = 676665844012417 / 1125899906842624"
  "dbl (676665844012417 / 562949953421312) = 676665844012417 / 562949953421312"
  "dbl (2029997532037251 / 1125899906842624) = 2029997532037251 / 1125899906842624"
  "dbl (21644299809142603 / 9007199254740992) = 5411074952285651 / 2251799813685248"
  "dbl (5411074952285651 / 9007199254740992) = 5411074952285651 / 9007199254740992"
  "dbl (1 / 5) = 3602879701896397 / 18014398509481984"
proof -
  show "dbl (5 / 16) = 5 / 16"
    by (rule trans [OF dblI [where e = "- 2" and q = "- 54" and m = "5629499534213120"]])
       (simp_all add: roundEvenI power_int_minus)
  show "dbl (1783 / 4096) = 1783 / 4096"
    by (rule trans [OF dblI [where e = "- 2" and q = "- 54" and m = "7841716929298432"]])
       (simp_all add: roundEvenI power_int_minus)
  show "dbl (1769 / 4096) = 1769 / 4096"
    by (rule trans [OF dblI [where e = "- 2" and q = "- 54" and m = "7780144278142976"]])
       (simp_all add: roundEvenI power_int_minus)
  show "dbl (- (265 / 4096)) = - (265 / 4096)"
    by (rule trans [OF dblI [where e = "- 4" and q = "- 56" and m = "- 4661929301770240"]])
       (simp_all add: roundEvenI power_int_minus)
  show "dbl (3 / 10) = 5404319552844595 / 18014398509481984"
    by (rule trans [OF dblI [where e = "- 2" and q = "- 54" and m = "5404319552844595"]])
       (simp_all add: roundEvenI power_int_minus)
  show "dbl (- (1432144681503817675 / 73786976294838206464)) = - (159 / 8192)"
    by (rule trans [OF dblI [where e = "- 6" and q = "- 58" and m = "- 5594315162124288"]])
       (simp_all add: roundEvenI power_int_minus)
  show "dbl (25 / 4) = 25 / 4"
    by (rule trans [OF dblI [where e = "2" and q = "- 50" and m = "7036874417766400"]])
       (simp_all add: roundEvenI power_int_minus)
  show "dbl (31 / 50) = 5584463537939415 / 9007199254740992"
    by (rule trans [OF dblI [where e = "- 1" and q = "- 53" and m = "5584463537939415"]])
       (simp_all add: roundEvenI power_int_minus)
  show "dbl (5409641189123031 / 9007199254740992) = 5409641189123031 / 9007199254740992"
    by (rule trans [OF dblI [where e = "- 1" and q = "- 53" and m = "5409641189123031"]])
       (simp_all add: roundEvenI power_int_minus)
  show "dbl (- (279 / 4096)) = - (279 / 4096)"
    by (rule trans [OF dblI [where e = "- 4" and q = "- 56" and m = "- 4908219906392064"]])
       (simp_all add: roundEvenI power_int_minus)
  show "dbl (- (1507805155243642005 / 73786976294838206464)) = - (5889863887670477 / 288230376151711744)"
    by (rule trans [OF dblI [where e = "- 6" and q = "- 58" and m = "- 5889863887670477"]])
       (simp_all add: roundEvenI power_int_minus)
  show "dbl (172812969326390803 / 288230376151711744) = 5400405291449713 / 9007199254740992"
    by (rule trans [OF dblI [where e = "- 1" and q = "- 53" and m = "5400405291449713"]])
       (simp_all add: roundEvenI power_int_minus)
  show "dbl (601 / 1000) = 676665844012417 / 1125899906842624"
    by (rule trans [OF dblI [where e = "- 1" and q = "- 53" and m = "5413326752099336"]])
       (simp_all add: roundEvenI power_int_minus)
  show "dbl (3 / 5) = 5404319552844595 / 9007199254740992"
    by (rule trans [OF dblI [where e = "- 1" and q = "- 53" and m = "5404319552844595"]])
       (simp_all add: roundEvenI power_int_minus)
  show "dbl (5409641189123031 / 4503599627370496) = 5409641189123031 / 4503599627370496"
    by (rule trans [OF dblI [where e = "0" and q = "- 52" and m = "5409641189123031"]])
       (simp_all add: roundEvenI power_int_minus)
  show "dbl (16228923567369093 / 9007199254740992) = 4057230891842273 / 2251799813685248"
    by (rule trans [OF dblI [where e = "0" and q = "- 52" and m = "8114461783684546"]])
       (simp_all add: roundEven_tie [where n = "8114461783684546"] power_int_minus)
  show "dbl (21629328858818805 / 9007199254740992) = 5407332214704701 / 2251799813685248"
    by (rule trans [OF dblI [where e = "1" and q = "- 51" and m = "5407332214704701"]])
       (simp_all add: roundEvenI power_int_minus)
  show "dbl (5407332214704701 / 9007199254740992) = 5407332214704701 / 9007199254740992"
    by (rule trans [OF dblI [where e = "- 1" and q = "- 53" and m = "5407332214704701"]])
       (simp_all add: roundEvenI power_int_minus)
  show "dbl (676665844012417 / 1125899906842624) = 676665844012417 / 1125899906842624"
    by (rule trans [OF dblI [where e = "- 1" and q = "- 53" and m = "5413326752099336"]])
       (simp_all add: roundEvenI power_int_minus)
  show "dbl (676665844012417 / 562949953421312) = 676665844012417 / 562949953421312"
    by (rule trans [OF dblI [where e = "0" and q = "- 52" and m = "5413326752099336"]])
       (simp_all add: roundEvenI power_int_minus)
  show "dbl (2029997532037251 / 1125899906842624) = 2029997532037251 / 1125899906842624"
    by (rule trans [OF dblI [where e = "0" and q = "- 52" and m = "8119990128149004"]])
       (simp_all add: roundEvenI power_int_minus)
  show "dbl (21644299809142603 / 9007199254740992) = 5411074952285651 / 2251799813685248"
    by (rule trans [OF dblI [where e = "1" and q = "- 51" and m = "5411074952285651"]])
       (simp_all add: roundEvenI power_int_minus)
  show "dbl (5411074952285651 / 9007199254740992) = 5411074952285651 / 9007199254740992"
    by (rule trans [OF dblI [where e = "- 1" and q = "- 53" and m = "5411074952285651"]])
       (simp_all add: roundEvenI power_int_minus)
  show "dbl (1 / 5) = 3602879701896397 / 18014398509481984"
    by (rule trans [OF dblI [where e = "- 3" and q = "- 55" and m = "7205759403792794"]])
       (simp_all add: roundEvenI power_int_minus)
qed

lemma rndSlip_range: "dbl (rndSlip c) = rndSlip c \<and> 0 \<le> rndSlip c \<and> rndSlip c < 1"
  by (simp add: rndSlip_def dbl_slip)

lemma numArticlesAt_rndSlip: "numArticlesAt rndSlip (17 * d) = 4"
proof -
  have "17 * d \<noteq> 1" "17 * d \<noteq> 3" "17 * d \<noteq> 5" "17 * d \<noteq> 7" "17 * d \<noteq> 9"
    "17 * d \<noteq> 11" "17 * d \<noteq> 13" "17 * d \<noteq> 15"
    by presburger+
  then show ?thesis by (simp add: numArticlesAt_def rndSlip_def)
qed

lemma startCall_rndSlip: "startCall rndSlip d = 17 * d"
  by (induction d) (simp_all add: numArticlesAt_rndSlip)

lemma dayCount_rndSlip: "dayCount rndSlip d = 4"
  by (simp add: dayCount_def startCall_rndSlip numArticlesAt_rndSlip)

lemma daySentiments_rndSlip:
  "daySentiments rndSlip 0 = [5409641189123031 / 9007199254740992, 5409641189123031 / 9007199254740992,
     5409641189123031 / 9007199254740992, 5400405291449713 / 9007199254740992]"
  by (simp add: daySentiments_def dayCount_rndSlip upt_4 sentimentOf_def Let_def
      rndSlip_def headlines_def fadd_def fsub_def fmul_def dbl_slip)

lemma utcDay_fixedOffset:
  "utcDay (dateOf 43200000 fixedOffset d) = - int d"
  "utcDay (dateOf 43200000 fixedOffset d - 25200000) = - int d"
proof -
  show "utcDay (dateOf 43200000 fixedOffset d) = - int d"
    using utcDay_noon [of 43200000 d] by (simp add: dateOf_fixedOffset)
  have "dateOf 43200000 fixedOffset d - 25200000 = 18000000 - int d * 86400000"
    by (simp add: dateOf_fixedOffset)
  then show "utcDay (dateOf 43200000 fixedOffset d - 25200000) = - int d"
    using utcDay_noon [of 18000000 d] by simp
qed

lemma avg_of_unrounded_sentiments:
  "daily_stat.avg_sentiment (daily_stats (getSampleData 43200000 fixedOffset rndSlip) ! 13)
     = dbl (600 / 1000)
   \<and> map sentiment_score (articlesOn (getSampleData 43200000 fixedOffset rndSlip)
         (date (daily_stats (getSampleData 43200000 fixedOffset rndSlip) ! 13)))
     = [dbl (601 / 1000), dbl (601 / 1000), dbl (601 / 1000), dbl (600 / 1000)]
   \<and> toFixed3 (mean [dbl (601 / 1000), dbl (601 / 1000), dbl (601 / 1000), dbl (600 / 1000)])
     = dbl (601 / 1000)"
proof -
  have valid: "\<And>c. dbl (rndSlip c) = rndSlip c \<and> 0 \<le> rndSlip c \<and> rndSlip c < 1"
    using rndSlip_range by blast
  have same_day: "\<And>d. utcDay (dateOf 43200000 fixedOffset d - 25200000)
            = utcDay (dateOf 43200000 fixedOffset d)"
    by (simp del: dateOf.simps add: utcDay_fixedOffset)
  have earlier: "\<And>d. utcDay (dateOf 43200000 fixedOffset (Suc d))
            < utcDay (dateOf 43200000 fixedOffset d)"
    by (simp del: dateOf.simps add: utcDay_fixedOffset)
  have "articlesOn (getSampleData 43200000 fixedOffset rndSlip)
          (date (daily_stats (getSampleData 43200000 fixedOffset rndSlip) ! 13))
        = dayArticles rndSlip 43200000 fixedOffset (13 - 13)"
    using valid same_day earlier by (intro daily_stat_consistency(1)) simp_all
  then have scores: "map sentiment_score (articlesOn (getSampleData 43200000 fixedOffset rndSlip)
         (date (daily_stats (getSampleData 43200000 fixedOffset rndSlip) ! 13)))
     = [dbl (601 / 1000), dbl (601 / 1000), dbl (601 / 1000), dbl (600 / 1000)]"
    by (simp add: scores_dayArticles daySentiments_rndSlip toFixed3_def dbl_slip)
  have avg: "daily_stat.avg_sentiment (daily_stats (getSampleData 43200000 fixedOffset rndSlip) ! 13)
     = dbl (600 / 1000)"
    by (simp add: avg_sentiment_daily_stats daySentiments_rndSlip mean_def toFixed3_def fadd_def
        fdiv_def dbl_slip)
  have rounded:
    "toFixed3 (mean [dbl (601 / 1000), dbl (601 / 1000), dbl (601 / 1000), dbl (600 / 1000)])
     = dbl (601 / 1000)"
    by (simp add: mean_def toFixed3_def fadd_def fdiv_def dbl_slip)
  show ?thesis
    using avg scores rounded by blast
qed

text \<open>
  The counts of a day are taken over the articles whose \<open>published\<close> begins with the date
  of the pass, but article \<open>i\<close> of a pass is stamped \<open>i\<close> hours before that date. In the
  run in which call 3 of \<^verbatim>\<open>Math.random()\<close> returns 1/64 and all others 0, started at
  0:00 UTC on a host with a fixed offset, only the first of the four articles of the last
  entry is published on its date.
\<close>

lemma dbl_scores_C2:
  "dbl (- (31 / 64)) = - (31 / 64)"
  "dbl (3 / 10) = 5404319552844595 / 18014398509481984"
  "dbl (- (167533906138182445 / 1152921504606846976)) = - (5235434566818201 / 36028797018963968)"
  "dbl (3 / 4) = 3 / 4"
  "dbl (21786163197404775 / 36028797018963968) = 2723270399675597 / 4503599627370496"
  "dbl (- (1 / 2)) = - (1 / 2)"
  "dbl (- (5404319552844595 / 36028797018963968)) = - (5404319552844595 / 36028797018963968)"
  "dbl (21617278211378381 / 36028797018963968) = 5404319552844595 / 9007199254740992"
  "dbl (121 / 200) = 1362338887279575 / 2251799813685248"
  "dbl (3 / 5) = 5404319552844595 / 9007199254740992"
  "dbl (1 / 5) = 3602879701896397 / 18014398509481984"
  "dbl (1362338887279575 / 2251799813685248) = 1362338887279575 / 2251799813685248"
  "dbl (10853675101962895 / 9007199254740992) = 678354693872681 / 562949953421312"
  "dbl (16257994654807491 / 9007199254740992) = 4064498663701873 / 2251799813685248"
  "dbl (21662314207652087 / 9007199254740992) = 2707789275956511 / 1125899906842624"
  "dbl (27066633760496683 / 9007199254740992) = 6766658440124171 / 2251799813685248"
  "dbl (32470953313341279 / 9007199254740992) = 1014717291041915 / 281474976710656"
  "dbl (37875272866185875 / 9007199254740992) = 2367204554136617 / 562949953421312"
  "dbl (43279592419030467 / 9007199254740992) = 676243631547351 / 140737488355328"
  "dbl (48683911971875059 / 9007199254740992) = 3042744498242191 / 562949953421312"
  "dbl (54088231524719651 / 9007199254740992) = 1690257235147489 / 281474976710656"
  "dbl (59492551077564243 / 9007199254740992) = 3718284442347765 / 562949953421312"
  "dbl (64896870630408835 / 9007199254740992) = 507006801800069 / 70368744177664"
  "dbl (70301190183253427 / 9007199254740992) = 4393824386453339 / 562949953421312"
  "dbl (75705509736098019 / 9007199254740992) = 2365797179253063 / 281474976710656"
  "dbl (81109829288942611 / 9007199254740992) = 5069364330558913 / 562949953421312"
  "dbl (86514148841787203 / 9007199254740992) = 1351783575652925 / 140737488355328"
  "dbl (91918468394631795 / 9007199254740992) = 5744904274664487 / 562949953421312"
  "dbl (97322787947476387 / 9007199254740992) = 3041337123358637 / 281474976710656"
  "dbl (102727107500320979 / 9007199254740992) = 6420444218770061 / 562949953421312"
  "dbl (108131427053165571 / 9007199254740992) = 105597096731607 / 8796093022208"
  "dbl (113535746606010163 / 9007199254740992) = 7095984162875635 / 562949953421312"
  "dbl (118940066158854755 / 9007199254740992) = 3716877067464211 / 281474976710656"
  "dbl (124344385711699347 / 9007199254740992) = 7771524106981209 / 562949953421312"
  "dbl (129748705264543939 / 9007199254740992) = 2027323519758499 / 140737488355328"
  "dbl (135153024817388531 / 9007199254740992) = 8447064051086783 / 562949953421312"
  "dbl (140557344370233123 / 9007199254740992) = 4392417011569785 / 281474976710656"
  "dbl (145961663923077715 / 9007199254740992) = 4561301997596179 / 281474976710656"
  "dbl (151365983475922323 / 9007199254740992) = 4730186983622573 / 281474976710656"
  "dbl (156770303028766931 / 9007199254740992) = 4899071969648967 / 281474976710656"
  "dbl (162174622581611539 / 9007199254740992) = 5067956955675361 / 281474976710656"
  "dbl (167578942134456147 / 9007199254740992) = 5236841941701755 / 281474976710656"
  "dbl (172983261687300755 / 9007199254740992) = 5405726927728149 / 281474976710656"
  "dbl (178387581240145363 / 9007199254740992) = 5574611913754543 / 281474976710656"
  "dbl (183791900792989971 / 9007199254740992) = 5743496899780937 / 281474976710656"
  "dbl (189196220345834579 / 9007199254740992) = 5912381885807331 / 281474976710656"
  "dbl (194600539898679187 / 9007199254740992) = 6081266871833725 / 281474976710656"
  "dbl (200004859451523795 / 9007199254740992) = 6250151857860119 / 281474976710656"
  "dbl (205409179004368403 / 9007199254740992) = 6419036843886513 / 281474976710656"
  "dbl (210813498557213011 / 9007199254740992) = 6587921829912907 / 281474976710656"
  "dbl (216217818110057619 / 9007199254740992) = 6756806815939301 / 281474976710656"
  "dbl (221622137662902227 / 9007199254740992) = 6925691801965695 / 281474976710656"
  "dbl (227026457215746835 / 9007199254740992) = 7094576787992089 / 281474976710656"
  "dbl (232430776768591443 / 9007199254740992) = 7263461774018483 / 281474976710656"
  "dbl (237835096321436051 / 9007199254740992) = 7432346760044877 / 281474976710656"
  "dbl (243239415874280659 / 9007199254740992) = 7601231746071271 / 281474976710656"
  "dbl (248643735427125267 / 9007199254740992) = 7770116732097665 / 281474976710656"
  "dbl (254048054979969875 / 9007199254740992) = 7939001718124059 / 281474976710656"
  "dbl (259452374532814483 / 9007199254740992) = 8107886704150453 / 281474976710656"
  "dbl (264856694085659091 / 9007199254740992) = 8276771690176847 / 281474976710656"
  "dbl (270261013638503699 / 9007199254740992) = 8445656676203241 / 281474976710656"
  "dbl (275665333191348307 / 9007199254740992) = 8614541662229635 / 281474976710656"
  "dbl (281069652744192915 / 9007199254740992) = 8783426648256029 / 281474976710656"
  "dbl (286473972297037523 / 9007199254740992) = 8952311634282423 / 281474976710656"
  "dbl (291878291849882131 / 9007199254740992) = 570074788769301 / 17592186044416"
  "dbl (297282611402726707 / 9007199254740992) = 4645040803167605 / 140737488355328"
  "dbl (302686930955571315 / 9007199254740992) = 2364741648090401 / 70368744177664"
  "dbl (2364741648090401 / 3940649673949184) = 2702561883531887 / 4503599627370496"
proof -
  show "dbl (- (31 / 64)) = - (31 / 64)"
    by (rule trans [OF dblI [where e = "- 2" and q = "- 54" and m = "- 8725724278030336"]])
       (simp_all add: roundEvenI power_int_minus)
  show "dbl (3 / 10) = 5404319552844595 / 18014398509481984"
    by (rule trans [OF dblI [where e = "- 2" and q = "- 54" and m = "5404319552844595"]])
       (simp_all add: roundEvenI power_int_minus)
  show "dbl (- (167533906138182445 / 1152921504606846976)) = - (5235434566818201 / 36028797018963968)"
    by (rule trans [OF dblI [where e = "- 3" and q = "- 55" and m = "- 5235434566818201"]])
       (simp_all add: roundEvenI power_int_minus)
  show "dbl (3 / 4) = 3 / 4"
    by (rule trans [OF dblI [where e = "- 1" and q = "- 53" and m = "6755399441055744"]])
       (simp_all add: roundEvenI power_int_minus)
  show "dbl (21786163197404775 / 36028797018963968) = 2723270399675597 / 4503599627370496"
    by (rule trans [OF dblI [where e = "- 1" and q = "- 53" and m = "5446540799351194"]])
       (simp_all add: roundEvenI power_int_minus)
  show "dbl (- (1 / 2)) = - (1 / 2)"
    by (rule trans [OF dblI [where e = "- 1" and q = "- 53" and m = "- 4503599627370496"]])
       (simp_all add: roundEvenI power_int_minus)
  show "dbl (- (5404319552844595 / 36028797018963968)) = - (5404319552844595 / 36028797018963968)"
    by (rule trans [OF dblI [where e = "- 3" and q = "- 55" and m = "- 5404319552844595"]])
       (simp_all add: roundEvenI power_int_minus)
  show "dbl (21617278211378381 / 36028797018963968) = 5404319552844595 / 9007199254740992"
    by (rule trans [OF dblI [where e = "- 1" and q = "- 53" and m = "5404319552844595"]])
       (simp_all add: roundEvenI power_int_minus)
  show "dbl (121 / 200) = 1362338887279575 / 2251799813685248"
    by (rule trans [OF dblI [where e = "- 1" and q = "- 53" and m = "5449355549118300"]])
       (simp_all add: roundEvenI power_int_minus)
  show "dbl (3 / 5) = 5404319552844595 / 9007199254740992"
    by (rule trans [OF dblI [where e = "- 1" and q = "- 53" and m = "5404319552844595"]])
       (simp_all add: roundEvenI power_int_minus)
  show "dbl (1 / 5) = 3602879701896397 / 18014398509481984"
    by (rule trans [OF dblI [where e = "- 3" and q = "- 55" and m = "7205759403792794"]])
       (simp_all add: roundEvenI power_int_minus)
  show "dbl (1362338887279575 / 2251799813685248) = 1362338887279575 / 2251799813685248"
    by (rule trans [OF dblI [where e = "- 1" and q = "- 53" and m = "5449355549118300"]])
       (simp_all add: roundEvenI power_int_minus)
  show "dbl (10853675101962895 / 9007199254740992) = 678354693872681 / 562949953421312"
    by (rule trans [OF dblI [where e = "0" and q = "- 52" and m = "5426837550981448"]])
       (simp_all add: roundEven_tie [where n = "5426837550981447"] power_int_minus)
  show "dbl (16257994654807491 / 9007199254740992) = 4064498663701873 / 2251799813685248"
    by (rule trans [OF dblI [where e = "0" and q = "- 52" and m = "8128997327403746"]])
       (simp_all add: roundEven_tie [where n = "8128997327403745"] power_int_minus)
  show "dbl (21662314207652087 / 9007199254740992) = 2707789275956511 / 1125899906842624"
    by (rule trans [OF dblI [where e = "1" and q = "- 51" and m = "5415578551913022"]])
       (simp_all add: roundEvenI power_int_minus)
  show "dbl (27066633760496683 / 9007199254740992) = 6766658440124171 / 2251799813685248"
    by (rule trans [OF dblI [where e = "1" and q = "- 51" and m = "6766658440124171"]])
       (simp_all add: roundEvenI power_int_minus)
  show "dbl (32470953313341279 / 9007199254740992) = 1014717291041915 / 281474976710656"
    by (rule trans [OF dblI [where e = "1" and q = "- 51" and m = "8117738328335320"]])
       (simp_all add: roundEvenI power_int_minus)
  show "dbl (37875272866185875 / 9007199254740992) = 2367204554136617 / 562949953421312"
    by (rule trans [OF dblI [where e = "2" and q = "- 50" and m = "4734409108273234"]])
       (simp_all add: roundEvenI power_int_minus)
  show "dbl (43279592419030467 / 9007199254740992) = 676243631547351 / 140737488355328"
    by (rule trans [OF dblI [where e = "2" and q = "- 50" and m = "5409949052378808"]])
       (simp_all add: roundEvenI power_int_minus)
  show "dbl (48683911971875059 / 9007199254740992) = 3042744498242191 / 562949953421312"
    by (rule trans [OF dblI [where e = "2" and q = "- 50" and m = "6085488996484382"]])
       (simp_all add: roundEvenI power_int_minus)
  show "dbl (54088231524719651 / 9007199254740992) = 1690257235147489 / 281474976710656"
    by (rule trans [OF dblI [where e = "2" and q = "- 50" and m = "6761028940589956"]])
       (simp_all add: roundEvenI power_int_minus)
  show "dbl (59492551077564243 / 9007199254740992) = 3718284442347765 / 562949953421312"
    by (rule trans [OF dblI [where e = "2" and q = "- 50" and m = "7436568884695530"]])
       (simp_all add: roundEvenI power_int_minus)
  show "dbl (64896870630408835 / 9007199254740992) = 507006801800069 / 70368744177664"
    by (rule trans [OF dblI [where e = "2" and q = "- 50" and m = "8112108828801104"]])
       (simp_all add: roundEvenI power_int_minus)
  show "dbl (70301190183253427 / 9007199254740992) = 4393824386453339 / 562949953421312"
    by (rule trans [OF dblI [where e = "2" and q = "- 50" and m = "8787648772906678"]])
       (simp_all add: roundEvenI power_int_minus)
  show "dbl (75705509736098019 / 9007199254740992) = 2365797179253063 / 281474976710656"
    by (rule trans [OF dblI [where e = "3" and q = "- 49" and m = "4731594358506126"]])
       (simp_all add: roundEvenI power_int_minus)
  show "dbl (81109829288942611 / 9007199254740992) = 5069364330558913 / 562949953421312"
    by (rule trans [OF dblI [where e = "3" and q = "- 49" and m = "5069364330558913"]])
       (simp_all add: roundEvenI power_int_minus)
  show "dbl (86514148841787203 / 9007199254740992) = 1351783575652925 / 140737488355328"
    by (rule trans [OF dblI [where e = "3" and q = "- 49" and m = "5407134302611700"]])
       (simp_all add: roundEvenI power_int_minus)
  show "dbl (91918468394631795 / 9007199254740992) = 5744904274664487 / 562949953421312"
    by (rule trans [OF dblI [where e = "3" and q = "- 49" and m = "5744904274664487"]])
       (simp_all add: roundEvenI power_int_minus)
  show "dbl (97322787947476387 / 9007199254740992) = 3041337123358637 / 281474976710656"
    by (rule trans [OF dblI [where e = "3" and q = "- 49" and m = "6082674246717274"]])
       (simp_all add: roundEvenI power_int_minus)
  show "dbl (102727107500320979 / 9007199254740992) = 6420444218770061 / 562949953421312"
    by (rule trans [OF dblI [where e = "3" and q = "- 49" and m = "6420444218770061"]])
       (simp_all add: roundEvenI power_int_minus)
  show "dbl (108131427053165571 / 9007199254740992) = 105597096731607 / 8796093022208"
    by (rule trans [OF dblI [where e = "3" and q = "- 49" and m = "6758214190822848"]])
       (simp_all add: roundEvenI power_int_minus)
  show "dbl (113535746606010163 / 9007199254740992) = 7095984162875635 / 562949953421312"
    by (rule trans [OF dblI [where e = "3" and q = "- 49" and m = "7095984162875635"]])
       (simp_all add: roundEvenI power_int_minus)
  show "dbl (118940066158854755 / 9007199254740992) = 3716877067464211 / 281474976710656"
    by (rule trans [OF dblI [where e = "3" and q = "- 49" and m = "7433754134928422"]])
       (simp_all add: roundEvenI power_int_minus)
  show "dbl (124344385711699347 / 9007199254740992) = 7771524106981209 / 562949953421312"
    by (rule trans [OF dblI [where e = "3" and q = "- 49" and m = "7771524106981209"]])
       (simp_all add: roundEvenI power_int_minus)
  show "dbl (129748705264543939 / 9007199254740992) = 2027323519758499 / 140737488355328"
    by (rule trans [OF dblI [where e = "3" and q = "- 49" and m = "8109294079033996"]])
       (simp_all add: roundEvenI power_int_minus)
  show "dbl (135153024817388531 / 9007199254740992) = 8447064051086783 / 562949953421312"
    by (rule trans [OF dblI [where e = "3" and q = "- 49" and m = "8447064051086783"]])
       (simp_all add: roundEvenI power_int_minus)
  show "dbl (140557344370233123 / 9007199254740992) = 4392417011569785 / 281474976710656"
    by (rule trans [OF dblI [where e = "3" and q = "- 49" and m = "8784834023139570"]])
       (simp_all add: roundEvenI power_int_minus)
  show "dbl (145961663923077715 / 9007199254740992) = 4561301997596179 / 281474976710656"
    by (rule trans [OF dblI [where e = "4" and q = "- 48" and m = "4561301997596179"]])
       (simp_all add: roundEvenI power_int_minus)
  show "dbl (151365983475922323 / 9007199254740992) = 4730186983622573 / 281474976710656"
    by (rule trans [OF dblI [where e = "4" and q = "- 48" and m = "4730186983622573"]])
       (simp_all add: roundEvenI power_int_minus)
  show "dbl (156770303028766931 / 9007199254740992) = 4899071969648967 / 281474976710656"
    by (rule trans [OF dblI [where e = "4" and q = "- 48" and m = "4899071969648967"]])
       (simp_all add: roundEvenI power_int_minus)
  show "dbl (162174622581611539 / 9007199254740992) = 5067956955675361 / 281474976710656"
    by (rule trans [OF dblI [where e = "4" and q = "- 48" and m = "5067956955675361"]])
       (simp_all add: roundEvenI power_int_minus)
  show "dbl (167578942134456147 / 9007199254740992) = 5236841941701755 / 281474976710656"
    by (rule trans [OF dblI [where e = "4" and q = "- 48" and m = "5236841941701755"]])
       (simp_all add: roundEvenI power_int_minus)
  show "dbl (172983261687300755 / 9007199254740992) = 5405726927728149 / 281474976710656"
    by (rule trans [OF dblI [where e = "4" and q = "- 48" and m = "5405726927728149"]])
       (simp_all add: roundEvenI power_int_minus)
  show "dbl (178387581240145363 / 9007199254740992) = 5574611913754543 / 281474976710656"
    by (rule trans [OF dblI [where e = "4" and q = "- 48" and m = "5574611913754543"]])
       (simp_all add: roundEvenI power_int_minus)
  show "dbl (183791900792989971 / 9007199254740992) = 5743496899780937 / 281474976710656"
    by (rule trans [OF dblI [where e = "4" and q = "- 48" and m = "5743496899780937"]])
       (simp_all add: roundEvenI power_int_minus)
  show "dbl (189196220345834579 / 9007199254740992) = 5912381885807331 / 281474976710656"
    by (rule trans [OF dblI [where e = "4" and q = "- 48" and m = "5912381885807331"]])
       (simp_all add: roundEvenI power_int_minus)
  show "dbl (194600539898679187 / 9007199254740992) = 6081266871833725 / 281474976710656"
    by (rule trans [OF dblI [where e = "4" and q = "- 48" and m = "6081266871833725"]])
       (simp_all add: roundEvenI power_int_minus)
  show "dbl (200004859451523795 / 9007199254740992) = 6250151857860119 / 281474976710656"
    by (rule trans [OF dblI [where e = "4" and q = "- 48" and m = "6250151857860119"]])
       (simp_all add: roundEvenI power_int_minus)
  show "dbl (205409179004368403 / 9007199254740992) = 6419036843886513 / 281474976710656"
    by (rule trans [OF dblI [where e = "4" and q = "- 48" and m = "6419036843886513"]])
       (simp_all add: roundEvenI power_int_minus)
  show "dbl (210813498557213011 / 9007199254740992) = 6587921829912907 / 281474976710656"
    by (rule trans [OF dblI [where e = "4" and q = "- 48" and m = "6587921829912907"]])
       (simp_all add: roundEvenI power_int_minus)
  show "dbl (216217818110057619 / 9007199254740992) = 6756806815939301 / 281474976710656"
    by (rule trans [OF dblI [where e = "4" and q = "- 48" and m = "6756806815939301"]])
       (simp_all add: roundEvenI power_int_minus)
  show "dbl (221622137662902227 / 9007199254740992) = 6925691801965695 / 281474976710656"
    by (rule trans [OF dblI [where e = "4" and q = "- 48" and m = "6925691801965695"]])
       (simp_all add: roundEvenI power_int_minus)
  show "dbl (227026457215746835 / 9007199254740992) = 7094576787992089 / 281474976710656"
    by (rule trans [OF dblI [where e = "4" and q = "- 48" and m = "7094576787992089"]])
       (simp_all add: roundEvenI power_int_minus)
  show "dbl (232430776768591443 / 9007199254740992) = 7263461774018483 / 281474976710656"
    by (rule trans [OF dblI [where e = "4" and q = "- 48" and m = "7263461774018483"]])
       (simp_all add: roundEvenI power_int_minus)
  show "dbl (237835096321436051 / 9007199254740992) = 7432346760044877 / 281474976710656"
    by (rule trans [OF dblI [where e = "4" and q = "- 48" and m = "7432346760044877"]])
       (simp_all add: roundEvenI power_int_minus)
  show "dbl (243239415874280659 / 9007199254740992) = 7601231746071271 / 281474976710656"
    by (rule trans [OF dblI [where e = "4" and q = "- 48" and m = "7601231746071271"]])
       (simp_all add: roundEvenI power_int_minus)
  show "dbl (248643735427125267 / 9007199254740992) = 7770116732097665 / 281474976710656"
    by (rule trans [OF dblI [where e = "4" and q = "- 48" and m = "7770116732097665"]])
       (simp_all add: roundEvenI power_int_minus)
  show "dbl (254048054979969875 / 9007199254740992) = 7939001718124059 / 281474976710656"
    by (rule trans [OF dblI [where e = "4" and q = "- 48" and m = "7939001718124059"]])
       (simp_all add: roundEvenI power_int_minus)
  show "dbl (259452374532814483 / 9007199254740992) = 8107886704150453 / 281474976710656"
    by (rule trans [OF dblI [where e = "4" and q = "- 48" and m = "8107886704150453"]])
       (simp_all add: roundEvenI power_int_minus)
  show "dbl (264856694085659091 / 9007199254740992) = 8276771690176847 / 281474976710656"
    by (rule trans [OF dblI [where e = "4" and q = "- 48" and m = "8276771690176847"]])
       (simp_all add: roundEvenI power_int_minus)
  show "dbl (270261013638503699 / 9007199254740992) = 8445656676203241 / 281474976710656"
    by (rule trans [OF dblI [where e = "4" and q = "- 48" and m = "8445656676203241"]])
       (simp_all add: roundEvenI power_int_minus)
  show "dbl (275665333191348307 / 9007199254740992) = 8614541662229635 / 281474976710656"
    by (rule trans [OF dblI [where e = "4" and q = "- 48" and m = "8614541662229635"]])
       (simp_all add: roundEvenI power_int_minus)
  show "dbl (281069652744192915 / 9007199254740992) = 8783426648256029 / 281474976710656"
    by (rule trans [OF dblI [where e = "4" and q = "- 48" and m = "8783426648256029"]])
       (simp_all add: roundEvenI power_int_minus)
  show "dbl (286473972297037523 / 9007199254740992) = 8952311634282423 / 281474976710656"
    by (rule trans [OF dblI [where e = "4" and q = "- 48" and m = "8952311634282423"]])
       (simp_all add: roundEvenI power_int_minus)
  show "dbl (291878291849882131 / 9007199254740992) = 570074788769301 / 17592186044416"
    by (rule trans [OF dblI [where e = "5" and q = "- 47" and m = "4560598310154408"]])
       (simp_all add: roundEvenI power_int_minus)
  show "dbl (297282611402726707 / 9007199254740992) = 4645040803167605 / 140737488355328"
    by (rule trans [OF dblI [where e = "5" and q = "- 47" and m = "4645040803167605"]])
       (simp_all add: roundEvenI power_int_minus)
  show "dbl (302686930955571315 / 9007199254740992) = 2364741648090401 / 70368744177664"
    by (rule trans [OF dblI [where e = "5" and q = "- 47" and m = "4729483296180802"]])
       (simp_all add: roundEvenI power_int_minus)
  show "dbl (2364741648090401 / 3940649673949184) = 2702561883531887 / 4503599627370496"
    by (rule trans [OF dblI [where e = "- 1" and q = "- 53" and m = "5405123767063774"]])
       (simp_all add: roundEvenI power_int_minus)
qed

lemma dayArticles_rndC2:
  "dayArticles rndC2 now cal d =
     [newArticle rndC2 (dateOf now cal d) d 0 (17 * d + 1),
      newArticle rndC2 (dateOf now cal d) d 1 (17 * d + 5),
      newArticle rndC2 (dateOf now cal d) d 2 (17 * d + 9),
      newArticle rndC2 (dateOf now cal d) d 3 (17 * d + 13)]"
  by (simp add: dayArticles_def dayCount_rndC2 startCall_rndC2 upt_4 add.commute)

lemma counts_by_date_prefix:
  "positive_count (daily_stats (getSampleData 0 fixedOffset rndC2) ! 13)
   + negative_count (daily_stats (getSampleData 0 fixedOffset rndC2) ! 13)
   + neutral_count (daily_stats (getSampleData 0 fixedOffset rndC2) ! 13) = 1
   \<and> daily_stat.article_count (daily_stats (getSampleData 0 fixedOffset rndC2) ! 13) = 4"
proof -
  have counts: "positive_count (dayStat rndC2 0 fixedOffset 0)
                + negative_count (dayStat rndC2 0 fixedOffset 0)
                + neutral_count (dayStat rndC2 0 fixedOffset 0) = 1"
    by (simp add: dayStat_def Let_def generated_def dayArticles_rndC2 published_newArticle
        score_newArticle sentimentOf_rndC2 toFixed3_def utcDay_def fixedOffset_def
        dbl_scores_C2)
  have count4: "daily_stat.article_count (dayStat rndC2 0 fixedOffset 0) = 4"
    by (simp add: dayStat_def Let_def dayCount_rndC2)
  show ?thesis
    using counts count4 by (simp add: daily_stats_nth del: upt_rec_numeral)
qed

section \<open>Sums of doubles at decimal ties\<close>

text \<open>
  The mean of 0.607 and 0.6 is 0.6035 in exact arithmetic, which \<^verbatim>\<open>toFixed(3)\<close> would
  print as 0.604; the sum of the two doubles divided by 2 is a double below 0.6035, and
  the code stores 0.603. In the same way the window 0.651, 0.6 gives 0.625, and 28 pairs of
  scores 0.647, 0.6 have an overall mean that is stored as 0.623.
\<close>

lemma dbl_ties:
  "dbl (607 / 1000) = 2733684973813891 / 4503599627370496"
  "dbl (3 / 5) = 5404319552844595 / 9007199254740992"
  "dbl (651 / 1000) = 2931843357418193 / 4503599627370496"
  "dbl (2733684973813891 / 4503599627370496) = 2733684973813891 / 4503599627370496"
  "dbl (10871689500472377 / 9007199254740992) = 1358961187559047 / 1125899906842624"
  "dbl (1358961187559047 / 2251799813685248) = 1358961187559047 / 2251799813685248"
  "dbl (603 / 1000) = 2715670575304409 / 4503599627370496"
  "dbl (2931843357418193 / 4503599627370496) = 2931843357418193 / 4503599627370496"
  "dbl (11268006267680981 / 9007199254740992) = 2817001566920245 / 2251799813685248"
  "dbl (2817001566920245 / 4503599627370496) = 2817001566920245 / 4503599627370496"
  "dbl (5 / 8) = 5 / 8"
  "dbl (647 / 1000) = 2913828958908711 / 4503599627370496"
  "dbl (2913828958908711 / 4503599627370496) = 2913828958908711 / 4503599627370496"
  "dbl (11231977470662017 / 9007199254740992) = 87749823989547 / 70368744177664"
  "dbl (8529817694239719 / 4503599627370496) = 8529817694239719 / 4503599627370496"
  "dbl (22463954941324033 / 9007199254740992) = 87749823989547 / 35184372088832"
  "dbl (14145806429570727 / 4503599627370496) = 1768225803696341 / 562949953421312"
  "dbl (33695932411986051 / 9007199254740992) = 8423983102996513 / 2251799813685248"
  "dbl (19761795164901737 / 4503599627370496) = 2470224395612717 / 562949953421312"
  "dbl (44927909882648067 / 9007199254740992) = 87749823989547 / 17592186044416"
  "dbl (25377783900232743 / 4503599627370496) = 3172222987529093 / 562949953421312"
  "dbl (56159887353310083 / 9007199254740992) = 438749119947735 / 70368744177664"
  "dbl (30993772635563751 / 4503599627370496) = 3874221579445469 / 562949953421312"
  "dbl (67391864823972099 / 9007199254740992) = 263249471968641 / 35184372088832"
  "dbl (36609761370894759 / 4503599627370496) = 4576220171361845 / 562949953421312"
  "dbl (78623842294634115 / 9007199254740992) = 614248767926829 / 70368744177664"
  "dbl (42225750106225767 / 4503599627370496) = 5278218763278221 / 562949953421312"
  "dbl (89855819765296131 / 9007199254740992) = 87749823989547 / 8796093022208"
  "dbl (47841738841556775 / 4503599627370496) = 5980217355194597 / 562949953421312"
  "dbl (101087797235958147 / 9007199254740992) = 789748415905923 / 70368744177664"
  "dbl (53457727576887783 / 4503599627370496) = 6682215947110973 / 562949953421312"
  "dbl (112319774706620163 / 9007199254740992) = 438749119947735 / 35184372088832"
  "dbl (59073716312218791 / 4503599627370496) = 7384214539027349 / 562949953421312"
  "dbl (123551752177282179 / 9007199254740992) = 965248063885017 / 70368744177664"
  "dbl (64689705047549799 / 4503599627370496) = 8086213130943725 / 562949953421312"
  "dbl (134783729647944195 / 9007199254740992) = 263249471968641 / 17592186044416"
  "dbl (70305693782880807 / 4503599627370496) = 8788211722860101 / 562949953421312"
  "dbl (146015707118606211 / 9007199254740992) = 1140747711864111 / 70368744177664"
  "dbl (75921682518211815 / 4503599627370496) = 2372552578694119 / 140737488355328"
  "dbl (157247684589268211 / 9007199254740992) = 614248767926829 / 35184372088832"
  "dbl (81537671253542823 / 4503599627370496) = 2548052226673213 / 140737488355328"
  "dbl (168479662059930227 / 9007199254740992) = 1316247359843205 / 70368744177664"
  "dbl (87153659988873831 / 4503599627370496) = 2723551874652307 / 140737488355328"
  "dbl (179711639530592243 / 9007199254740992) = 87749823989547 / 4398046511104"
  "dbl (92769648724204839 / 4503599627370496) = 2899051522631401 / 140737488355328"
  "dbl (190943617001254259 / 9007199254740992) = 1491747007822299 / 70368744177664"
  "dbl (98385637459535847 / 4503599627370496) = 3074551170610495 / 140737488355328"
  "dbl (202175594471916275 / 9007199254740992) = 789748415905923 / 35184372088832"
  "dbl (104001626194866855 / 4503599627370496) = 3250050818589589 / 140737488355328"
  "dbl (213407571942578291 / 9007199254740992) = 1667246655801393 / 70368744177664"
  "dbl (109617614930197863 / 4503599627370496) = 3425550466568683 / 140737488355328"
  "dbl (224639549413240307 / 9007199254740992) = 438749119947735 / 17592186044416"
  "dbl (115233603665528871 / 4503599627370496) = 3601050114547777 / 140737488355328"
  "dbl (235871526883902323 / 9007199254740992) = 1842746303780487 / 70368744177664"
  "dbl (120849592400859879 / 4503599627370496) = 3776549762526871 / 140737488355328"
  "dbl (247103504354564339 / 9007199254740992) = 965248063885017 / 35184372088832"
  "dbl (126465581136190887 / 4503599627370496) = 3952049410505965 / 140737488355328"
  "dbl (258335481825226355 / 9007199254740992) = 2018245951759581 / 70368744177664"
  "dbl (132081569871521895 / 4503599627370496) = 4127549058485059 / 140737488355328"
  "dbl (269567459295888371 / 9007199254740992) = 263249471968641 / 8796093022208"
  "dbl (137697558606852903 / 4503599627370496) = 4303048706464153 / 140737488355328"
  "dbl (280799436766550387 / 9007199254740992) = 2193745599738675 / 70368744177664"
  "dbl (143313547342183911 / 4503599627370496) = 4478548354443247 / 140737488355328"
  "dbl (292031414237212403 / 9007199254740992) = 1140747711864111 / 35184372088832"
  "dbl (148929536077514919 / 4503599627370496) = 4654048002422341 / 140737488355328"
  "dbl (303263391707874419 / 9007199254740992) = 2369245247717769 / 70368744177664"
  "dbl (154545524812845927 / 4503599627370496) = 4829547650401435 / 140737488355328"
  "dbl (314495369178536435 / 9007199254740992) = 614248767926829 / 17592186044416"
  "dbl (87749823989547 / 140737488355328) = 87749823989547 / 140737488355328"
  "dbl (623 / 1000) = 2805742567851819 / 4503599627370496"
proof -
  show "dbl (607 / 1000) = 2733684973813891 / 4503599627370496"
    by (rule trans [OF dblI [where e = "- 1" and q = "- 53" and m = "5467369947627782"]])
       (simp_all add: roundEvenI power_int_minus)
  show "dbl (3 / 5) = 5404319552844595 / 9007199254740992"
    by (rule trans [OF dblI [where e = "- 1" and q = "- 53" and m = "5404319552844595"]])
       (simp_all add: roundEvenI power_int_minus)
  show "dbl (651 / 1000) = 2931843357418193 / 4503599627370496"
    by (rule trans [OF dblI [where e = "- 1" and q = "- 53" and m = "5863686714836386"]])
       (simp_all add: roundEvenI power_int_minus)
  show "dbl (2733684973813891 / 4503599627370496) = 2733684973813891 / 4503599627370496"
    by (rule trans [OF dblI [where e = "- 1" and q = "- 53" and m = "5467369947627782"]])
       (simp_all add: roundEvenI power_int_minus)
  show "dbl (10871689500472377 / 9007199254740992) = 1358961187559047 / 1125899906842624"
    by (rule trans [OF dblI [where e = "0" and q = "- 52" and m = "5435844750236188"]])
       (simp_all add: roundEven_tie [where n = "5435844750236188"] power_int_minus)
  show "dbl (1358961187559047 / 2251799813685248) = 1358961187559047 / 2251799813685248"
    by (rule trans [OF dblI [where e = "- 1" and q = "- 53" and m = "5435844750236188"]])
       (simp_all add: roundEvenI power_int_minus)
  show "dbl (603 / 1000) = 2715670575304409 / 4503599627370496"
    by (rule trans [OF dblI [where e = "- 1" and q = "- 53" and m = "5431341150608818"]])
       (simp_all add: roundEvenI power_int_minus)
  show "dbl (2931843357418193 / 4503599627370496) = 2931843357418193 / 4503599627370496"
    by (rule trans [OF dblI [where e = "- 1" and q = "- 53" and m = "5863686714836386"]])
       (simp_all add: roundEvenI power_int_minus)
  show "dbl (11268006267680981 / 9007199254740992) = 2817001566920245 / 2251799813685248"
    by (rule trans [OF dblI [where e = "0" and q = "- 52" and m = "5634003133840490"]])
       (simp_all add: roundEven_tie [where n = "5634003133840490"] power_int_minus)
  show "dbl (2817001566920245 / 4503599627370496) = 2817001566920245 / 4503599627370496"
    by (rule trans [OF dblI [where e = "- 1" and q = "- 53" and m = "5634003133840490"]])
       (simp_all add: roundEvenI power_int_minus)
  show "dbl (5 / 8) = 5 / 8"
    by (rule trans [OF dblI [where e = "- 1" and q = "- 53" and m = "5629499534213120"]])
       (simp_all add: roundEvenI power_int_minus)
  show "dbl (647 / 1000) = 2913828958908711 / 4503599627370496"
    by (rule trans [OF dblI [where e = "- 1" and q = "- 53" and m = "5827657917817422"]])
       (simp_all add: roundEvenI power_int_minus)
  show "dbl (2913828958908711 / 4503599627370496) = 2913828958908711 / 4503599627370496"
    by (rule trans [OF dblI [where e = "- 1" and q = "- 53" and m = "5827657917817422"]])
       (simp_all add: roundEvenI power_int_minus)
  show "dbl (11231977470662017 / 9007199254740992) = 87749823989547 / 70368744177664"
    by (rule trans [OF dblI [where e = "0" and q = "- 52" and m = "5615988735331008"]])
       (simp_all add: roundEven_tie [where n = "5615988735331008"] power_int_minus)
  show "dbl (8529817694239719 / 4503599627370496) = 8529817694239719 / 4503599627370496"
    by (rule trans [OF dblI [where e = "0" and q = "- 52" and m = "8529817694239719"]])
       (simp_all add: roundEvenI power_int_minus)
  show "dbl (22463954941324033 / 9007199254740992) = 87749823989547 / 35184372088832"
    by (rule trans [OF dblI [where e = "1" and q = "- 51" and m = "5615988735331008"]])
       (simp_all add: roundEvenI power_int_minus)
  show "dbl (14145806429570727 / 4503599627370496) = 1768225803696341 / 562949953421312"
    by (rule trans [OF dblI [where e = "1" and q = "- 51" and m = "7072903214785364"]])
       (simp_all add: roundEven_tie [where n = "7072903214785363"] power_int_minus)
  show "dbl (33695932411986051 / 9007199254740992) = 8423983102996513 / 2251799813685248"
    by (rule trans [OF dblI [where e = "1" and q = "- 51" and m = "8423983102996513"]])
       (simp_all add: roundEvenI power_int_minus)
  show "dbl (19761795164901737 / 4503599627370496) = 2470224395612717 / 562949953421312"
    by (rule trans [OF dblI [where e = "2" and q = "- 50" and m = "4940448791225434"]])
       (simp_all add: roundEvenI power_int_minus)
  show "dbl (44927909882648067 / 9007199254740992) = 87749823989547 / 17592186044416"
    by (rule trans [OF dblI [where e = "2" and q = "- 50" and m = "5615988735331008"]])
       (simp_all add: roundEvenI power_int_minus)
  show "dbl (25377783900232743 / 4503599627370496) = 3172222987529093 / 562949953421312"
    by (rule trans [OF dblI [where e = "2" and q = "- 50" and m = "6344445975058186"]])
       (simp_all add: roundEvenI power_int_minus)
  show "dbl (56159887353310083 / 9007199254740992) = 438749119947735 / 70368744177664"
    by (rule trans [OF dblI [where e = "2" and q = "- 50" and m = "7019985919163760"]])
       (simp_all add: roundEvenI power_int_minus)
  show "dbl (30993772635563751 / 4503599627370496) = 3874221579445469 / 562949953421312"
    by (rule trans [OF dblI [where e = "2" and q = "- 50" and m = "7748443158890938"]])
       (simp_all add: roundEvenI power_int_minus)
  show "dbl (67391864823972099 / 9007199254740992) = 263249471968641 / 35184372088832"
    by (rule trans [OF dblI [where e = "2" and q = "- 50" and m = "8423983102996512"]])
       (simp_all add: roundEvenI power_int_minus)
  show "dbl (36609761370894759 / 4503599627370496) = 4576220171361845 / 562949953421312"
    by (rule trans [OF dblI [where e = "3" and q = "- 49" and m = "4576220171361845"]])
       (simp_all add: roundEvenI power_int_minus)
  show "dbl (78623842294634115 / 9007199254740992) = 614248767926829 / 70368744177664"
    by (rule trans [OF dblI [where e = "3" and q = "- 49" and m = "4913990143414632"]])
       (simp_all add: roundEvenI power_int_minus)
  show "dbl (42225750106225767 / 4503599627370496) = 5278218763278221 / 562949953421312"
    by (rule trans [OF dblI [where e = "3" and q = "- 49" and m = "5278218763278221"]])
       (simp_all add: roundEvenI power_int_minus)
  show "dbl (89855819765296131 / 9007199254740992) = 87749823989547 / 8796093022208"
    by (rule trans [OF dblI [where e = "3" and q = "- 49" and m = "5615988735331008"]])
       (simp_all add: roundEvenI power_int_minus)
  show "dbl (47841738841556775 / 4503599627370496) = 5980217355194597 / 562949953421312"
    by (rule trans [OF dblI [where e = "3" and q = "- 49" and m = "5980217355194597"]])
       (simp_all add: roundEvenI power_int_minus)
  show "dbl (101087797235958147 / 9007199254740992) = 789748415905923 / 70368744177664"
    by (rule trans [OF dblI [where e = "3" and q = "- 49" and m = "6317987327247384"]])
       (simp_all add: roundEvenI power_int_minus)
  show "dbl (53457727576887783 / 4503599627370496) = 6682215947110973 / 562949953421312"
    by (rule trans [OF dblI [where e = "3" and q = "- 49" and m = "6682215947110973"]])
       (simp_all add: roundEvenI power_int_minus)
  show "dbl (112319774706620163 / 9007199254740992) = 438749119947735 / 35184372088832"
    by (rule trans [OF dblI [where e = "3" and q = "- 49" and m = "7019985919163760"]])
       (simp_all add: roundEvenI power_int_minus)
  show "dbl (59073716312218791 / 4503599627370496) = 7384214539027349 / 562949953421312"
    by (rule trans [OF dblI [where e = "3" and q = "- 49" and m = "7384214539027349"]])
       (simp_all add: roundEvenI power_int_minus)
  show "dbl (123551752177282179 / 9007199254740992) = 965248063885017 / 70368744177664"
    by (rule trans [OF dblI [where e = "3" and q = "- 49" and m = "7721984511080136"]])
       (simp_all add: roundEvenI power_int_minus)
  show "dbl (64689705047549799 / 4503599627370496) = 8086213130943725 / 562949953421312"
    by (rule trans [OF dblI [where e = "3" and q = "- 49" and m = "8086213130943725"]])
       (simp_all add: roundEvenI power_int_minus)
  show "dbl (134783729647944195 / 9007199254740992) = 263249471968641 / 17592186044416"
    by (rule trans [OF dblI [where e = "3" and q = "- 49" and m = "8423983102996512"]])
       (simp_all add: roundEvenI power_int_minus)
  show "dbl (70305693782880807 / 4503599627370496) = 8788211722860101 / 562949953421312"
    by (rule trans [OF dblI [where e = "3" and q = "- 49" and m = "8788211722860101"]])
       (simp_all add: roundEvenI power_int_minus)
  show "dbl (146015707118606211 / 9007199254740992) = 1140747711864111 / 70368744177664"
    by (rule trans [OF dblI [where e = "4" and q = "- 48" and m = "4562990847456444"]])
       (simp_all add: roundEvenI power_int_minus)
  show "dbl (75921682518211815 / 4503599627370496) = 2372552578694119 / 140737488355328"
    by (rule trans [OF dblI [where e = "4" and q = "- 48" and m = "4745105157388238"]])
       (simp_all add: roundEvenI power_int_minus)
  show "dbl (157247684589268211 / 9007199254740992) = 614248767926829 / 35184372088832"
    by (rule trans [OF dblI [where e = "4" and q = "- 48" and m = "4913990143414632"]])
       (simp_all add: roundEvenI power_int_minus)
  show "dbl (81537671253542823 / 4503599627370496) = 2548052226673213 / 140737488355328"
    by (rule trans [OF dblI [where e = "4" and q = "- 48" and m = "5096104453346426"]])
       (simp_all add: roundEvenI power_int_minus)
  show "dbl (168479662059930227 / 9007199254740992) = 1316247359843205 / 70368744177664"
    by (rule trans [OF dblI [where e = "4" and q = "- 48" and m = "5264989439372820"]])
       (simp_all add: roundEvenI power_int_minus)
  show "dbl (87153659988873831 / 4503599627370496) = 2723551874652307 / 140737488355328"
    by (rule trans [OF dblI [where e = "4" and q = "- 48" and m = "5447103749304614"]])
       (simp_all add: roundEvenI power_int_minus)
  show "dbl (179711639530592243 / 9007199254740992) = 87749823989547 / 4398046511104"
    by (rule trans [OF dblI [where e = "4" and q = "- 48" and m = "5615988735331008"]])
       (simp_all add: roundEvenI power_int_minus)
  show "dbl (92769648724204839 / 4503599627370496) = 2899051522631401 / 140737488355328"
    by (rule trans [OF dblI [where e = "4" and q = "- 48" and m = "5798103045262802"]])
       (simp_all add: roundEvenI power_int_minus)
  show "dbl (190943617001254259 / 9007199254740992) = 1491747007822299 / 70368744177664"
    by (rule trans [OF dblI [where e = "4" and q = "- 48" and m = "5966988031289196"]])
       (simp_all add: roundEvenI power_int_minus)
  show "dbl (98385637459535847 / 4503599627370496) = 3074551170610495 / 140737488355328"
    by (rule trans [OF dblI [where e = "4" and q = "- 48" and m = "6149102341220990"]])
       (simp_all add: roundEvenI power_int_minus)
  show "dbl (202175594471916275 / 9007199254740992) = 789748415905923 / 35184372088832"
    by (rule trans [OF dblI [where e = "4" and q = "- 48" and m = "6317987327247384"]])
       (simp_all add: roundEvenI power_int_minus)
  show "dbl (104001626194866855 / 4503599627370496) = 3250050818589589 / 140737488355328"
    by (rule trans [OF dblI [where e = "4" and q = "- 48" and m = "6500101637179178"]])
       (simp_all add: roundEvenI power_int_minus)
  show "dbl (213407571942578291 / 9007199254740992) = 1667246655801393 / 70368744177664"
    by (rule trans [OF dblI [where e = "4" and q = "- 48" and m = "6668986623205572"]])
       (simp_all add: roundEvenI power_int_minus)
  show "dbl (109617614930197863 / 4503599627370496) = 3425550466568683 / 140737488355328"
    by (rule trans [OF dblI [where e = "4" and q = "- 48" and m = "6851100933137366"]])
       (simp_all add: roundEvenI power_int_minus)
  show "dbl (224639549413240307 / 9007199254740992) = 438749119947735 / 17592186044416"
    by (rule trans [OF dblI [where e = "4" and q = "- 48" and m = "7019985919163760"]])
       (simp_all add: roundEvenI power_int_minus)
  show "dbl (115233603665528871 / 4503599627370496) = 3601050114547777 / 140737488355328"
    by (rule trans [OF dblI [where e = "4" and q = "- 48" and m = "7202100229095554"]])
       (simp_all add: roundEvenI power_int_minus)
  show "dbl (235871526883902323 / 9007199254740992) = 1842746303780487 / 70368744177664"
    by (rule trans [OF dblI [where e = "4" and q = "- 48" and m = "7370985215121948"]])
       (simp_all add: roundEvenI power_int_minus)
  show "dbl (120849592400859879 / 4503599627370496) = 3776549762526871 / 140737488355328"
    by (rule trans [OF dblI [where e = "4" and q = "- 48" and m = "7553099525053742"]])
       (simp_all add: roundEvenI power_int_minus)
  show "dbl (247103504354564339 / 9007199254740992) = 965248063885017 / 35184372088832"
    by (rule trans [OF dblI [where e = "4" and q = "- 48" and m = "7721984511080136"]])
       (simp_all add: roundEvenI power_int_minus)
  show "dbl (126465581136190887 / 4503599627370496) = 3952049410505965 / 140737488355328"
    by (rule trans [OF dblI [where e = "4" and q = "- 48" and m = "7904098821011930"]])
       (simp_all add: roundEvenI power_int_minus)
  show "dbl (258335481825226355 / 9007199254740992) = 2018245951759581 / 70368744177664"
    by (rule trans [OF dblI [where e = "4" and q = "- 48" and m = "8072983807038324"]])
       (simp_all add: roundEvenI power_int_minus)
  show "dbl (132081569871521895 / 4503599627370496) = 4127549058485059 / 140737488355328"
    by (rule trans [OF dblI [where e = "4" and q = "- 48" and m = "8255098116970118"]])
       (simp_all add: roundEvenI power_int_minus)
  show "dbl (269567459295888371 / 9007199254740992) = 263249471968641 / 8796093022208"
    by (rule trans [OF dblI [where e = "4" and q = "- 48" and m = "8423983102996512"]])
       (simp_all add: roundEvenI power_int_minus)
  show "dbl (137697558606852903 / 4503599627370496) = 4303048706464153 / 140737488355328"
    by (rule trans [OF dblI [where e = "4" and q = "- 48" and m = "8606097412928306"]])
       (simp_all add: roundEvenI power_int_minus)
  show "dbl (280799436766550387 / 9007199254740992) = 2193745599738675 / 70368744177664"
    by (rule trans [OF dblI [where e = "4" and q = "- 48" and m = "8774982398954700"]])
       (simp_all add: roundEvenI power_int_minus)
  show "dbl (143313547342183911 / 4503599627370496) = 4478548354443247 / 140737488355328"
    by (rule trans [OF dblI [where e = "4" and q = "- 48" and m = "8957096708886494"]])
       (simp_all add: roundEvenI power_int_minus)
  show "dbl (292031414237212403 / 9007199254740992) = 1140747711864111 / 35184372088832"
    by (rule trans [OF dblI [where e = "5" and q = "- 47" and m = "4562990847456444"]])
       (simp_all add: roundEvenI power_int_minus)
  show "dbl (148929536077514919 / 4503599627370496) = 4654048002422341 / 140737488355328"
    by (rule trans [OF dblI [where e = "5" and q = "- 47" and m = "4654048002422341"]])
       (simp_all add: roundEvenI power_int_minus)
  show "dbl (303263391707874419 / 9007199254740992) = 2369245247717769 / 70368744177664"
    by (rule trans [OF dblI [where e = "5" and q = "- 47" and m = "4738490495435538"]])
       (simp_all add: roundEvenI power_int_minus)
  show "dbl (154545524812845927 / 4503599627370496) = 4829547650401435 / 140737488355328"
    by (rule trans [OF dblI [where e = "5" and q = "- 47" and m = "4829547650401435"]])
       (simp_all add: roundEvenI power_int_minus)
  show "dbl (314495369178536435 / 9007199254740992) = 614248767926829 / 17592186044416"
    by (rule trans [OF dblI [where e = "5" and q = "- 47" and m = "4913990143414632"]])
       (simp_all add: roundEvenI power_int_minus)
  show "dbl (87749823989547 / 140737488355328) = 87749823989547 / 140737488355328"
    by (rule trans [OF dblI [where e = "- 1" and q = "- 53" and m = "5615988735331008"]])
       (simp_all add: roundEvenI power_int_minus)
  show "dbl (623 / 1000) = 2805742567851819 / 4503599627370496"
    by (rule trans [OF dblI [where e = "- 1" and q = "- 53" and m = "5611485135703638"]])
       (simp_all add: roundEvenI power_int_minus)
qed

lemma mean_at_decimal_ties:
  "toFixed3 (mean [dbl (607 / 1000), dbl (3 / 5)]) = dbl (603 / 1000)"
  "toFixed3 (mean [dbl (651 / 1000), dbl (3 / 5)]) = dbl (625 / 1000)"
  "toFixed3 (mean
          [dbl (647 / 1000), dbl (3 / 5), dbl (647 / 1000), dbl (3 / 5),
           dbl (647 / 1000), dbl (3 / 5), dbl (647 / 1000), dbl (3 / 5),
           dbl (647 / 1000), dbl (3 / 5), dbl (647 / 1000), dbl (3 / 5),
           dbl (647 / 1000), dbl (3 / 5), dbl (647 / 1000), dbl (3 / 5),
           dbl (647 / 1000), dbl (3 / 5), dbl (647 / 1000), dbl (3 / 5),
           dbl (647 / 1000), dbl (3 / 5), dbl (647 / 1000), dbl (3 / 5),
           dbl (647 / 1000), dbl (3 / 5), dbl (647 / 1000), dbl (3 / 5),
           dbl (647 / 1000), dbl (3 / 5), dbl (647 / 1000), dbl (3 / 5),
           dbl (647 / 1000), dbl (3 / 5), dbl (647 / 1000), dbl (3 / 5),
           dbl (647 / 1000), dbl (3 / 5), dbl (647 / 1000), dbl (3 / 5),
           dbl (647 / 1000), dbl (3 / 5), dbl (647 / 1000), dbl (3 / 5),
           dbl (647 / 1000), dbl (3 / 5), dbl (647 / 1000), dbl (3 / 5),
           dbl (647 / 1000), dbl (3 / 5), dbl (647 / 1000), dbl (3 / 5),
           dbl (647 / 1000), dbl (3 / 5), dbl (647 / 1000), dbl (3 / 5)])
     = dbl (623 / 1000)"
  by (simp_all add: mean_def toFixed3_def fadd_def fdiv_def dbl_ties)

text \<open>
  In the run in which call 3 of \<^verbatim>\<open>Math.random()\<close> returns 1/64 and all others 0, the
  scores are 0.605 once and 0.6 for the other 55 articles; their mean is the double
  0.6000892857142863, and \<open>overall_sentiment\<close> is 0.6.
\<close>

lemma scores_dayArticles_rndC2:
  "map sentiment_score (dayArticles rndC2 now cal d) =
     (if d = 0 then [dbl (605 / 1000), dbl (3 / 5), dbl (3 / 5), dbl (3 / 5)]
      else [dbl (3 / 5), dbl (3 / 5), dbl (3 / 5), dbl (3 / 5)])"
  by (simp add: scores_dayArticles daySentiments_rndC2 toFixed3_def dbl_scores_C2 dbl_C2)

lemma scores_rndC2:
  "map sentiment_score (generated rndC2 now cal 14) =
     [dbl (605 / 1000), dbl (3 / 5), dbl (3 / 5), dbl (3 / 5),
      dbl (3 / 5), dbl (3 / 5), dbl (3 / 5), dbl (3 / 5),
      dbl (3 / 5), dbl (3 / 5), dbl (3 / 5), dbl (3 / 5),
      dbl (3 / 5), dbl (3 / 5), dbl (3 / 5), dbl (3 / 5),
      dbl (3 / 5), dbl (3 / 5), dbl (3 / 5), dbl (3 / 5),
      dbl (3 / 5), dbl (3 / 5), dbl (3 / 5), dbl (3 / 5),
      dbl (3 / 5), dbl (3 / 5), dbl (3 / 5), dbl (3 / 5),
      dbl (3 / 5), dbl (3 / 5), dbl (3 / 5), dbl (3 / 5),
      dbl (3 / 5), dbl (3 / 5), dbl (3 / 5), dbl (3 / 5),
      dbl (3 / 5), dbl (3 / 5), dbl (3 / 5), dbl (3 / 5),
      dbl (3 / 5), dbl (3 / 5), dbl (3 / 5), dbl (3 / 5),
      dbl (3 / 5), dbl (3 / 5), dbl (3 / 5), dbl (3 / 5),
      dbl (3 / 5), dbl (3 / 5), dbl (3 / 5), dbl (3 / 5),
      dbl (3 / 5), dbl (3 / 5), dbl (3 / 5), dbl (3 / 5)]"
  by (simp add: generated_def map_concat comp_def scores_dayArticles_rndC2 upt_14)

lemma overall_rndC2:
  "mean (map sentiment_score (generated rndC2 now cal 14)) = 2702561883531887 / 4503599627370496
   \<and> overall_sentiment (getSampleData now cal rndC2) = dbl (3 / 5)"
proof -
  have m: "mean (map sentiment_score (generated rndC2 now cal 14)) = 2702561883531887 / 4503599627370496"
    unfolding scores_rndC2 by (simp add: mean_def fadd_def fdiv_def dbl_scores_C2)
  have "toFixed3 (2702561883531887 / 4503599627370496) = dbl (3 / 5)"
    by (simp add: toFixed3_def dbl_scores_C2)
  then show ?thesis
    unfolding overall_sentiment_getSampleData m by simp
qed

end
